theory Spec2Isabelle
  imports Main "HOL-Library.Word"
begin

unbundle bit_operations_syntax

section \<open>Fabric EDM (fabric\_erisc\_datamover.cpp): data model\<close>

text \<open>
  The embedding follows
  \<^verbatim>\<open>ttnn/cpp/ttnn/operations/ccl/kernels/edm_fabric/fabric_erisc_datamover.cpp\<close>.
  One EDM instance is a record of everything the main loop owns or polls; every hardware
  interaction (stream register read, local or remote register update, Ethernet send, NOC
  write, call of the routing task) is appended to an event trace, in program order, so that
  what a step did and in which order can be read off the trace.  \<^verbatim>\<open>ASSERT\<close>s are compiled
  out (release build): they have no effect in the model.
\<close>

subsection \<open>Stream register ids\<close>

definition to_receiver_pkts_sent_id :: nat where
  "to_receiver_pkts_sent_id = 0"

definition to_sender_0_pkts_acked_id :: nat where
  "to_sender_0_pkts_acked_id = 1"

definition to_sender_1_pkts_acked_id :: nat where
  "to_sender_1_pkts_acked_id = 2"

definition to_sender_0_pkts_completed_id :: nat where
  "to_sender_0_pkts_completed_id = 3"

definition to_sender_1_pkts_completed_id :: nat where
  "to_sender_1_pkts_completed_id = 4"

definition to_sender_packets_acked_streams :: "nat list" where
  "to_sender_packets_acked_streams = [to_sender_0_pkts_acked_id, to_sender_1_pkts_acked_id]"

definition to_sender_packets_completed_streams :: "nat list" where
  "to_sender_packets_completed_streams =
     [to_sender_0_pkts_completed_id, to_sender_1_pkts_completed_id]"

text \<open>
  \<^verbatim>\<open>std::array::operator[]\<close> beyond the array's size is undefined behaviour in C++; the model
  makes it an error value.
\<close>

datatype error = ArrayIndexOutOfBounds

definition array_at :: "'a list \<Rightarrow> nat \<Rightarrow> error + 'a" where
  "array_at xs i = (if i < length xs then Inr (xs ! i) else Inl ArrayIndexOutOfBounds)"

subsection \<open>Channel buffer pointers\<close>

text \<open>
  Modelled from the spec: \<^verbatim>\<open>tt::fabric::ChannelBufferPointer\<close> is declared in
  \<^verbatim>\<open>fabric_erisc_datamover_channels.hpp\<close>, which is not among the sources.  Section 4.2 of
  the spec: a counter with \<^verbatim>\<open>increment()\<close>, \<^verbatim>\<open>increment_n(k)\<close>, \<^verbatim>\<open>get_index()\<close> (counter mod N),
  \<^verbatim>\<open>distance_behind(other)\<close> = (other.counter - this.counter) mod 2^bits and
  \<^verbatim>\<open>is_caught_up_to(other)\<close> = (counter == other.counter), all arithmetic modulo a power of
  two wider than N, "e.g., 32-bit".  The width chosen here is 32 bits; a default-constructed
  pointer is 0.
\<close>

type_synonym ChannelBufferPointer = "32 word"

definition increment :: "ChannelBufferPointer \<Rightarrow> ChannelBufferPointer" where
  "increment p = p + 1"

definition increment_n :: "ChannelBufferPointer \<Rightarrow> int \<Rightarrow> ChannelBufferPointer" where
  "increment_n p k = p + word_of_int k"

definition get_ptr :: "ChannelBufferPointer \<Rightarrow> 32 word" where
  "get_ptr p = p"

definition get_buffer_index :: "nat \<Rightarrow> ChannelBufferPointer \<Rightarrow> nat" where
  "get_buffer_index NUM_BUFFERS p = unat p mod NUM_BUFFERS"

definition distance_behind :: "ChannelBufferPointer \<Rightarrow> ChannelBufferPointer \<Rightarrow> nat" where
  "distance_behind p other = unat (other - p)"

definition is_caught_up_to :: "ChannelBufferPointer \<Rightarrow> ChannelBufferPointer \<Rightarrow> bool" where
  "is_caught_up_to p other = (p = other)"

subsection \<open>Structs, enums, compile-time arguments\<close>

text \<open>Tracks receiver channel pointers (from sender side).\<close>

record OutboundReceiverChannelPointers =
  wrptr :: ChannelBufferPointer
  ack_ptr :: ChannelBufferPointer
  completion_ptr :: ChannelBufferPointer

text \<open>Tracks receiver channel pointers (from receiver side).\<close>

record ReceiverChannelPointers =
  wr_sent_ptr :: ChannelBufferPointer
  wr_flush_ptr :: ChannelBufferPointer
  ack_ptr :: ChannelBufferPointer
  completion_ptr :: ChannelBufferPointer

datatype ReceiverState =
    RECEIVER_DONE
  | RECEIVER_SENDING_PAYLOAD
  | RECEIVER_WAITING_FOR_WRITE_FLUSH
  | RECEIVER_WAITING_FOR_ETH

datatype PacketLocalForwardType =
    PACKET_FORWARD_INVALID
  | PACKET_FORWARD_LOCAL_ONLY
  | PACKET_FORWARD_REMOTE_ONLY
  | PACKET_FORWARD_LOCAL_AND_REMOTE

text \<open>
  \<^verbatim>\<open>tt::fabric::TerminationSignal\<close> is declared outside the sources; the three enumerators are
  the ones the file names.
\<close>

datatype TerminationSignal = KEEP_RUNNING | GRACEFULLY_TERMINATE | IMMEDIATELY_TERMINATE

text \<open>
  The packet header (declared in \<^verbatim>\<open>fabric_edm_packet_header.hpp\<close>, not among the sources):
  the file reads \<^verbatim>\<open>get_payload_size_including_header()\<close>, reads and writes \<^verbatim>\<open>src_ch_id\<close>, and
  hands the header to classification helpers; all other fields are the opaque
  \<open>routing_fields\<close>.
\<close>

record PacketHeader =
  routing_fields :: nat
  payload_size_including_header :: nat
  src_ch_id :: "8 word"

text \<open>
  \<^verbatim>\<open>tt::fabric::EdmChannelWorkerInterface\<close>: the three pointers the file uses, and the
  members declared outside the sources (connection semaphore, worker location info,
  the producer's write pointer) as the opaque \<open>worker_side\<close>.
\<close>

record 'w EdmChannelWorkerInterface =
  local_wrptr :: ChannelBufferPointer
  local_ackptr :: ChannelBufferPointer
  local_rdptr :: ChannelBufferPointer
  worker_side :: 'w

text \<open>The template arguments and compile-time arguments of the kernel.\<close>

record Config =
  RECEIVER_NUM_BUFFERS :: nat
  SENDER_NUM_BUFFERS :: nat
  SWITCH_INTERVAL :: nat
  enable_packet_header_recording :: bool
  enable_fabric_counters :: bool

text \<open>
  Read-only helpers that the file calls and that are declared outside the sources are
  parameters: every theorem below holds for every choice of them.  \<open>'w\<close> is the
  worker-written part of a sender channel's interface, \<open>'d\<close> the state of
  \<^verbatim>\<open>tt::fabric::WorkerToFabricEdmSender\<close> (the downstream EDM interface).
\<close>

record ('w, 'd) Collaborators =
  packet_must_be_consumed_locally :: "PacketHeader \<Rightarrow> bool"
  packet_must_be_forwarded_to_next_chip :: "PacketHeader \<Rightarrow> bool"
  edm_has_space_for_packet :: "'d \<Rightarrow> bool"
  has_unsent_payload :: "'w EdmChannelWorkerInterface \<Rightarrow> bool"
  all_eth_packets_completed :: "'w EdmChannelWorkerInterface \<Rightarrow> bool"
  connection_is_live :: "'w EdmChannelWorkerInterface \<Rightarrow> bool"
  has_worker_teardown_request :: "'w EdmChannelWorkerInterface \<Rightarrow> bool"

text \<open>
  Hardware status polled during one main-loop iteration: \<^verbatim>\<open>eth_txq_is_busy()\<close> at its three
  call sites and \<^verbatim>\<open>ncrisc_noc_nonposted_writes_sent(noc_index)\<close>.
\<close>

record HwStatus =
  sender_eth_txq_is_busy :: bool
  receiver_ack_eth_txq_is_busy :: bool
  ncrisc_noc_nonposted_writes_sent :: bool
  receiver_completion_eth_txq_is_busy :: bool

text \<open>Effects on the world outside the modelled state, in program order.\<close>

datatype Event =
    GetPtrVal nat int
  | IncrementLocalUpdatePtrVal nat int
  | RemoteUpdatePtrVal nat int
  | EthSendBytes nat nat PacketHeader nat
  | RecordPacketHeader PacketHeader
  | UpdateWorkerCopyOfReadPtr
  | TeardownConnection "32 word"
  | AddConnection
  | ExecuteChipUnicastToLocalChip PacketHeader
  | ForwardPayloadToDownstreamEdm PacketHeader
  | EthClearSenderChannelAck nat
  | RunRouting

text \<open>
  The state of one EDM: the objects \<^verbatim>\<open>kernel_main\<close> hands to the main loop, the main
  loop's locals, the five stream registers and the termination signal word.  The
  \<^verbatim>\<open>std::array\<close>s of size \<^verbatim>\<open>NUM_SENDER_CHANNELS\<close> are functions of the channel index; a
  channel buffer is a function from slot index to the packet in that slot.
\<close>

record ('w, 'd) EdmState =
  local_sender_channels :: "nat \<Rightarrow> nat \<Rightarrow> PacketHeader"
  local_sender_channel_worker_interfaces :: "nat \<Rightarrow> 'w EdmChannelWorkerInterface"
  channel_connection_established :: "nat \<Rightarrow> bool"
  outbound_to_receiver_channel_pointers :: OutboundReceiverChannelPointers
  local_receiver_channel :: "nat \<Rightarrow> PacketHeader"
  receiver_channel_pointers :: ReceiverChannelPointers
  remote_eth_sender_wrptrs :: "nat \<Rightarrow> ChannelBufferPointer"
  downstream_edm_interface :: 'd
  stream_regs :: "nat \<Rightarrow> int"
  termination_signal :: TerminationSignal
  receiver_state :: ReceiverState
  sender_channel_index :: nat
  did_nothing_count :: nat
  trace :: "Event list"

section \<open>Helpers\<close>

definition emit :: "Event \<Rightarrow> ('w, 'd) EdmState \<Rightarrow> ('w, 'd) EdmState" where
  "emit e s = s\<lparr>trace := trace s @ [e]\<rparr>"

text \<open>\<^verbatim>\<open>get_ptr_val\<close>: an atomic read of the stream register.\<close>

definition get_ptr_val :: "nat \<Rightarrow> ('w, 'd) EdmState \<Rightarrow> int \<times> ('w, 'd) EdmState" where
  "get_ptr_val stream_id s = (stream_regs s stream_id, emit (GetPtrVal stream_id (stream_regs s stream_id)) s)"

text \<open>\<^verbatim>\<open>increment_local_update_ptr_val\<close>: the stream hardware adds \<open>val\<close> to the register.\<close>

definition increment_local_update_ptr_val ::
  "nat \<Rightarrow> int \<Rightarrow> ('w, 'd) EdmState \<Rightarrow> ('w, 'd) EdmState" where
  "increment_local_update_ptr_val stream_id val s =
     emit (IncrementLocalUpdatePtrVal stream_id val)
       (s\<lparr>stream_regs := (stream_regs s)(stream_id := stream_regs s stream_id + val)\<rparr>)"

text \<open>\<^verbatim>\<open>remote_update_ptr_val\<close>: an Ethernet register write that adds \<open>val\<close> to the remote register.\<close>

definition remote_update_ptr_val ::
  "nat \<Rightarrow> int \<Rightarrow> ('w, 'd) EdmState \<Rightarrow> ('w, 'd) EdmState" where
  "remote_update_ptr_val stream_id val s = emit (RemoteUpdatePtrVal stream_id val) s"

text \<open>Methods of \<^verbatim>\<open>OutboundReceiverChannelPointers\<close>.\<close>

definition has_space_for_packet :: "nat \<Rightarrow> OutboundReceiverChannelPointers \<Rightarrow> bool" where
  "has_space_for_packet RECEIVER_NUM_BUFFERS' p =
     (distance_behind (OutboundReceiverChannelPointers.completion_ptr p) (wrptr p)
        < RECEIVER_NUM_BUFFERS')"

definition has_unacknowledged_eth_packets :: "OutboundReceiverChannelPointers \<Rightarrow> bool" where
  "has_unacknowledged_eth_packets p =
     (get_ptr (OutboundReceiverChannelPointers.ack_ptr p) \<noteq> get_ptr (wrptr p))"

definition has_incomplete_eth_packets :: "OutboundReceiverChannelPointers \<Rightarrow> bool" where
  "has_incomplete_eth_packets p =
     (get_ptr (OutboundReceiverChannelPointers.completion_ptr p) \<noteq> get_ptr (wrptr p))"

definition has_unacknowledged_or_incomplete_eth_packets ::
  "OutboundReceiverChannelPointers \<Rightarrow> bool" where
  "has_unacknowledged_or_incomplete_eth_packets p =
     (has_incomplete_eth_packets p \<or> has_unacknowledged_eth_packets p)"

section \<open>Sender side\<close>

text \<open>
  \<^verbatim>\<open>send_next_data\<close>: stamps the header in the local slot with the sender channel index
  (a \<^verbatim>\<open>uint8_t\<close>), sends the slot to the next remote receiver slot, advances the local write
  pointer, adds one to the remote packets-sent register and advances the outbound write
  pointer.  The payload size is read before the stamp, as in the source.
\<close>

definition send_next_data :: "Config \<Rightarrow> nat \<Rightarrow> ('w, 'd) EdmState \<Rightarrow> ('w, 'd) EdmState" where
  "send_next_data cfg ch s =
     (let sender_worker_interface = local_sender_channel_worker_interfaces s ch;
          local_sender_wrptr_buffer_index =
            get_buffer_index (SENDER_NUM_BUFFERS cfg) (local_wrptr sender_worker_interface);
          pkt_header = local_sender_channels s ch local_sender_wrptr_buffer_index;
          payload_size = payload_size_including_header pkt_header;
          pkt_header = pkt_header\<lparr>src_ch_id := of_nat ch\<rparr>;
          s = s\<lparr>local_sender_channels := (local_sender_channels s)
                 (ch := (local_sender_channels s ch)(local_sender_wrptr_buffer_index := pkt_header))\<rparr>;
          dest_index = get_buffer_index (RECEIVER_NUM_BUFFERS cfg)
                         (wrptr (outbound_to_receiver_channel_pointers s));
          s = emit (EthSendBytes local_sender_wrptr_buffer_index dest_index pkt_header payload_size) s;
          s = s\<lparr>local_sender_channel_worker_interfaces := (local_sender_channel_worker_interfaces s)
                 (ch := sender_worker_interface
                    \<lparr>local_wrptr := increment (local_wrptr sender_worker_interface)\<rparr>)\<rparr>;
          s = remote_update_ptr_val to_receiver_pkts_sent_id 1 s;
          s = s\<lparr>outbound_to_receiver_channel_pointers := (outbound_to_receiver_channel_pointers s)
                 \<lparr>wrptr := increment (wrptr (outbound_to_receiver_channel_pointers s))\<rparr>\<rparr>
      in s)"

text \<open>
  \<^verbatim>\<open>run_sender_channel_step\<close>, in the four parts the source has in sequence.  The reference
  parameters of the source are the elements with index \<open>ch\<close> of the main loop's arrays, as
  at its only call site.  First part: "If the receiver has space, and we have one or more
  packets unsent from producer, then send one".
\<close>

definition sender_send_phase ::
  "('w, 'd) Collaborators \<Rightarrow> Config \<Rightarrow> bool \<Rightarrow> nat \<Rightarrow> ('w, 'd) EdmState
     \<Rightarrow> bool \<times> ('w, 'd) EdmState" where
  "sender_send_phase deps cfg eth_txq_is_busy ch s =
     (let receiver_has_space_for_packet =
            has_space_for_packet (RECEIVER_NUM_BUFFERS cfg) (outbound_to_receiver_channel_pointers s);
          iface = local_sender_channel_worker_interfaces s ch
      in if receiver_has_space_for_packet \<and> \<not> eth_txq_is_busy then
           (let has_unsent_packet = has_unsent_payload deps iface
            in if has_unsent_packet then
                 (let sender_backpressured_from_sender_side =
                        (\<not> (distance_behind (local_rdptr iface) (local_wrptr iface)
                              < SENDER_NUM_BUFFERS cfg))
                  in if \<not> sender_backpressured_from_sender_side then
                       (let packet_header = local_sender_channels s ch
                              (get_buffer_index (SENDER_NUM_BUFFERS cfg) (local_wrptr iface));
                            s = (if enable_packet_header_recording cfg
                                 then emit (RecordPacketHeader packet_header) s else s)
                        in (True, send_next_data cfg ch s))
                     else (False, s))
               else (False, s))
         else (False, s))"

text \<open>"Process COMPLETIONs from receiver".\<close>

definition sender_process_completions ::
  "nat \<Rightarrow> ('w, 'd) EdmState \<Rightarrow> error + (int \<times> ('w, 'd) EdmState)" where
  "sender_process_completions ch s =
     (case array_at to_sender_packets_completed_streams ch of
        Inl e \<Rightarrow> Inl e
      | Inr stream_id \<Rightarrow>
          (let (completions_since_last_check, s) = get_ptr_val stream_id s
           in if completions_since_last_check > 0 then
                (let iface = local_sender_channel_worker_interfaces s ch;
                     outbound = outbound_to_receiver_channel_pointers s;
                     s = s\<lparr>outbound_to_receiver_channel_pointers := outbound
                            \<lparr>OutboundReceiverChannelPointers.completion_ptr :=
                               increment_n (OutboundReceiverChannelPointers.completion_ptr outbound)
                                 completions_since_last_check\<rparr>\<rparr>;
                     s = s\<lparr>local_sender_channel_worker_interfaces :=
                            (local_sender_channel_worker_interfaces s)
                            (ch := iface\<lparr>local_rdptr :=
                               increment_n (local_rdptr iface) completions_since_last_check\<rparr>)\<rparr>;
                     s = increment_local_update_ptr_val stream_id (- completions_since_last_check) s
                 in Inr (completions_since_last_check, s))
              else Inr (completions_since_last_check, s)))"

text \<open>
  "Process ACKs from receiver.  ACKs are processed second to avoid any sort of races.  If
  we process acks second, we are guaranteed to see equal to or greater the number of acks
  than completions".
\<close>

definition sender_process_acks ::
  "nat \<Rightarrow> ('w, 'd) EdmState \<Rightarrow> error + (int \<times> ('w, 'd) EdmState)" where
  "sender_process_acks ch s =
     (case array_at to_sender_packets_acked_streams ch of
        Inl e \<Rightarrow> Inl e
      | Inr stream_id \<Rightarrow>
          (let (acks_since_last_check, s) = get_ptr_val stream_id s
           in if acks_since_last_check > 0 then
                (let iface = local_sender_channel_worker_interfaces s ch;
                     s = s\<lparr>local_sender_channel_worker_interfaces :=
                            (local_sender_channel_worker_interfaces s)
                            (ch := iface\<lparr>local_ackptr :=
                               increment_n (local_ackptr iface) acks_since_last_check\<rparr>)\<rparr>;
                     s = (if channel_connection_established s ch
                          then emit UpdateWorkerCopyOfReadPtr s else s);
                     s = increment_local_update_ptr_val stream_id (- acks_since_last_check) s
                 in Inr (acks_since_last_check, s))
              else Inr (acks_since_last_check, s)))"

text \<open>Connection establishment and teardown, the last part of the step.\<close>

definition sender_connection_phase ::
  "('w, 'd) Collaborators \<Rightarrow> Config \<Rightarrow> nat \<Rightarrow> bool \<Rightarrow> ('w, 'd) EdmState
     \<Rightarrow> bool \<times> ('w, 'd) EdmState" where
  "sender_connection_phase deps cfg ch did_something s =
     (let iface = local_sender_channel_worker_interfaces s ch
      in if \<not> channel_connection_established s ch then
           (let connect_requested =
                  (connection_is_live deps iface \<or> has_worker_teardown_request deps iface)
            in if connect_requested then
                 (let s = (if enable_fabric_counters cfg then emit AddConnection s else s);
                      s = s\<lparr>channel_connection_established :=
                             (channel_connection_established s)(ch := True)\<rparr>;
                      s = emit UpdateWorkerCopyOfReadPtr s
                  in (True, s))
               else (did_something, s))
         else if has_worker_teardown_request deps iface then
           (let s = s\<lparr>channel_connection_established :=
                       (channel_connection_established s)(ch := False)\<rparr>;
                s = emit (TeardownConnection (get_ptr (local_rdptr iface))) s
            in (True, s))
         else (did_something, s))"

definition run_sender_channel_step ::
  "('w, 'd) Collaborators \<Rightarrow> Config \<Rightarrow> bool \<Rightarrow> nat \<Rightarrow> ('w, 'd) EdmState
     \<Rightarrow> error + (bool \<times> ('w, 'd) EdmState)" where
  "run_sender_channel_step deps cfg eth_txq_is_busy ch s =
     (let (did_something, s) = sender_send_phase deps cfg eth_txq_is_busy ch s
      in case sender_process_completions ch s of
           Inl e \<Rightarrow> Inl e
         | Inr (completions_since_last_check, s) \<Rightarrow>
             (case sender_process_acks ch s of
                Inl e \<Rightarrow> Inl e
              | Inr (acks_since_last_check, s) \<Rightarrow>
                  (let did_something =
                         (did_something \<or> completions_since_last_check + acks_since_last_check > 0)
                   in Inr (sender_connection_phase deps cfg ch did_something s))))"

section \<open>Receiver side\<close>

text \<open>
  \<^verbatim>\<open>receiver_send_received_ack\<close>: acknowledges to the sender channel named by the
  \<^verbatim>\<open>src_ch_id\<close> of the header in the slot of the given pointer (the ack pointer).
\<close>

definition receiver_send_received_ack ::
  "Config \<Rightarrow> ChannelBufferPointer \<Rightarrow> ('w, 'd) EdmState \<Rightarrow> error + ('w, 'd) EdmState" where
  "receiver_send_received_ack cfg receiver_channel_ptr s =
     (let receiver_buffer_index = get_buffer_index (RECEIVER_NUM_BUFFERS cfg) receiver_channel_ptr;
          pkt_header = local_receiver_channel s receiver_buffer_index;
          src_id = unat (src_ch_id pkt_header)
      in case array_at to_sender_packets_acked_streams src_id of
           Inl e \<Rightarrow> Inl e
         | Inr stream_id \<Rightarrow> Inr (remote_update_ptr_val stream_id 1 s))"

text \<open>
  \<^verbatim>\<open>receiver_send_completion_ack\<close>, called with the completion pointer: sends the completion
  to the sender channel named by the header's \<^verbatim>\<open>src_ch_id\<close>, advances the completion pointer
  and the mirrored pointer of that sender channel.
\<close>

definition receiver_send_completion_ack ::
  "Config \<Rightarrow> ('w, 'd) EdmState \<Rightarrow> error + ('w, 'd) EdmState" where
  "receiver_send_completion_ack cfg s =
     (let receiver_channel_ptr = completion_ptr (receiver_channel_pointers s);
          receiver_buffer_index = get_buffer_index (RECEIVER_NUM_BUFFERS cfg) receiver_channel_ptr;
          pkt_header = local_receiver_channel s receiver_buffer_index;
          src_id = unat (src_ch_id pkt_header)
      in case array_at to_sender_packets_completed_streams src_id of
           Inl e \<Rightarrow> Inl e
         | Inr stream_id \<Rightarrow>
             (let s = remote_update_ptr_val stream_id 1 s;
                  s = s\<lparr>receiver_channel_pointers := (receiver_channel_pointers s)
                         \<lparr>completion_ptr := increment receiver_channel_ptr\<rparr>\<rparr>;
                  s = s\<lparr>remote_eth_sender_wrptrs := (remote_eth_sender_wrptrs s)
                         (src_id := increment (remote_eth_sender_wrptrs s src_id))\<rparr>
              in Inr s))"

text \<open>
  \<^verbatim>\<open>static_cast<PacketLocalForwardType>(packet_needs_forwarding << 1 | local_chip_is_packet_destination)\<close>:
  the operand is one of 0, 1, 2, 3.
\<close>

definition PacketLocalForwardType_of :: "nat \<Rightarrow> PacketLocalForwardType" where
  "PacketLocalForwardType_of n =
     (if n = 0 then PACKET_FORWARD_INVALID
      else if n = 1 then PACKET_FORWARD_LOCAL_ONLY
      else if n = 2 then PACKET_FORWARD_REMOTE_ONLY
      else PACKET_FORWARD_LOCAL_AND_REMOTE)"

definition get_packet_local_forward_type ::
  "('w, 'd) Collaborators \<Rightarrow> PacketHeader \<Rightarrow> PacketLocalForwardType" where
  "get_packet_local_forward_type deps packet_header =
     (let local_chip_is_packet_destination = packet_must_be_consumed_locally deps packet_header;
          packet_needs_forwarding = packet_must_be_forwarded_to_next_chip deps packet_header
      in PacketLocalForwardType_of
           (push_bit 1 (of_bool packet_needs_forwarding) OR of_bool local_chip_is_packet_destination))"

definition can_forward_packet_completely ::
  "('w, 'd) Collaborators \<Rightarrow> PacketHeader \<Rightarrow> 'd \<Rightarrow> bool" where
  "can_forward_packet_completely deps packet_header downstream =
     (case get_packet_local_forward_type deps packet_header of
        PACKET_FORWARD_INVALID \<Rightarrow> False
      | PACKET_FORWARD_LOCAL_ONLY \<Rightarrow> True
      | PACKET_FORWARD_REMOTE_ONLY \<Rightarrow> edm_has_space_for_packet deps downstream
      | PACKET_FORWARD_LOCAL_AND_REMOTE \<Rightarrow> edm_has_space_for_packet deps downstream)"

text \<open>
  \<^verbatim>\<open>receiver_forward_packet\<close>: the local write and the hand-over to the downstream EDM are
  events; in the \<^verbatim>\<open>PACKET_FORWARD_INVALID\<close> case only the compiled-out \<^verbatim>\<open>ASSERT(false)\<close> stands.
\<close>

definition receiver_forward_packet ::
  "('w, 'd) Collaborators \<Rightarrow> PacketHeader \<Rightarrow> ('w, 'd) EdmState \<Rightarrow> ('w, 'd) EdmState" where
  "receiver_forward_packet deps packet_start s =
     (case get_packet_local_forward_type deps packet_start of
        PACKET_FORWARD_LOCAL_ONLY \<Rightarrow> emit (ExecuteChipUnicastToLocalChip packet_start) s
      | PACKET_FORWARD_REMOTE_ONLY \<Rightarrow> emit (ForwardPayloadToDownstreamEdm packet_start) s
      | PACKET_FORWARD_LOCAL_AND_REMOTE \<Rightarrow>
          emit (ForwardPayloadToDownstreamEdm packet_start)
            (emit (ExecuteChipUnicastToLocalChip packet_start) s)
      | PACKET_FORWARD_INVALID \<Rightarrow> s)"

text \<open>
  \<^verbatim>\<open>run_receiver_channel_step\<close>, in the four parts the source has in sequence: acknowledge a
  newly arrived packet; forward the packet at the write-sent pointer; retire flushed
  writes; send a completion.
\<close>

definition receiver_ack_phase ::
  "Config \<Rightarrow> HwStatus \<Rightarrow> ('w, 'd) EdmState \<Rightarrow> error + ('w, 'd) EdmState" where
  "receiver_ack_phase cfg hw s =
     (let (pkts_received_since_last_check, s) = get_ptr_val to_receiver_pkts_sent_id s;
          pkts_received = (pkts_received_since_last_check > 0);
          can_send_over_eth = (\<not> receiver_ack_eth_txq_is_busy hw)
      in if pkts_received \<and> can_send_over_eth then
           (let s = increment_local_update_ptr_val to_receiver_pkts_sent_id (- 1) s
            in case receiver_send_received_ack cfg (ack_ptr (receiver_channel_pointers s)) s of
                 Inl e \<Rightarrow> Inl e
               | Inr s \<Rightarrow>
                   Inr (s\<lparr>receiver_channel_pointers := (receiver_channel_pointers s)
                          \<lparr>ack_ptr := increment (ack_ptr (receiver_channel_pointers s))\<rparr>\<rparr>))
         else Inr s)"

definition receiver_forward_phase ::
  "('w, 'd) Collaborators \<Rightarrow> Config \<Rightarrow> ('w, 'd) EdmState \<Rightarrow> ('w, 'd) EdmState" where
  "receiver_forward_phase deps cfg s =
     (let ptrs = receiver_channel_pointers s;
          unwritten_packets = (\<not> is_caught_up_to (wr_sent_ptr ptrs) (ack_ptr ptrs))
      in if unwritten_packets then
           (let receiver_buffer_index = get_buffer_index (RECEIVER_NUM_BUFFERS cfg) (wr_sent_ptr ptrs);
                packet_header = local_receiver_channel s receiver_buffer_index;
                can_send_to_all_local_chip_receivers =
                  can_forward_packet_completely deps packet_header (downstream_edm_interface s)
            in if can_send_to_all_local_chip_receivers then
                 (let s = receiver_forward_packet deps packet_header s
                  in s\<lparr>receiver_channel_pointers := (receiver_channel_pointers s)
                        \<lparr>wr_sent_ptr := increment (wr_sent_ptr (receiver_channel_pointers s))\<rparr>\<rparr>)
               else s)
         else s)"

definition receiver_flush_phase ::
  "Config \<Rightarrow> HwStatus \<Rightarrow> ('w, 'd) EdmState \<Rightarrow> ('w, 'd) EdmState" where
  "receiver_flush_phase cfg hw s =
     (let ptrs = receiver_channel_pointers s;
          unflushed_writes = (\<not> is_caught_up_to (wr_flush_ptr ptrs) (wr_sent_ptr ptrs))
      in if unflushed_writes then
           (let writes_flushed = ncrisc_noc_nonposted_writes_sent hw
            in if writes_flushed then
                 (let receiver_buffer_index =
                        get_buffer_index (RECEIVER_NUM_BUFFERS cfg) (wr_flush_ptr ptrs);
                      s = emit (EthClearSenderChannelAck receiver_buffer_index) s
                  in s\<lparr>receiver_channel_pointers := (receiver_channel_pointers s)
                        \<lparr>wr_flush_ptr := increment (wr_flush_ptr (receiver_channel_pointers s))\<rparr>\<rparr>)
               else s)
         else s)"

definition receiver_completion_phase ::
  "Config \<Rightarrow> HwStatus \<Rightarrow> ('w, 'd) EdmState \<Rightarrow> error + ('w, 'd) EdmState" where
  "receiver_completion_phase cfg hw s =
     (let ptrs = receiver_channel_pointers s;
          unsent_completions = (\<not> is_caught_up_to (completion_ptr ptrs) (wr_flush_ptr ptrs))
      in if unsent_completions then
           (let can_send_without_blocking = (\<not> receiver_completion_eth_txq_is_busy hw)
            in if can_send_without_blocking then receiver_send_completion_ack cfg s
               else Inr s)
         else Inr s)"

definition run_receiver_channel_step ::
  "('w, 'd) Collaborators \<Rightarrow> Config \<Rightarrow> HwStatus \<Rightarrow> ('w, 'd) EdmState
     \<Rightarrow> error + ('w, 'd) EdmState" where
  "run_receiver_channel_step deps cfg hw s =
     (case receiver_ack_phase cfg hw s of
        Inl e \<Rightarrow> Inl e
      | Inr s \<Rightarrow>
          receiver_completion_phase cfg hw
            (receiver_flush_phase cfg hw (receiver_forward_phase deps cfg s)))"

section \<open>Main control loop\<close>

definition got_immediate_termination_signal :: "('w, 'd) EdmState \<Rightarrow> bool" where
  "got_immediate_termination_signal s = (termination_signal s = IMMEDIATELY_TERMINATE)"

definition got_graceful_termination_signal :: "('w, 'd) EdmState \<Rightarrow> bool" where
  "got_graceful_termination_signal s = (termination_signal s = GRACEFULLY_TERMINATE)"

definition got_termination_signal :: "('w, 'd) EdmState \<Rightarrow> bool" where
  "got_termination_signal s =
     (got_immediate_termination_signal s \<or> got_graceful_termination_signal s)"

definition all_channels_drained :: "('w, 'd) Collaborators \<Rightarrow> ('w, 'd) EdmState \<Rightarrow> bool" where
  "all_channels_drained deps s =
     (let eth_buffers_drained =
            (all_eth_packets_completed deps (local_sender_channel_worker_interfaces s 0) \<and>
             all_eth_packets_completed deps (local_sender_channel_worker_interfaces s 1) \<and>
             \<not> has_unsent_payload deps (local_sender_channel_worker_interfaces s 0) \<and>
             \<not> has_unsent_payload deps (local_sender_channel_worker_interfaces s 1) \<and>
             is_caught_up_to (completion_ptr (receiver_channel_pointers s))
               (ack_ptr (receiver_channel_pointers s)) \<and>
             stream_regs s to_receiver_pkts_sent_id = 0 \<and>
             stream_regs s to_sender_0_pkts_acked_id = 0 \<and>
             stream_regs s to_sender_1_pkts_acked_id = 0 \<and>
             stream_regs s to_sender_0_pkts_completed_id = 0 \<and>
             stream_regs s to_sender_1_pkts_completed_id = 0)
      in eth_buffers_drained)"

text \<open>
  What the rest of the system does to the memory and registers the EDM polls: the
  controller writes the termination signal, the remote EDM adds to a local stream register
  and writes a slot of the local receiver channel, a worker (or upstream EDM) writes a slot
  of a sender channel or its connection words, the downstream EDM's flow control changes.
  In the model these writes land between two iterations of the main loop.
\<close>

datatype ('w, 'd) External =
    ControllerWritesTerminationSignal TerminationSignal
  | RemoteIncrementsStreamReg nat int
  | RemoteWritesReceiverSlot nat PacketHeader
  | WorkerWritesSenderSlot nat nat PacketHeader
  | WorkerWritesConnection nat 'w
  | DownstreamChanges 'd

fun apply_external :: "('w, 'd) EdmState \<Rightarrow> ('w, 'd) External \<Rightarrow> ('w, 'd) EdmState" where
  "apply_external s (ControllerWritesTerminationSignal sig) = s\<lparr>termination_signal := sig\<rparr>"
| "apply_external s (RemoteIncrementsStreamReg stream_id val) =
     s\<lparr>stream_regs := (stream_regs s)(stream_id := stream_regs s stream_id + val)\<rparr>"
| "apply_external s (RemoteWritesReceiverSlot i h) =
     s\<lparr>local_receiver_channel := (local_receiver_channel s)(i := h)\<rparr>"
| "apply_external s (WorkerWritesSenderSlot ch i h) =
     s\<lparr>local_sender_channels := (local_sender_channels s)(ch := (local_sender_channels s ch)(i := h))\<rparr>"
| "apply_external s (WorkerWritesConnection ch w) =
     s\<lparr>local_sender_channel_worker_interfaces := (local_sender_channel_worker_interfaces s)
        (ch := (local_sender_channel_worker_interfaces s ch)\<lparr>worker_side := w\<rparr>)\<rparr>"
| "apply_external s (DownstreamChanges d) = s\<lparr>downstream_edm_interface := d\<rparr>"

text \<open>The input of one iteration: the external writes landed since the last one, and the
  hardware status polled during it.\<close>

record ('w, 'd) IterationInput =
  externals :: "('w, 'd) External list"
  hw_status :: HwStatus

datatype ('w, 'd) LoopOutcome = Returned "('w, 'd) EdmState" | Polling "('w, 'd) EdmState"

text \<open>
  The body of the \<^verbatim>\<open>while\<close> loop after the termination checks: one sender step for the
  current sender channel, the switch to the other sender channel, one receiver step, and
  the idle counting (\<^verbatim>\<open>did_nothing_count++ > SWITCH_INTERVAL\<close> compares the value before the
  increment).  \<^verbatim>\<open>size_t\<close> counters are natural numbers here.
\<close>

definition service_channels ::
  "('w, 'd) Collaborators \<Rightarrow> Config \<Rightarrow> HwStatus \<Rightarrow> ('w, 'd) EdmState
     \<Rightarrow> error + ('w, 'd) EdmState" where
  "service_channels deps cfg hw s =
     (let old_recv_state = receiver_state s
      in case run_sender_channel_step deps cfg (sender_eth_txq_is_busy hw)
                (sender_channel_index s) s of
           Inl e \<Rightarrow> Inl e
         | Inr (did_something_sender, s) \<Rightarrow>
             (let s = s\<lparr>sender_channel_index := 1 - sender_channel_index s\<rparr>
              in case run_receiver_channel_step deps cfg hw s of
                   Inl e \<Rightarrow> Inl e
                 | Inr s \<Rightarrow>
                     (let did_something =
                            (did_something_sender \<or> old_recv_state \<noteq> receiver_state s)
                      in if did_something then Inr (s\<lparr>did_nothing_count := 0\<rparr>)
                         else if did_nothing_count s > SWITCH_INTERVAL cfg
                           then Inr (emit RunRouting (s\<lparr>did_nothing_count := 0\<rparr>))
                         else Inr (s\<lparr>did_nothing_count := did_nothing_count s + 1\<rparr>))))"

text \<open>
  One iteration of the \<^verbatim>\<open>while\<close> loop of \<^verbatim>\<open>run_fabric_edm_main_loop\<close>: the external writes
  that landed, the loop condition, the graceful-termination check, then the servicing of
  the channels.  The register reads of \<^verbatim>\<open>all_channels_drained\<close> are not traced.
\<close>

definition main_loop_iteration ::
  "('w, 'd) Collaborators \<Rightarrow> Config \<Rightarrow> ('w, 'd) IterationInput \<Rightarrow> ('w, 'd) EdmState
     \<Rightarrow> error + ('w, 'd) LoopOutcome" where
  "main_loop_iteration deps cfg inp s =
     (let s = foldl apply_external s (externals inp)
      in if got_immediate_termination_signal s then Inr (Returned s)
         else if got_graceful_termination_signal s \<and> all_channels_drained deps s
           then Inr (Returned s)
         else (case service_channels deps cfg (hw_status inp) s of
                 Inl e \<Rightarrow> Inl e
               | Inr s \<Rightarrow> Inr (Polling s)))"

text \<open>
  The loop runs for as long as inputs are supplied: the result is \<open>Returned\<close> when the loop
  returned within the given iterations and \<open>Polling\<close> when it is still polling after them.
\<close>

fun main_loop ::
  "('w, 'd) Collaborators \<Rightarrow> Config \<Rightarrow> ('w, 'd) IterationInput list \<Rightarrow> ('w, 'd) EdmState
     \<Rightarrow> error + ('w, 'd) LoopOutcome" where
  "main_loop deps cfg [] s = Inr (Polling s)"
| "main_loop deps cfg (inp # inps) s =
     (case main_loop_iteration deps cfg inp s of
        Inl e \<Rightarrow> Inl e
      | Inr (Returned s') \<Rightarrow> Inr (Returned s')
      | Inr (Polling s') \<Rightarrow> main_loop deps cfg inps s')"

text \<open>
  The entry of \<^verbatim>\<open>run_fabric_edm_main_loop\<close>: the locals are initialised, the termination
  signal is overwritten with \<^verbatim>\<open>KEEP_RUNNING\<close>, the pointer structs are default-constructed.
\<close>

definition main_loop_entry :: "('w, 'd) EdmState \<Rightarrow> ('w, 'd) EdmState" where
  "main_loop_entry s =
     s\<lparr>receiver_state := RECEIVER_WAITING_FOR_ETH,
       sender_channel_index := 0,
       did_nothing_count := 0,
       termination_signal := KEEP_RUNNING,
       remote_eth_sender_wrptrs := (\<lambda>_. 0),
       outbound_to_receiver_channel_pointers :=
         \<lparr>wrptr = 0, OutboundReceiverChannelPointers.ack_ptr = 0,
          OutboundReceiverChannelPointers.completion_ptr = 0\<rparr>,
       receiver_channel_pointers :=
         \<lparr>wr_sent_ptr = 0, wr_flush_ptr = 0, ack_ptr = 0, completion_ptr = 0\<rparr>,
       channel_connection_established := (\<lambda>_. False)\<rparr>"

definition run_fabric_edm_main_loop ::
  "('w, 'd) Collaborators \<Rightarrow> Config \<Rightarrow> ('w, 'd) IterationInput list \<Rightarrow> ('w, 'd) EdmState
     \<Rightarrow> error + ('w, 'd) LoopOutcome" where
  "run_fabric_edm_main_loop deps cfg inps s = main_loop deps cfg inps (main_loop_entry s)"

section \<open>Reading the trace\<close>

text \<open>The values added to the remote stream register \<open>stream_id\<close>, in order.\<close>

fun remote_updates :: "nat \<Rightarrow> Event list \<Rightarrow> int list" where
  "remote_updates stream_id [] = []"
| "remote_updates stream_id (RemoteUpdatePtrVal i v # es) =
     (if i = stream_id then v # remote_updates stream_id es else remote_updates stream_id es)"
| "remote_updates stream_id (e # es) = remote_updates stream_id es"

text \<open>The headers sent over the Ethernet link, in order.\<close>

fun eth_sends :: "Event list \<Rightarrow> PacketHeader list" where
  "eth_sends [] = []"
| "eth_sends (EthSendBytes i j h n # es) = h # eth_sends es"
| "eth_sends (e # es) = eth_sends es"

text \<open>The local writes and downstream hand-overs, in order.\<close>

fun forward_events :: "Event list \<Rightarrow> Event list" where
  "forward_events [] = []"
| "forward_events (ExecuteChipUnicastToLocalChip h # es) =
     ExecuteChipUnicastToLocalChip h # forward_events es"
| "forward_events (ForwardPayloadToDownstreamEdm h # es) =
     ForwardPayloadToDownstreamEdm h # forward_events es"
| "forward_events (e # es) = forward_events es"

text \<open>The reads and local updates of stream registers, in order.\<close>

fun stream_reg_accesses :: "Event list \<Rightarrow> Event list" where
  "stream_reg_accesses [] = []"
| "stream_reg_accesses (GetPtrVal i v # es) = GetPtrVal i v # stream_reg_accesses es"
| "stream_reg_accesses (IncrementLocalUpdatePtrVal i v # es) =
     IncrementLocalUpdatePtrVal i v # stream_reg_accesses es"
| "stream_reg_accesses (e # es) = stream_reg_accesses es"

text \<open>The values a step read from stream register \<open>stream_id\<close>, in order.\<close>

fun observed :: "nat \<Rightarrow> Event list \<Rightarrow> int list" where
  "observed stream_id [] = []"
| "observed stream_id (GetPtrVal i v # es) =
     (if i = stream_id then v # observed stream_id es else observed stream_id es)"
| "observed stream_id (e # es) = observed stream_id es"

text \<open>
  What \<^verbatim>\<open>receiver_forward_packet\<close> has to do for a header: the complete forward.
\<close>

definition complete_forward :: "('w, 'd) Collaborators \<Rightarrow> PacketHeader \<Rightarrow> Event list" where
  "complete_forward deps h =
     (if packet_must_be_consumed_locally deps h then [ExecuteChipUnicastToLocalChip h] else []) @
     (if packet_must_be_forwarded_to_next_chip deps h then [ForwardPayloadToDownstreamEdm h] else [])"

text \<open>The four conditions under which the sender step sends.\<close>

definition sender_can_send ::
  "('w, 'd) Collaborators \<Rightarrow> Config \<Rightarrow> bool \<Rightarrow> nat \<Rightarrow> ('w, 'd) EdmState \<Rightarrow> bool" where
  "sender_can_send deps cfg eth_txq_is_busy ch s =
     (distance_behind
        (OutboundReceiverChannelPointers.completion_ptr (outbound_to_receiver_channel_pointers s))
        (wrptr (outbound_to_receiver_channel_pointers s)) < RECEIVER_NUM_BUFFERS cfg \<and>
      \<not> eth_txq_is_busy \<and>
      has_unsent_payload deps (local_sender_channel_worker_interfaces s ch) \<and>
      distance_behind (local_rdptr (local_sender_channel_worker_interfaces s ch))
        (local_wrptr (local_sender_channel_worker_interfaces s ch)) < SENDER_NUM_BUFFERS cfg)"

text \<open>
  The same four conditions with the fourth one read off the producer: the producer's write
  pointer (the first component of the worker side in the concrete EDM below) is fewer than
  \<^verbatim>\<open>SENDER_NUM_BUFFERS\<close> ahead of the local read pointer.
\<close>

definition sender_can_send_by_producer_pointer ::
  "(32 word \<times> 'c, 'd) Collaborators \<Rightarrow> Config \<Rightarrow> bool \<Rightarrow> nat \<Rightarrow> (32 word \<times> 'c, 'd) EdmState
     \<Rightarrow> bool" where
  "sender_can_send_by_producer_pointer deps cfg eth_txq_is_busy ch s =
     (distance_behind
        (OutboundReceiverChannelPointers.completion_ptr (outbound_to_receiver_channel_pointers s))
        (wrptr (outbound_to_receiver_channel_pointers s)) < RECEIVER_NUM_BUFFERS cfg \<and>
      \<not> eth_txq_is_busy \<and>
      has_unsent_payload deps (local_sender_channel_worker_interfaces s ch) \<and>
      distance_behind (local_rdptr (local_sender_channel_worker_interfaces s ch))
        (fst (worker_side (local_sender_channel_worker_interfaces s ch))) < SENDER_NUM_BUFFERS cfg)"

text \<open>The orderings of the pointer invariant, on the counters.\<close>

definition receiver_ordered :: "ReceiverChannelPointers \<Rightarrow> bool" where
  "receiver_ordered p =
     (completion_ptr p \<le> wr_flush_ptr p \<and> wr_flush_ptr p \<le> wr_sent_ptr p \<and>
      wr_sent_ptr p \<le> ack_ptr p)"

definition outbound_ordered :: "OutboundReceiverChannelPointers \<Rightarrow> bool" where
  "outbound_ordered p =
     (OutboundReceiverChannelPointers.completion_ptr p \<le> OutboundReceiverChannelPointers.ack_ptr p \<and>
      OutboundReceiverChannelPointers.ack_ptr p \<le> wrptr p)"

text \<open>
  The Ethernet link, for statements about both ends: what an event of the sending EDM
  does to the EDM at the other end.  The bytes of a slot arrive unchanged in the
  destination slot; a remote register update adds to the register of the same id.
\<close>

fun link_delivery :: "Event list \<Rightarrow> ('w, 'd) External list" where
  "link_delivery [] = []"
| "link_delivery (EthSendBytes i j h n # es) = RemoteWritesReceiverSlot j h # link_delivery es"
| "link_delivery (RemoteUpdatePtrVal i v # es) = RemoteIncrementsStreamReg i v # link_delivery es"
| "link_delivery (e # es) = link_delivery es"

section \<open>A concrete EDM for evaluation\<close>

text \<open>
  A concrete choice of the helpers: the worker side of a sender channel is the producer's
  write pointer and the connection semaphore (1 = open, 2 = close requested); a header's
  \<open>routing_fields\<close> carries "consume locally" in bit 0 and "forward" in bit 1; the
  downstream interface is just whether it has space.
\<close>

definition example_deps :: "(32 word \<times> nat, bool) Collaborators" where
  "example_deps =
     \<lparr>packet_must_be_consumed_locally = (\<lambda>h. routing_fields h mod 2 = 1),
      packet_must_be_forwarded_to_next_chip = (\<lambda>h. routing_fields h div 2 mod 2 = 1),
      edm_has_space_for_packet = (\<lambda>d. d),
      has_unsent_payload = (\<lambda>i. local_wrptr i \<noteq> fst (worker_side i)),
      all_eth_packets_completed = (\<lambda>i. local_rdptr i = local_wrptr i),
      connection_is_live = (\<lambda>i. snd (worker_side i) = 1),
      has_worker_teardown_request = (\<lambda>i. snd (worker_side i) = 2)\<rparr>"

definition example_cfg :: Config where
  "example_cfg =
     \<lparr>RECEIVER_NUM_BUFFERS = 4, SENDER_NUM_BUFFERS = 4, SWITCH_INTERVAL = 0,
      enable_packet_header_recording = False, enable_fabric_counters = False\<rparr>"

definition example_header :: PacketHeader where
  "example_header = \<lparr>routing_fields = 1, payload_size_including_header = 64, src_ch_id = 7\<rparr>"

text \<open>
  The state at loop entry: no worker connected, nothing pushed, all registers zero, every
  slot holding a locally consumed packet whose \<^verbatim>\<open>src_ch_id\<close> the worker left at 7.
\<close>

definition example_state :: "(32 word \<times> nat, bool) EdmState" where
  "example_state = main_loop_entry
     \<lparr>local_sender_channels = (\<lambda>ch i. example_header),
      local_sender_channel_worker_interfaces =
        (\<lambda>ch. \<lparr>local_wrptr = 0, local_ackptr = 0, local_rdptr = 0, worker_side = (0, 0)\<rparr>),
      channel_connection_established = (\<lambda>ch. False),
      outbound_to_receiver_channel_pointers =
        \<lparr>wrptr = 0, OutboundReceiverChannelPointers.ack_ptr = 0,
         OutboundReceiverChannelPointers.completion_ptr = 0\<rparr>,
      local_receiver_channel = (\<lambda>i. example_header\<lparr>src_ch_id := 0\<rparr>),
      receiver_channel_pointers =
        \<lparr>wr_sent_ptr = 0, wr_flush_ptr = 0, ack_ptr = 0, completion_ptr = 0\<rparr>,
      remote_eth_sender_wrptrs = (\<lambda>ch. 0),
      downstream_edm_interface = True,
      stream_regs = (\<lambda>i. 0),
      termination_signal = GRACEFULLY_TERMINATE,
      receiver_state = RECEIVER_DONE,
      sender_channel_index = 0,
      did_nothing_count = 0,
      trace = []\<rparr>"

definition idle_hw :: HwStatus where
  "idle_hw =
     \<lparr>sender_eth_txq_is_busy = False, receiver_ack_eth_txq_is_busy = False,
      ncrisc_noc_nonposted_writes_sent = True, receiver_completion_eth_txq_is_busy = False\<rparr>"

text \<open>The same state after a worker opened a connection to sender channel 0 and pushed one
  packet.\<close>

definition pushed_state :: "(32 word \<times> nat, bool) EdmState" where
  "pushed_state = apply_external example_state (WorkerWritesConnection 0 (1, 1))"

text \<open>The state at loop entry after a worker opened a connection to sender channel 0 and
  pushed four packets, one into every slot of the channel.\<close>

definition filled_state :: "(32 word \<times> nat, bool) EdmState" where
  "filled_state = apply_external example_state (WorkerWritesConnection 0 (4, 1))"

text \<open>The state at loop entry after the remote sender wrote packet \<open>h\<close> into slot 0 of the
  receiver channel and added one to the packets-sent register.\<close>

definition arrived_state :: "PacketHeader \<Rightarrow> (32 word \<times> nat, bool) EdmState" where
  "arrived_state h = foldl apply_external example_state
     [RemoteWritesReceiverSlot 0 h, RemoteIncrementsStreamReg to_receiver_pkts_sent_id 1]"

text \<open>Inputs of single iterations: a termination request by the controller (alone, or after a
  worker opened a connection and pushed a packet), and an iteration in which nothing
  landed.\<close>

definition graceful_request :: "(32 word \<times> nat, bool) IterationInput" where
  "graceful_request =
     \<lparr>externals = [ControllerWritesTerminationSignal GRACEFULLY_TERMINATE], hw_status = idle_hw\<rparr>"

definition push_then_graceful_request :: "(32 word \<times> nat, bool) IterationInput" where
  "push_then_graceful_request =
     \<lparr>externals = [WorkerWritesConnection 0 (1, 1),
                   ControllerWritesTerminationSignal GRACEFULLY_TERMINATE],
      hw_status = idle_hw\<rparr>"

definition immediate_request :: "(32 word \<times> nat, bool) IterationInput" where
  "immediate_request =
     \<lparr>externals = [ControllerWritesTerminationSignal IMMEDIATELY_TERMINATE], hw_status = idle_hw\<rparr>"

definition quiet :: "(32 word \<times> nat, bool) IterationInput" where
  "quiet = \<lparr>externals = [], hw_status = idle_hw\<rparr>"

text \<open>Further inputs of single iterations: a worker opens a connection to sender channel 0
  and pushes one packet; the remote receiver's acknowledgement, and its completion, of a
  packet of sender channel 0 lands; a packet from the remote sender lands in a slot of
  the receiver channel.\<close>

definition push :: "(32 word \<times> nat, bool) IterationInput" where
  "push = \<lparr>externals = [WorkerWritesConnection 0 (1, 1)], hw_status = idle_hw\<rparr>"

definition ack_arrives :: "(32 word \<times> nat, bool) IterationInput" where
  "ack_arrives = \<lparr>externals = [RemoteIncrementsStreamReg to_sender_0_pkts_acked_id 1], hw_status = idle_hw\<rparr>"

definition completion_arrives :: "(32 word \<times> nat, bool) IterationInput" where
  "completion_arrives = \<lparr>externals = [RemoteIncrementsStreamReg to_sender_0_pkts_completed_id 1], hw_status = idle_hw\<rparr>"

definition packet_arrives :: "nat \<Rightarrow> (32 word \<times> nat, bool) IterationInput" where
  "packet_arrives slot =
     \<lparr>externals = [RemoteWritesReceiverSlot slot (example_header\<lparr>src_ch_id := 0\<rparr>),
                   RemoteIncrementsStreamReg to_receiver_pkts_sent_id 1],
      hw_status = idle_hw\<rparr>"

text \<open>The state a run is polling in, if it is, and the state of any outcome.\<close>

definition polled :: "error + ('w, 'd) LoopOutcome \<Rightarrow> ('w, 'd) EdmState option" where
  "polled r = (case r of Inr (Polling s) \<Rightarrow> Some s | _ \<Rightarrow> None)"

definition outcome_state :: "('w, 'd) LoopOutcome \<Rightarrow> ('w, 'd) EdmState" where
  "outcome_state out = (case out of Returned s \<Rightarrow> s | Polling s \<Rightarrow> s)"

text \<open>
  The state after sender channel 0 sent the pushed packet (one sender step from
  \<open>pushed_state\<close>), and the same after the remote receiver's acknowledgement and completion
  of that packet landed.
\<close>

definition in_flight_state :: "(32 word \<times> nat, bool) EdmState" where
  "in_flight_state =
     (case run_sender_channel_step example_deps example_cfg False 0 pushed_state of
        Inr (did, s) \<Rightarrow> s | Inl e \<Rightarrow> pushed_state)"

definition completed_state :: "(32 word \<times> nat, bool) EdmState" where
  "completed_state = foldl apply_external in_flight_state
     [RemoteIncrementsStreamReg to_sender_0_pkts_acked_id 1,
      RemoteIncrementsStreamReg to_sender_0_pkts_completed_id 1]"

section \<open>Two EDMs on one link\<close>

text \<open>
  One direction of an Ethernet link: the sender channels of the EDM at one end and the
  receiver channel of the EDM at the other.  A step of one end is followed by the delivery
  of what it sent to the other end (\<open>link_delivery\<close>): the link is taken to deliver in
  order and before the next step.
\<close>

record ('w, 'd, 'v, 'e) Link =
  sending :: "('w, 'd) EdmState"
  receiving :: "('v, 'e) EdmState"

definition link_sender_step ::
  "('w, 'd) Collaborators \<Rightarrow> Config \<Rightarrow> bool \<Rightarrow> nat \<Rightarrow> ('w, 'd, 'v, 'e) Link
     \<Rightarrow> error + ('w, 'd, 'v, 'e) Link" where
  "link_sender_step deps cfg eth_txq_is_busy ch L =
     (case run_sender_channel_step deps cfg eth_txq_is_busy ch (sending L) of
        Inl e \<Rightarrow> Inl e
      | Inr (did, A') \<Rightarrow>
          Inr (L\<lparr>sending := A',
                 receiving := foldl apply_external (receiving L)
                   (link_delivery (drop (length (trace (sending L))) (trace A')))\<rparr>))"

definition link_receiver_step ::
  "('v, 'e) Collaborators \<Rightarrow> Config \<Rightarrow> HwStatus \<Rightarrow> ('w, 'd, 'v, 'e) Link
     \<Rightarrow> error + ('w, 'd, 'v, 'e) Link" where
  "link_receiver_step deps cfg hw L =
     (case run_receiver_channel_step deps cfg hw (receiving L) of
        Inl e \<Rightarrow> Inl e
      | Inr B' \<Rightarrow>
          Inr (L\<lparr>receiving := B',
                 sending := foldl apply_external (sending L)
                   (link_delivery (drop (length (trace (receiving L))) (trace B')))\<rparr>))"

text \<open>
  The credits in flight: completions the receiver has sent are either still in one of the
  sender's packets-completed registers or already counted in the outbound completion
  pointer; packets the sender has sent are either still in the receiver's packets-sent
  register or already counted in the receiver's ack pointer.
\<close>

definition link_credits :: "('w, 'd, 'v, 'e) Link \<Rightarrow> bool" where
  "link_credits L =
     (uint (OutboundReceiverChannelPointers.completion_ptr
              (outbound_to_receiver_channel_pointers (sending L))) +
        stream_regs (sending L) to_sender_0_pkts_completed_id +
        stream_regs (sending L) to_sender_1_pkts_completed_id =
        uint (completion_ptr (receiver_channel_pointers (receiving L))) \<and>
      0 \<le> stream_regs (sending L) to_sender_0_pkts_completed_id \<and>
      0 \<le> stream_regs (sending L) to_sender_1_pkts_completed_id \<and>
      uint (ack_ptr (receiver_channel_pointers (receiving L))) +
        stream_regs (receiving L) to_receiver_pkts_sent_id =
        uint (wrptr (outbound_to_receiver_channel_pointers (sending L))) \<and>
      0 \<le> stream_regs (receiving L) to_receiver_pkts_sent_id)"

text \<open>The pointer invariant of the data model over both ends:
  \<open>completion_ptr \<le> completion_ptr \<le> wr_flush_ptr \<le> wr_sent_ptr \<le> ack_ptr \<le> wrptr\<close>, the outer two
  of the sender's outbound view, the inner four of the receiver.\<close>

definition link_ordered :: "('w, 'd, 'v, 'e) Link \<Rightarrow> bool" where
  "link_ordered L =
     (OutboundReceiverChannelPointers.completion_ptr
        (outbound_to_receiver_channel_pointers (sending L))
        \<le> completion_ptr (receiver_channel_pointers (receiving L)) \<and>
      receiver_ordered (receiver_channel_pointers (receiving L)) \<and>
      ack_ptr (receiver_channel_pointers (receiving L))
        \<le> wrptr (outbound_to_receiver_channel_pointers (sending L)))"

definition link_invariant :: "('w, 'd, 'v, 'e) Link \<Rightarrow> bool" where
  "link_invariant L = (link_credits L \<and> receiver_ordered (receiver_channel_pointers (receiving L)))"

text \<open>The link whose sending end is \<open>pushed_state\<close> and whose receiving end is at loop entry.\<close>

definition example_link ::
  "(32 word \<times> nat, bool, 32 word \<times> nat, bool) Link" where
  "example_link = \<lparr>sending = pushed_state, receiving = example_state\<rparr>"

section \<open>Basic facts\<close>

lemmas example_defs = pushed_state_def example_state_def example_deps_def example_cfg_def
  example_header_def idle_hw_def main_loop_entry_def

lemmas model_defs = run_sender_channel_step_def sender_send_phase_def send_next_data_def
  sender_process_completions_def sender_process_acks_def sender_connection_phase_def
  has_space_for_packet_def distance_behind_def get_buffer_index_def increment_def increment_n_def
  get_ptr_def is_caught_up_to_def get_ptr_val_def increment_local_update_ptr_val_def
  remote_update_ptr_val_def emit_def array_at_def
  to_sender_packets_acked_streams_def to_sender_packets_completed_streams_def
  to_receiver_pkts_sent_id_def to_sender_0_pkts_acked_id_def to_sender_1_pkts_acked_id_def
  to_sender_0_pkts_completed_id_def to_sender_1_pkts_completed_id_def

lemma trace_emit [simp]: "trace (emit e s) = trace s @ [e]"
  by (simp add: emit_def)

lemma remote_updates_append [simp]:
  "remote_updates i (xs @ ys) = remote_updates i xs @ remote_updates i ys"
  by (induction i xs rule: remote_updates.induct) auto

lemma eth_sends_append [simp]: "eth_sends (xs @ ys) = eth_sends xs @ eth_sends ys"
  by (induction xs rule: eth_sends.induct) auto

lemma forward_events_append [simp]:
  "forward_events (xs @ ys) = forward_events xs @ forward_events ys"
  by (induction xs rule: forward_events.induct) auto

lemma stream_reg_accesses_append [simp]:
  "stream_reg_accesses (xs @ ys) = stream_reg_accesses xs @ stream_reg_accesses ys"
  by (induction xs rule: stream_reg_accesses.induct) auto

lemma observed_append [simp]: "observed i (xs @ ys) = observed i xs @ observed i ys"
  by (induction i xs rule: observed.induct) auto

lemma sender_send_phase_effect:
  "sender_send_phase deps cfg busy ch s = (did, s') \<Longrightarrow>
   did = sender_can_send deps cfg busy ch s \<and>
   (\<exists>evs. trace s' = trace s @ evs \<and>
     remote_updates to_receiver_pkts_sent_id evs = (if did then [1] else []) \<and>
     length (eth_sends evs) = (if did then 1 else 0) \<and>
     stream_reg_accesses evs = []) \<and>
   local_wrptr (local_sender_channel_worker_interfaces s' ch) =
     local_wrptr (local_sender_channel_worker_interfaces s ch) + (if did then 1 else 0) \<and>
   wrptr (outbound_to_receiver_channel_pointers s') =
     wrptr (outbound_to_receiver_channel_pointers s) + (if did then 1 else 0) \<and>
   stream_regs s' = stream_regs s"
  by (auto simp: sender_send_phase_def sender_can_send_def has_space_for_packet_def Let_def
      send_next_data_def remote_update_ptr_val_def increment_def emit_def split: if_splits)


lemma sender_process_completions_effect:
  "sender_process_completions ch s = Inr (c, s') \<Longrightarrow>
   (\<exists>sid. array_at to_sender_packets_completed_streams ch = Inr sid \<and> c = stream_regs s sid \<and>
      trace s' = trace s @ GetPtrVal sid c # (if c > 0 then [IncrementLocalUpdatePtrVal sid (- c)] else []) \<and>
      stream_regs s' = (if c > 0 then (stream_regs s)(sid := 0) else stream_regs s)) \<and>
   local_sender_channel_worker_interfaces s' =
     (if c > 0 then (local_sender_channel_worker_interfaces s)
        (ch := (local_sender_channel_worker_interfaces s ch)
           \<lparr>local_rdptr := local_rdptr (local_sender_channel_worker_interfaces s ch) + word_of_int c\<rparr>)
      else local_sender_channel_worker_interfaces s) \<and>
   outbound_to_receiver_channel_pointers s' =
     (if c > 0 then (outbound_to_receiver_channel_pointers s)
        \<lparr>OutboundReceiverChannelPointers.completion_ptr :=
           OutboundReceiverChannelPointers.completion_ptr (outbound_to_receiver_channel_pointers s) + word_of_int c\<rparr>
      else outbound_to_receiver_channel_pointers s) \<and>
   channel_connection_established s' = channel_connection_established s \<and>
   termination_signal s' = termination_signal s \<and>
   receiver_channel_pointers s' = receiver_channel_pointers s \<and>
   receiver_state s' = receiver_state s"
  by (auto simp: sender_process_completions_def get_ptr_val_def Let_def
      increment_local_update_ptr_val_def increment_n_def emit_def split: sum.splits if_splits)

lemma sender_process_acks_effect:
  "sender_process_acks ch s = Inr (a, s') \<Longrightarrow>
   (\<exists>sid. array_at to_sender_packets_acked_streams ch = Inr sid \<and> a = stream_regs s sid \<and>
      trace s' = trace s @ GetPtrVal sid a #
        (if a > 0 then (if channel_connection_established s ch then [UpdateWorkerCopyOfReadPtr] else [])
                        @ [IncrementLocalUpdatePtrVal sid (- a)] else []) \<and>
      stream_regs s' = (if a > 0 then (stream_regs s)(sid := 0) else stream_regs s)) \<and>
   local_sender_channel_worker_interfaces s' =
     (if a > 0 then (local_sender_channel_worker_interfaces s)
        (ch := (local_sender_channel_worker_interfaces s ch)
           \<lparr>local_ackptr := local_ackptr (local_sender_channel_worker_interfaces s ch) + word_of_int a\<rparr>)
      else local_sender_channel_worker_interfaces s) \<and>
   outbound_to_receiver_channel_pointers s' = outbound_to_receiver_channel_pointers s \<and>
   channel_connection_established s' = channel_connection_established s \<and>
   termination_signal s' = termination_signal s \<and>
   receiver_channel_pointers s' = receiver_channel_pointers s \<and>
   receiver_state s' = receiver_state s"
  by (auto simp: sender_process_acks_def get_ptr_val_def Let_def
      increment_local_update_ptr_val_def increment_n_def emit_def split: sum.splits if_splits)

lemma sender_connection_phase_effect:
  "sender_connection_phase deps cfg ch d s = (did, s') \<Longrightarrow>
   (\<exists>evs. trace s' = trace s @ evs \<and> remote_updates i evs = [] \<and> eth_sends evs = [] \<and>
      stream_reg_accesses evs = [] \<and> forward_events evs = []) \<and>
   local_sender_channel_worker_interfaces s' = local_sender_channel_worker_interfaces s \<and>
   outbound_to_receiver_channel_pointers s' = outbound_to_receiver_channel_pointers s \<and>
   stream_regs s' = stream_regs s \<and>
   termination_signal s' = termination_signal s \<and>
   receiver_channel_pointers s' = receiver_channel_pointers s \<and>
   receiver_state s' = receiver_state s"
  by (auto simp: sender_connection_phase_def Let_def emit_def split: if_splits)

lemma pushed_state_step_returns: "\<exists>r. run_sender_channel_step example_deps example_cfg False 0 pushed_state = Inr r"
  by (auto simp add: example_defs model_defs Let_def)

lemma get_packet_local_forward_type_cases:
  "get_packet_local_forward_type deps h =
     (if packet_must_be_forwarded_to_next_chip deps h
      then (if packet_must_be_consumed_locally deps h
            then PACKET_FORWARD_LOCAL_AND_REMOTE else PACKET_FORWARD_REMOTE_ONLY)
      else (if packet_must_be_consumed_locally deps h
            then PACKET_FORWARD_LOCAL_ONLY else PACKET_FORWARD_INVALID))"
  by (simp add: get_packet_local_forward_type_def PacketLocalForwardType_of_def Let_def)

lemma receiver_forward_packet_effect:
  "receiver_forward_packet deps h s = s\<lparr>trace := trace s @ complete_forward deps h\<rparr>"
  by (simp add: receiver_forward_packet_def get_packet_local_forward_type_cases
      complete_forward_def emit_def)

lemma forward_events_complete_forward [simp]:
  "forward_events (complete_forward deps h) = complete_forward deps h"
  by (simp add: complete_forward_def)

lemma receiver_ack_phase_effect:
  "receiver_ack_phase cfg hw s = Inr s' \<Longrightarrow>
   (\<exists>evs. trace s' = trace s @ evs \<and> forward_events evs = [] \<and> eth_sends evs = []) \<and>
   local_receiver_channel s' = local_receiver_channel s \<and>
   downstream_edm_interface s' = downstream_edm_interface s \<and>
   wr_sent_ptr (receiver_channel_pointers s') = wr_sent_ptr (receiver_channel_pointers s) \<and>
   wr_flush_ptr (receiver_channel_pointers s') = wr_flush_ptr (receiver_channel_pointers s) \<and>
   completion_ptr (receiver_channel_pointers s') = completion_ptr (receiver_channel_pointers s) \<and>
   ack_ptr (receiver_channel_pointers s') = ack_ptr (receiver_channel_pointers s) +
     (if stream_regs s to_receiver_pkts_sent_id > 0 \<and> \<not> receiver_ack_eth_txq_is_busy hw then 1 else 0) \<and>
   termination_signal s' = termination_signal s \<and>
   receiver_state s' = receiver_state s \<and>
   outbound_to_receiver_channel_pointers s' = outbound_to_receiver_channel_pointers s \<and>
   local_sender_channel_worker_interfaces s' = local_sender_channel_worker_interfaces s"
  by (auto simp: receiver_ack_phase_def receiver_send_received_ack_def get_ptr_val_def Let_def
      increment_local_update_ptr_val_def remote_update_ptr_val_def increment_def emit_def
      split: sum.splits if_splits)

lemma receiver_forward_phase_effect:
  "receiver_forward_phase deps cfg s =
     (let h = local_receiver_channel s
            (get_buffer_index (RECEIVER_NUM_BUFFERS cfg) (wr_sent_ptr (receiver_channel_pointers s)))
      in if wr_sent_ptr (receiver_channel_pointers s) \<noteq> ack_ptr (receiver_channel_pointers s) \<and>
            can_forward_packet_completely deps h (downstream_edm_interface s)
         then s\<lparr>trace := trace s @ complete_forward deps h,
                receiver_channel_pointers := (receiver_channel_pointers s)
                  \<lparr>wr_sent_ptr := wr_sent_ptr (receiver_channel_pointers s) + 1\<rparr>\<rparr>
         else s)"
  by (simp add: receiver_forward_phase_def receiver_forward_packet_effect is_caught_up_to_def
      increment_def Let_def)

lemma receiver_flush_phase_effect:
  "receiver_flush_phase cfg hw s =
     (if wr_flush_ptr (receiver_channel_pointers s) \<noteq> wr_sent_ptr (receiver_channel_pointers s) \<and>
         ncrisc_noc_nonposted_writes_sent hw
      then s\<lparr>trace := trace s @ [EthClearSenderChannelAck
                 (get_buffer_index (RECEIVER_NUM_BUFFERS cfg) (wr_flush_ptr (receiver_channel_pointers s)))],
             receiver_channel_pointers := (receiver_channel_pointers s)
               \<lparr>wr_flush_ptr := wr_flush_ptr (receiver_channel_pointers s) + 1\<rparr>\<rparr>
      else s)"
  by (simp add: receiver_flush_phase_def is_caught_up_to_def increment_def Let_def emit_def)

lemma receiver_completion_phase_effect:
  "receiver_completion_phase cfg hw s = Inr s' \<Longrightarrow>
   (\<exists>evs. trace s' = trace s @ evs \<and> forward_events evs = [] \<and> eth_sends evs = []) \<and>
   local_receiver_channel s' = local_receiver_channel s \<and>
   downstream_edm_interface s' = downstream_edm_interface s \<and>
   wr_sent_ptr (receiver_channel_pointers s') = wr_sent_ptr (receiver_channel_pointers s) \<and>
   wr_flush_ptr (receiver_channel_pointers s') = wr_flush_ptr (receiver_channel_pointers s) \<and>
   ack_ptr (receiver_channel_pointers s') = ack_ptr (receiver_channel_pointers s) \<and>
   completion_ptr (receiver_channel_pointers s') = completion_ptr (receiver_channel_pointers s) +
     (if completion_ptr (receiver_channel_pointers s) \<noteq> wr_flush_ptr (receiver_channel_pointers s) \<and>
         \<not> receiver_completion_eth_txq_is_busy hw then 1 else 0) \<and>
   termination_signal s' = termination_signal s \<and>
   receiver_state s' = receiver_state s \<and>
   outbound_to_receiver_channel_pointers s' = outbound_to_receiver_channel_pointers s \<and>
   local_sender_channel_worker_interfaces s' = local_sender_channel_worker_interfaces s"
  by (auto simp: receiver_completion_phase_def receiver_send_completion_ack_def Let_def
      is_caught_up_to_def remote_update_ptr_val_def increment_def emit_def
      split: sum.splits if_splits)

lemma run_receiver_channel_step_forwarding:
  assumes "run_receiver_channel_step deps cfg hw s = Inr s'"
  shows "\<exists>evs. trace s' = trace s @ evs \<and>
     (let h = local_receiver_channel s
          (get_buffer_index (RECEIVER_NUM_BUFFERS cfg) (wr_sent_ptr (receiver_channel_pointers s)))
      in if wr_sent_ptr (receiver_channel_pointers s') = wr_sent_ptr (receiver_channel_pointers s)
         then forward_events evs = []
         else wr_sent_ptr (receiver_channel_pointers s') = wr_sent_ptr (receiver_channel_pointers s) + 1 \<and>
              can_forward_packet_completely deps h (downstream_edm_interface s) \<and>
              forward_events evs = complete_forward deps h)"
proof -
  from assms obtain s1 where p1: "receiver_ack_phase cfg hw s = Inr s1"
    by (auto simp: run_receiver_channel_step_def split: sum.splits)
  define s2 where "s2 = receiver_forward_phase deps cfg s1"
  define s3 where "s3 = receiver_flush_phase cfg hw s2"
  from assms p1 have p4: "receiver_completion_phase cfg hw s3 = Inr s'"
    by (simp add: run_receiver_channel_step_def s2_def s3_def)
  note e1 = receiver_ack_phase_effect [OF p1]
  note e4 = receiver_completion_phase_effect [OF p4]
  from e1 obtain evs1 where t1: "trace s1 = trace s @ evs1" and f1: "forward_events evs1 = []"
    by blast
  from e4 obtain evs4 where t4: "trace s' = trace s3 @ evs4" and f4: "forward_events evs4 = []"
    by blast
  let ?h = "local_receiver_channel s
          (get_buffer_index (RECEIVER_NUM_BUFFERS cfg) (wr_sent_ptr (receiver_channel_pointers s)))"
  let ?adv = "wr_sent_ptr (receiver_channel_pointers s1) \<noteq> ack_ptr (receiver_channel_pointers s1) \<and>
            can_forward_packet_completely deps ?h (downstream_edm_interface s)"
  have h1: "local_receiver_channel s1
          (get_buffer_index (RECEIVER_NUM_BUFFERS cfg) (wr_sent_ptr (receiver_channel_pointers s1))) = ?h"
    using e1 by simp
  have s2: "trace s2 = trace s1 @ (if ?adv then complete_forward deps ?h else [])"
    "wr_sent_ptr (receiver_channel_pointers s2) =
       wr_sent_ptr (receiver_channel_pointers s) + (if ?adv then 1 else 0)"
    using e1 h1 by (simp_all add: s2_def receiver_forward_phase_effect Let_def)
  have s3: "\<exists>evs3. trace s3 = trace s2 @ evs3 \<and> forward_events evs3 = []"
    "wr_sent_ptr (receiver_channel_pointers s3) = wr_sent_ptr (receiver_channel_pointers s2)"
    by (simp_all add: s3_def receiver_flush_phase_effect)
  then obtain evs3 where t3: "trace s3 = trace s2 @ evs3" and f3: "forward_events evs3 = []"
    by blast
  have w: "wr_sent_ptr (receiver_channel_pointers s') =
       wr_sent_ptr (receiver_channel_pointers s) + (if ?adv then 1 else 0)"
    using e4 s3(2) s2(2) by simp
  have tr: "trace s' = trace s @ (evs1 @ (if ?adv then complete_forward deps ?h else []) @ evs3 @ evs4)"
    using t1 s2(1) t3 t4 by simp
  show ?thesis
    apply (rule exI [of _ "evs1 @ (if ?adv then complete_forward deps ?h else []) @ evs3 @ evs4"])
    using tr w f1 f3 f4 by (auto simp: Let_def)
qed

lemmas receiver_defs = run_receiver_channel_step_def receiver_ack_phase_def
  receiver_forward_phase_def receiver_flush_phase_def receiver_completion_phase_def
  receiver_send_received_ack_def receiver_send_completion_ack_def receiver_forward_packet_def
  can_forward_packet_completely_def get_packet_local_forward_type_cases

lemma arrived_local_only_step:
  "\<exists>s'. run_receiver_channel_step example_deps example_cfg idle_hw
      (arrived_state (example_header\<lparr>src_ch_id := 1\<rparr>)) = Inr s' \<and>
      wr_sent_ptr (receiver_channel_pointers s') = 1"
  by (simp add: arrived_state_def example_defs model_defs receiver_defs Let_def)

lemma arrived_invalid_step:
  "\<exists>s'. run_receiver_channel_step example_deps example_cfg idle_hw
      (arrived_state (example_header\<lparr>routing_fields := 0, src_ch_id := 0\<rparr>)) = Inr s' \<and>
      ack_ptr (receiver_channel_pointers s') = 1"
  by (simp add: arrived_state_def example_defs model_defs receiver_defs Let_def)

lemma arrived_state_simps:
  "trace (arrived_state h) = []"
  "wr_sent_ptr (receiver_channel_pointers (arrived_state h)) = 0"
  "local_receiver_channel (arrived_state h) 0 = h"
  "downstream_edm_interface (arrived_state h) = True"
  by (simp_all add: arrived_state_def example_defs)

lemma sender_send_phase_frame:
  "sender_send_phase deps cfg busy ch s = (did, s') \<Longrightarrow>
   termination_signal s' = termination_signal s \<and>
   receiver_channel_pointers s' = receiver_channel_pointers s \<and>
   receiver_state s' = receiver_state s \<and>
   channel_connection_established s' = channel_connection_established s \<and>
   OutboundReceiverChannelPointers.ack_ptr (outbound_to_receiver_channel_pointers s') =
     OutboundReceiverChannelPointers.ack_ptr (outbound_to_receiver_channel_pointers s) \<and>
   OutboundReceiverChannelPointers.completion_ptr (outbound_to_receiver_channel_pointers s') =
     OutboundReceiverChannelPointers.completion_ptr (outbound_to_receiver_channel_pointers s) \<and>
   local_rdptr (local_sender_channel_worker_interfaces s' ch') =
     local_rdptr (local_sender_channel_worker_interfaces s ch') \<and>
   local_ackptr (local_sender_channel_worker_interfaces s' ch') =
     local_ackptr (local_sender_channel_worker_interfaces s ch')"
  by (auto simp: sender_send_phase_def Let_def send_next_data_def remote_update_ptr_val_def
      emit_def split: if_splits)

lemma run_sender_channel_step_frame:
  assumes "run_sender_channel_step deps cfg busy ch s = Inr (did, s')"
  shows "termination_signal s' = termination_signal s \<and>
     receiver_channel_pointers s' = receiver_channel_pointers s \<and>
     receiver_state s' = receiver_state s"
proof -
  obtain d1 s1 where p1: "sender_send_phase deps cfg busy ch s = (d1, s1)"
    by (cases "sender_send_phase deps cfg busy ch s")
  from assms p1 obtain c s2 where p2: "sender_process_completions ch s1 = Inr (c, s2)"
    by (auto simp: run_sender_channel_step_def split: sum.splits)
  from assms p1 p2 obtain a s3 where p3: "sender_process_acks ch s2 = Inr (a, s3)"
    by (auto simp: run_sender_channel_step_def split: sum.splits)
  from assms p1 p2 p3 have p4:
    "sender_connection_phase deps cfg ch (d1 \<or> c + a > 0) s3 = (did, s')"
    by (simp add: run_sender_channel_step_def)
  show ?thesis
    using sender_send_phase_frame [OF p1] sender_process_completions_effect [OF p2]
      sender_process_acks_effect [OF p3] sender_connection_phase_effect [OF p4, of 0]
    by simp
qed

lemma run_receiver_channel_step_frame:
  assumes "run_receiver_channel_step deps cfg hw s = Inr s'"
  shows "termination_signal s' = termination_signal s \<and> receiver_state s' = receiver_state s \<and>
     outbound_to_receiver_channel_pointers s' = outbound_to_receiver_channel_pointers s"
proof -
  from assms obtain s1 where p1: "receiver_ack_phase cfg hw s = Inr s1"
    by (auto simp: run_receiver_channel_step_def split: sum.splits)
  from assms p1 have p4: "receiver_completion_phase cfg hw
      (receiver_flush_phase cfg hw (receiver_forward_phase deps cfg s1)) = Inr s'"
    by (simp add: run_receiver_channel_step_def)
  show ?thesis
    using receiver_ack_phase_effect [OF p1] receiver_completion_phase_effect [OF p4]
    by (simp add: receiver_forward_phase_effect receiver_flush_phase_effect Let_def)
qed

lemma service_channels_frame:
  assumes "service_channels deps cfg hw s = Inr s'"
  shows "termination_signal s' = termination_signal s \<and> receiver_state s' = receiver_state s"
proof -
  from assms obtain did s1 where
    p1: "run_sender_channel_step deps cfg (sender_eth_txq_is_busy hw) (sender_channel_index s) s = Inr (did, s1)"
    by (auto simp: service_channels_def Let_def split: sum.splits)
  from assms p1 obtain s2 where
    p2: "run_receiver_channel_step deps cfg hw (s1\<lparr>sender_channel_index := 1 - sender_channel_index s1\<rparr>) = Inr s2"
    by (auto simp: service_channels_def Let_def split: sum.splits)
  from assms p1 p2 have
    "s' = s2\<lparr>did_nothing_count := 0\<rparr> \<or> s' = emit RunRouting (s2\<lparr>did_nothing_count := 0\<rparr>) \<or>
     s' = s2\<lparr>did_nothing_count := did_nothing_count s2 + 1\<rparr>"
    by (auto simp: service_channels_def Let_def split: if_splits)
  then show ?thesis
    using run_sender_channel_step_frame [OF p1] run_receiver_channel_step_frame [OF p2]
    by (auto simp: emit_def)
qed

lemma termination_signal_externals:
  "termination_signal (foldl apply_external s es) = termination_signal s \<or>
   ControllerWritesTerminationSignal (termination_signal (foldl apply_external s es)) \<in> set es"
proof (induction es arbitrary: s)
  case Nil
  then show ?case by simp
next
  case (Cons e es)
  show ?case
    using Cons.IH [of "apply_external s e"] by (cases e) auto
qed

lemma main_loop_iteration_Returned:
  "main_loop_iteration deps cfg inp s = Inr (Returned s') \<Longrightarrow>
   s' = foldl apply_external s (externals inp) \<and>
   (got_immediate_termination_signal s' \<or>
    got_graceful_termination_signal s' \<and> all_channels_drained deps s')"
  by (auto simp: main_loop_iteration_def Let_def split: if_splits sum.splits)

lemma main_loop_iteration_Polling:
  "main_loop_iteration deps cfg inp s = Inr (Polling s') \<Longrightarrow>
   service_channels deps cfg (hw_status inp) (foldl apply_external s (externals inp)) = Inr s'"
  by (auto simp: main_loop_iteration_def Let_def split: if_splits sum.splits)

lemma main_loop_Returned:
  "main_loop deps cfg inps s = Inr (Returned s') \<Longrightarrow>
   got_immediate_termination_signal s' \<or>
   got_graceful_termination_signal s' \<and> all_channels_drained deps s'"
proof (induction inps arbitrary: s)
  case Nil
  then show ?case by simp
next
  case (Cons inp inps)
  show ?case
  proof (cases "main_loop_iteration deps cfg inp s")
    case (Inl e)
    with Cons.prems show ?thesis by simp
  next
    case (Inr out)
    show ?thesis
    proof (cases out)
      case (Returned s1)
      with Inr Cons.prems have "s1 = s'" by simp
      with Inr Returned main_loop_iteration_Returned show ?thesis by blast
    next
      case (Polling s1)
      with Inr Cons.prems have "main_loop deps cfg inps s1 = Inr (Returned s')" by simp
      then show ?thesis by (rule Cons.IH)
    qed
  qed
qed

lemma main_loop_Returned_needs_controller_write:
  "main_loop deps cfg inps s = Inr (Returned s') \<Longrightarrow> termination_signal s = KEEP_RUNNING \<Longrightarrow>
   \<exists>inp \<in> set inps. \<exists>sig. sig \<noteq> KEEP_RUNNING \<and>
      ControllerWritesTerminationSignal sig \<in> set (externals inp)"
proof (induction inps arbitrary: s)
  case Nil
  then show ?case by simp
next
  case (Cons inp inps)
  let ?s1 = "foldl apply_external s (externals inp)"
  show ?case
  proof (cases "termination_signal ?s1 = KEEP_RUNNING")
    case False
    with termination_signal_externals [of s "externals inp"] Cons.prems(2)
    have "ControllerWritesTerminationSignal (termination_signal ?s1) \<in> set (externals inp)"
      by auto
    with False show ?thesis by auto
  next
    case True
    show ?thesis
    proof (cases "main_loop_iteration deps cfg inp s")
      case (Inl e)
      with Cons.prems show ?thesis by simp
    next
      case (Inr out)
      show ?thesis
      proof (cases out)
        case (Returned s1)
        with Inr main_loop_iteration_Returned [of deps cfg inp s s1] True
        show ?thesis
          by (auto simp: got_immediate_termination_signal_def got_graceful_termination_signal_def)
      next
        case (Polling s1)
        with Inr Cons.prems have m: "main_loop deps cfg inps s1 = Inr (Returned s')" by simp
        from Inr Polling have "service_channels deps cfg (hw_status inp) ?s1 = Inr s1"
          by (simp add: main_loop_iteration_Polling)
        with service_channels_frame True have "termination_signal s1 = KEEP_RUNNING" by metis
        from Cons.IH [OF m this] show ?thesis by auto
      qed
    qed
  qed
qed

lemmas loop_defs = main_loop_iteration_def service_channels_def all_channels_drained_def
  got_immediate_termination_signal_def got_graceful_termination_signal_def
  run_fabric_edm_main_loop_def

lemmas input_defs = graceful_request_def push_then_graceful_request_def immediate_request_def
  quiet_def

lemma graceful_request_facts:
  "termination_signal (foldl apply_external example_state (externals graceful_request))
     = GRACEFULLY_TERMINATE"
  "all_channels_drained example_deps
     (foldl apply_external example_state (externals graceful_request))"
  "termination_signal (foldl apply_external example_state (externals push_then_graceful_request))
     = GRACEFULLY_TERMINATE"
  "\<not> all_channels_drained example_deps
     (foldl apply_external example_state (externals push_then_graceful_request))"
  by (simp_all add: input_defs example_defs all_channels_drained_def is_caught_up_to_def
      to_receiver_pkts_sent_id_def to_sender_0_pkts_acked_id_def to_sender_1_pkts_acked_id_def
      to_sender_0_pkts_completed_id_def to_sender_1_pkts_completed_id_def)

lemma push_then_graceful_service:
  "\<exists>s'. service_channels example_deps example_cfg (hw_status push_then_graceful_request)
      (foldl apply_external example_state (externals push_then_graceful_request)) = Inr s' \<and>
      eth_sends (trace s') = [example_header\<lparr>src_ch_id := 0\<rparr>]"
  by (simp add: input_defs example_defs model_defs receiver_defs service_channels_def Let_def)

lemma main_loop_entry_overwrites_signal:
  "main_loop_entry (s\<lparr>termination_signal := sig\<rparr>) = main_loop_entry s"
  by (simp add: main_loop_entry_def)

lemma immediate_request_returns:
  "\<exists>s'. run_fabric_edm_main_loop example_deps example_cfg [quiet, immediate_request]
      (example_state\<lparr>termination_signal := IMMEDIATELY_TERMINATE\<rparr>) = Inr (Returned s')"
  by (simp add: input_defs example_defs model_defs receiver_defs loop_defs Let_def)

lemma quiet_keeps_polling:
  "\<exists>s'. run_fabric_edm_main_loop example_deps example_cfg [quiet]
      (example_state\<lparr>termination_signal := IMMEDIATELY_TERMINATE\<rparr>) = Inr (Polling s')"
  by (simp add: input_defs example_defs model_defs receiver_defs loop_defs Let_def)

lemma array_at_streams:
  "array_at to_sender_packets_completed_streams ch = Inr sid \<Longrightarrow>
     ch < 2 \<and> sid = to_sender_packets_completed_streams ! ch \<and> sid \<in> {3, 4}"
  "array_at to_sender_packets_acked_streams ch = Inr sid' \<Longrightarrow>
     ch < 2 \<and> sid' = to_sender_packets_acked_streams ! ch \<and> sid' \<in> {1, 2}"
  by (auto simp: array_at_def to_sender_packets_completed_streams_def
      to_sender_packets_acked_streams_def to_sender_0_pkts_acked_id_def
      to_sender_1_pkts_acked_id_def to_sender_0_pkts_completed_id_def
      to_sender_1_pkts_completed_id_def less_Suc_eq split: if_splits)

lemma word_le_succ: "(x::32 word) \<le> y \<Longrightarrow> y \<noteq> - 1 \<Longrightarrow> x \<le> y + 1"
  by (meson inc_less_eq_triv_imp nle_le order.trans)

lemma word_lt_succ_le: "(x::32 word) \<le> y \<Longrightarrow> x \<noteq> y \<Longrightarrow> x + 1 \<le> y"
  by (simp add: inc_le)

lemma word_le_succ_self: "(x::32 word) \<le> y \<Longrightarrow> x \<noteq> y \<Longrightarrow> x \<le> x + 1"
  by (meson inc_less_eq_self_imp_top linorder_linear order_antisym_conv)

lemma receiver_step_pointers:
  assumes "run_receiver_channel_step deps cfg hw s = Inr s'"
  shows "\<exists>a f w c.
     ack_ptr (receiver_channel_pointers s') = ack_ptr (receiver_channel_pointers s) + (if a then 1 else 0) \<and>
     wr_sent_ptr (receiver_channel_pointers s') = wr_sent_ptr (receiver_channel_pointers s) + (if f then 1 else 0) \<and>
     wr_flush_ptr (receiver_channel_pointers s') = wr_flush_ptr (receiver_channel_pointers s) + (if w then 1 else 0) \<and>
     completion_ptr (receiver_channel_pointers s') = completion_ptr (receiver_channel_pointers s) + (if c then 1 else 0) \<and>
     (f \<longrightarrow> wr_sent_ptr (receiver_channel_pointers s) \<noteq> ack_ptr (receiver_channel_pointers s')) \<and>
     (w \<longrightarrow> wr_flush_ptr (receiver_channel_pointers s) \<noteq> wr_sent_ptr (receiver_channel_pointers s')) \<and>
     (c \<longrightarrow> completion_ptr (receiver_channel_pointers s) \<noteq> wr_flush_ptr (receiver_channel_pointers s'))"
proof -
  from assms obtain s1 where p1: "receiver_ack_phase cfg hw s = Inr s1"
    by (auto simp: run_receiver_channel_step_def split: sum.splits)
  define s2 where "s2 = receiver_forward_phase deps cfg s1"
  define s3 where "s3 = receiver_flush_phase cfg hw s2"
  from assms p1 have p4: "receiver_completion_phase cfg hw s3 = Inr s'"
    by (simp add: run_receiver_channel_step_def s2_def s3_def)
  note e1 = receiver_ack_phase_effect [OF p1]
  note e4 = receiver_completion_phase_effect [OF p4]
  let ?a = "stream_regs s to_receiver_pkts_sent_id > 0 \<and> \<not> receiver_ack_eth_txq_is_busy hw"
  let ?f = "wr_sent_ptr (receiver_channel_pointers s1) \<noteq> ack_ptr (receiver_channel_pointers s1) \<and>
            can_forward_packet_completely deps (local_receiver_channel s1
            (get_buffer_index (RECEIVER_NUM_BUFFERS cfg) (wr_sent_ptr (receiver_channel_pointers s1))))
            (downstream_edm_interface s1)"
  let ?w = "wr_flush_ptr (receiver_channel_pointers s2) \<noteq> wr_sent_ptr (receiver_channel_pointers s2) \<and>
         ncrisc_noc_nonposted_writes_sent hw"
  let ?c = "completion_ptr (receiver_channel_pointers s3) \<noteq> wr_flush_ptr (receiver_channel_pointers s3) \<and>
         \<not> receiver_completion_eth_txq_is_busy hw"
  have q2: "receiver_channel_pointers s2 = (receiver_channel_pointers s1)
       \<lparr>wr_sent_ptr := wr_sent_ptr (receiver_channel_pointers s1) + (if ?f then 1 else 0)\<rparr>"
    by (simp add: s2_def receiver_forward_phase_effect Let_def)
  have q3: "receiver_channel_pointers s3 = (receiver_channel_pointers s2)
       \<lparr>wr_flush_ptr := wr_flush_ptr (receiver_channel_pointers s2) + (if ?w then 1 else 0)\<rparr>"
    by (simp add: s3_def receiver_flush_phase_effect)
  show ?thesis
    apply (rule exI [of _ ?a], rule exI [of _ ?f], rule exI [of _ ?w], rule exI [of _ ?c])
    using e1 e4 q2 q3 by (simp split: if_splits)
qed

lemma receiver_step_preserves_order:
  assumes "run_receiver_channel_step deps cfg hw s = Inr s'"
    and "receiver_ordered (receiver_channel_pointers s)"
    and "ack_ptr (receiver_channel_pointers s) \<noteq> - 1"
  shows "receiver_ordered (receiver_channel_pointers s')"
proof -
  from receiver_step_pointers [OF assms(1)] obtain a f w c where
    A: "ack_ptr (receiver_channel_pointers s') = ack_ptr (receiver_channel_pointers s) + (if a then 1 else 0)" and
    F: "wr_sent_ptr (receiver_channel_pointers s') = wr_sent_ptr (receiver_channel_pointers s) + (if f then 1 else 0)" and
    W: "wr_flush_ptr (receiver_channel_pointers s') = wr_flush_ptr (receiver_channel_pointers s) + (if w then 1 else 0)" and
    C: "completion_ptr (receiver_channel_pointers s') = completion_ptr (receiver_channel_pointers s) + (if c then 1 else 0)" and
    f: "f \<longrightarrow> wr_sent_ptr (receiver_channel_pointers s) \<noteq> ack_ptr (receiver_channel_pointers s')" and
    w: "w \<longrightarrow> wr_flush_ptr (receiver_channel_pointers s) \<noteq> wr_sent_ptr (receiver_channel_pointers s')" and
    c: "c \<longrightarrow> completion_ptr (receiver_channel_pointers s) \<noteq> wr_flush_ptr (receiver_channel_pointers s')"
    by blast
  let ?p = "receiver_channel_pointers s" and ?q = "receiver_channel_pointers s'"
  from assms(2) have o: "completion_ptr ?p \<le> wr_flush_ptr ?p" "wr_flush_ptr ?p \<le> wr_sent_ptr ?p"
    "wr_sent_ptr ?p \<le> ack_ptr ?p"
    by (simp_all add: receiver_ordered_def)
  have 1: "wr_sent_ptr ?p \<le> ack_ptr ?q"
    using A o(3) assms(3) by (simp add: word_le_succ split: if_splits)
  have 2: "wr_sent_ptr ?q \<le> ack_ptr ?q"
    using F 1 f by (simp add: word_lt_succ_le split: if_splits)
  have 3: "wr_sent_ptr ?p \<le> wr_sent_ptr ?q"
    using F 1 f by (auto simp add: word_le_succ_self split: if_splits)
  have 4: "wr_flush_ptr ?p \<le> wr_sent_ptr ?q" using o(2) 3 by simp
  have 5: "wr_flush_ptr ?q \<le> wr_sent_ptr ?q"
    using W 4 w by (simp add: word_lt_succ_le split: if_splits)
  have 6: "wr_flush_ptr ?p \<le> wr_flush_ptr ?q"
    using W 4 w by (auto simp add: word_le_succ_self split: if_splits)
  have 7: "completion_ptr ?p \<le> wr_flush_ptr ?q" using o(1) 6 by simp
  have 8: "completion_ptr ?q \<le> wr_flush_ptr ?q"
    using C 7 c by (simp add: word_lt_succ_le split: if_splits)
  from 2 5 8 show ?thesis by (simp add: receiver_ordered_def)
qed

lemma completion_advance_le:
  assumes "(p::32 word) \<le> w" and "0 < c" and "c \<le> int (unat (w - p))"
  shows "p + word_of_int c \<le> w"
proof -
  define k where "k = nat c"
  have wk: "word_of_int c = (of_nat k :: 32 word)"
    using assms(2) by (simp add: k_def)
  have d: "unat (w - p) = unat w - unat p"
    using assms(1) by (simp add: unat_sub)
  have pw: "unat p \<le> unat w"
    using assms(1) by (simp add: word_le_nat_alt)
  have "k \<le> unat (w - p)"
    using assms(2,3) unfolding k_def by linarith
  with d pw have kb: "unat p + k \<le> unat w"
    by linarith
  have lt: "unat w < 2 ^ 32" using unsigned_less [of w] by simp
  have "unat (p + of_nat k) = unat p + k"
    using kb le_unat_uoi by fastforce
  with kb have "unat (p + of_nat k) \<le> unat w" by simp
  then show ?thesis by (simp add: wk word_le_nat_alt)
qed

lemma sender_step_outbound:
  assumes "run_sender_channel_step deps cfg busy ch s = Inr (did, s')"
  shows "OutboundReceiverChannelPointers.ack_ptr (outbound_to_receiver_channel_pointers s') =
      OutboundReceiverChannelPointers.ack_ptr (outbound_to_receiver_channel_pointers s) \<and>
    wrptr (outbound_to_receiver_channel_pointers s') =
      wrptr (outbound_to_receiver_channel_pointers s) +
        (if sender_can_send deps cfg busy ch s then 1 else 0) \<and>
    OutboundReceiverChannelPointers.completion_ptr (outbound_to_receiver_channel_pointers s') =
      (if stream_regs s (to_sender_packets_completed_streams ! ch) > 0
       then OutboundReceiverChannelPointers.completion_ptr (outbound_to_receiver_channel_pointers s) +
              word_of_int (stream_regs s (to_sender_packets_completed_streams ! ch))
       else OutboundReceiverChannelPointers.completion_ptr (outbound_to_receiver_channel_pointers s))"
proof -
  obtain d1 s1 where p1: "sender_send_phase deps cfg busy ch s = (d1, s1)"
    by (cases "sender_send_phase deps cfg busy ch s")
  from assms p1 obtain c s2 where p2: "sender_process_completions ch s1 = Inr (c, s2)"
    by (auto simp: run_sender_channel_step_def split: sum.splits)
  from assms p1 p2 obtain a s3 where p3: "sender_process_acks ch s2 = Inr (a, s3)"
    by (auto simp: run_sender_channel_step_def split: sum.splits)
  from assms p1 p2 p3 have p4:
    "sender_connection_phase deps cfg ch (d1 \<or> c + a > 0) s3 = (did, s')"
    by (simp add: run_sender_channel_step_def)
  note e1 = sender_send_phase_effect [OF p1] sender_send_phase_frame [OF p1, of ch]
  note e2 = sender_process_completions_effect [OF p2]
  note e3 = sender_process_acks_effect [OF p3]
  note e4 = sender_connection_phase_effect [OF p4, of 0]
  from e2 obtain sid where c1: "array_at to_sender_packets_completed_streams ch = Inr sid"
    by blast
  note ids = array_at_streams(1) [OF c1]
  have c: "c = stream_regs s (to_sender_packets_completed_streams ! ch)"
    using e1 e2 c1 ids by auto
  show ?thesis
    using e1 e2 e3 e4 unfolding c by (simp split: if_splits)
qed

lemma externals_pointers:
  "receiver_channel_pointers (foldl apply_external s es) = receiver_channel_pointers s \<and>
   outbound_to_receiver_channel_pointers (foldl apply_external s es) =
     outbound_to_receiver_channel_pointers s"
proof (induction es arbitrary: s)
  case Nil
  then show ?case by simp
next
  case (Cons e es)
  show ?case using Cons.IH [of "apply_external s e"] by (cases e) auto
qed

lemma ack_ptr_step_bound:
  assumes "run_receiver_channel_step deps cfg hw s = Inr s'"
  shows "unat (ack_ptr (receiver_channel_pointers s')) \<le>
     unat (ack_ptr (receiver_channel_pointers s)) + 1"
proof -
  from receiver_step_pointers [OF assms] obtain a where
    "ack_ptr (receiver_channel_pointers s') =
       ack_ptr (receiver_channel_pointers s) + (if a then 1 else 0)"
    by blast
  then show ?thesis
    by (cases a) (simp_all add: unat_word_ariths)
qed

lemma service_channels_pointers:
  assumes "service_channels deps cfg hw s = Inr s'"
    and "receiver_ordered (receiver_channel_pointers s)"
    and "ack_ptr (receiver_channel_pointers s) \<noteq> - 1"
  shows "receiver_ordered (receiver_channel_pointers s') \<and>
     unat (ack_ptr (receiver_channel_pointers s')) \<le>
       unat (ack_ptr (receiver_channel_pointers s)) + 1 \<and>
     OutboundReceiverChannelPointers.ack_ptr (outbound_to_receiver_channel_pointers s') =
       OutboundReceiverChannelPointers.ack_ptr (outbound_to_receiver_channel_pointers s)"
proof -
  from assms(1) obtain did s1 where
    p1: "run_sender_channel_step deps cfg (sender_eth_txq_is_busy hw) (sender_channel_index s) s = Inr (did, s1)"
    by (auto simp: service_channels_def Let_def split: sum.splits)
  let ?s1 = "s1\<lparr>sender_channel_index := 1 - sender_channel_index s1\<rparr>"
  from assms(1) p1 obtain s2 where
    p2: "run_receiver_channel_step deps cfg hw ?s1 = Inr s2"
    by (auto simp: service_channels_def Let_def split: sum.splits)
  from assms(1) p1 p2 have
    "s' = s2\<lparr>did_nothing_count := 0\<rparr> \<or> s' = emit RunRouting (s2\<lparr>did_nothing_count := 0\<rparr>) \<or>
     s' = s2\<lparr>did_nothing_count := did_nothing_count s2 + 1\<rparr>"
    by (auto simp: service_channels_def Let_def split: if_splits)
  then have e: "receiver_channel_pointers s' = receiver_channel_pointers s2"
    "outbound_to_receiver_channel_pointers s' = outbound_to_receiver_channel_pointers s2"
    by (auto simp: emit_def)
  have r1: "receiver_channel_pointers ?s1 = receiver_channel_pointers s"
    using run_sender_channel_step_frame [OF p1] by simp
  have o1: "OutboundReceiverChannelPointers.ack_ptr (outbound_to_receiver_channel_pointers ?s1) =
      OutboundReceiverChannelPointers.ack_ptr (outbound_to_receiver_channel_pointers s)"
    using sender_step_outbound [OF p1] by simp
  have o2: "outbound_to_receiver_channel_pointers s2 = outbound_to_receiver_channel_pointers ?s1"
    using run_receiver_channel_step_frame [OF p2] by simp
  have "receiver_ordered (receiver_channel_pointers s2)"
    using receiver_step_preserves_order [OF p2] r1 assms(2,3) by simp
  moreover have "unat (ack_ptr (receiver_channel_pointers s2)) \<le>
       unat (ack_ptr (receiver_channel_pointers s)) + 1"
    using ack_ptr_step_bound [OF p2] r1 by simp
  ultimately show ?thesis using e o1 o2 by simp
qed

lemma unat_not_max: "unat (x::32 word) + 1 < 2 ^ 32 \<Longrightarrow> x \<noteq> - 1"
proof
  assume a: "unat x + 1 < 2 ^ 32" and "x = - 1"
  then have "unat x = 2 ^ 32 - 1" by (simp add: unsigned_minus_1_eq_mask mask_eq_exp_minus_1)
  with a show False by simp
qed

lemma main_loop_pointers:
  "main_loop deps cfg inps s = Inr out \<Longrightarrow> receiver_ordered (receiver_channel_pointers s) \<Longrightarrow>
   unat (ack_ptr (receiver_channel_pointers s)) + length inps < 2 ^ 32 \<Longrightarrow>
   receiver_ordered (receiver_channel_pointers (outcome_state out)) \<and>
   OutboundReceiverChannelPointers.ack_ptr (outbound_to_receiver_channel_pointers (outcome_state out)) =
     OutboundReceiverChannelPointers.ack_ptr (outbound_to_receiver_channel_pointers s)"
proof (induction inps arbitrary: s)
  case Nil
  then show ?case by (auto simp add: outcome_state_def)
next
  case (Cons inp inps)
  let ?s1 = "foldl apply_external s (externals inp)"
  note x = externals_pointers [of s "externals inp"]
  show ?case
  proof (cases "main_loop_iteration deps cfg inp s")
    case (Inl e)
    with Cons.prems show ?thesis by simp
  next
    case (Inr o1)
    show ?thesis
    proof (cases o1)
      case (Returned s1)
      with Inr Cons.prems(1) have "out = Returned s1" by simp
      moreover from Inr Returned have "s1 = ?s1"
        using main_loop_iteration_Returned by blast
      ultimately show ?thesis using x Cons.prems(2) by (simp add: outcome_state_def)
    next
      case (Polling s1)
      with Inr Cons.prems(1) have m: "main_loop deps cfg inps s1 = Inr out" by simp
      from Inr Polling have sv: "service_channels deps cfg (hw_status inp) ?s1 = Inr s1"
        by (simp add: main_loop_iteration_Polling)
      have o: "receiver_ordered (receiver_channel_pointers ?s1)"
        using x Cons.prems(2) by simp
      have n: "ack_ptr (receiver_channel_pointers ?s1) \<noteq> - 1"
        using x Cons.prems(3) by (intro unat_not_max) simp
      note sp = service_channels_pointers [OF sv o n]
      have b: "unat (ack_ptr (receiver_channel_pointers s1)) + length inps < 2 ^ 32"
        using sp x Cons.prems(3) by simp
      from Cons.IH [OF m _ b] sp x show ?thesis by simp
    qed
  qed
qed

lemma in_flight_state_eq:
  "in_flight_state = pushed_state
     \<lparr>local_sender_channels := (\<lambda>ch i. example_header)(0 := (\<lambda>i. example_header)(0 := example_header\<lparr>src_ch_id := 0\<rparr>)),
      local_sender_channel_worker_interfaces :=
        (\<lambda>ch. \<lparr>local_wrptr = 0, local_ackptr = 0, local_rdptr = 0, worker_side = (0, 0)\<rparr>)
        (0 := \<lparr>local_wrptr = 1, local_ackptr = 0, local_rdptr = 0, worker_side = (1, 1)\<rparr>),
      channel_connection_established := (\<lambda>_. False)(0 := True),
      outbound_to_receiver_channel_pointers :=
        \<lparr>wrptr = 1, OutboundReceiverChannelPointers.ack_ptr = 0,
         OutboundReceiverChannelPointers.completion_ptr = 0\<rparr>,
      trace := [EthSendBytes 0 0 (example_header\<lparr>src_ch_id := 0\<rparr>) 64, RemoteUpdatePtrVal 0 1,
                GetPtrVal 3 0, GetPtrVal 1 0, UpdateWorkerCopyOfReadPtr]\<rparr>"
  by (simp add: in_flight_state_def example_defs model_defs Let_def)

lemma completed_state_step:
  "run_sender_channel_step example_deps example_cfg False 0 completed_state =
     Inr (True, completed_state
       \<lparr>local_sender_channel_worker_interfaces :=
          (\<lambda>ch. \<lparr>local_wrptr = 0, local_ackptr = 0, local_rdptr = 0, worker_side = (0, 0)\<rparr>)
          (0 := \<lparr>local_wrptr = 1, local_ackptr = 1, local_rdptr = 1, worker_side = (1, 1)\<rparr>),
        outbound_to_receiver_channel_pointers :=
          \<lparr>wrptr = 1, OutboundReceiverChannelPointers.ack_ptr = 0,
           OutboundReceiverChannelPointers.completion_ptr = 1\<rparr>,
        stream_regs := (\<lambda>i. 0),
        trace := trace completed_state @
          [GetPtrVal 3 1, IncrementLocalUpdatePtrVal 3 (- 1), GetPtrVal 1 1,
           UpdateWorkerCopyOfReadPtr, IncrementLocalUpdatePtrVal 1 (- 1)]\<rparr>)"
  by (simp add: completed_state_def in_flight_state_eq example_defs model_defs Let_def fun_eq_iff)

lemma completed_state_facts:
  "trace completed_state = [EthSendBytes 0 0 (example_header\<lparr>src_ch_id := 0\<rparr>) 64, RemoteUpdatePtrVal 0 1,
                GetPtrVal 3 0, GetPtrVal 1 0, UpdateWorkerCopyOfReadPtr]"
  "outbound_to_receiver_channel_pointers completed_state =
     \<lparr>wrptr = 1, OutboundReceiverChannelPointers.ack_ptr = 0,
      OutboundReceiverChannelPointers.completion_ptr = 0\<rparr>"
  "stream_regs completed_state (to_sender_packets_completed_streams ! 0) = 1"
  "stream_regs completed_state (to_sender_packets_acked_streams ! 0) = 1"
  "local_sender_channel_worker_interfaces completed_state 0 =
     \<lparr>local_wrptr = 1, local_ackptr = 0, local_rdptr = 0, worker_side = (1, 1)\<rparr>"
  "channel_connection_established completed_state 0"
  by (simp_all add: completed_state_def in_flight_state_eq example_defs model_defs)

lemma five_iterations_poll:
  "\<exists>s. run_fabric_edm_main_loop example_deps example_cfg
      [push, ack_arrives, quiet, completion_arrives, quiet] example_state = Inr (Polling s)"
  by (simp add: push_def ack_arrives_def completion_arrives_def input_defs example_defs
      model_defs receiver_defs loop_defs Let_def)




lemma sender_step_keeps_loop_locals:
  "run_sender_channel_step deps cfg busy ch s = Inr (did, s') \<Longrightarrow>
   did_nothing_count s' = did_nothing_count s \<and> sender_channel_index s' = sender_channel_index s"
  by (auto simp: run_sender_channel_step_def sender_send_phase_def send_next_data_def
      sender_process_completions_def sender_process_acks_def sender_connection_phase_def
      get_ptr_val_def increment_local_update_ptr_val_def remote_update_ptr_val_def emit_def
      Let_def split: sum.splits if_splits prod.splits)

lemma receiver_step_keeps_loop_locals:
  "run_receiver_channel_step deps cfg hw s = Inr s' \<Longrightarrow>
   did_nothing_count s' = did_nothing_count s \<and> sender_channel_index s' = sender_channel_index s"
  by (auto simp: run_receiver_channel_step_def receiver_ack_phase_def receiver_forward_phase_effect
      receiver_flush_phase_effect receiver_completion_phase_def receiver_send_received_ack_def
      receiver_send_completion_ack_def
      get_ptr_val_def increment_local_update_ptr_val_def remote_update_ptr_val_def emit_def
      Let_def split: sum.splits if_splits prod.splits)

lemma idle_count_follows_sender_step_only:
  assumes "service_channels deps cfg hw s = Inr s'"
  shows "\<exists>did s1 s2.
     run_sender_channel_step deps cfg (sender_eth_txq_is_busy hw) (sender_channel_index s) s
       = Inr (did, s1) \<and>
     run_receiver_channel_step deps cfg hw (s1\<lparr>sender_channel_index := 1 - sender_channel_index s\<rparr>)
       = Inr s2 \<and>
     s' = (if did then s2\<lparr>did_nothing_count := 0\<rparr>
           else if did_nothing_count s > SWITCH_INTERVAL cfg
             then emit RunRouting (s2\<lparr>did_nothing_count := 0\<rparr>)
           else s2\<lparr>did_nothing_count := did_nothing_count s + 1\<rparr>)"
proof -
  from assms obtain did s1 where
    p1: "run_sender_channel_step deps cfg (sender_eth_txq_is_busy hw) (sender_channel_index s) s = Inr (did, s1)"
    by (auto simp: service_channels_def Let_def split: sum.splits)
  note k1 = sender_step_keeps_loop_locals [OF p1] run_sender_channel_step_frame [OF p1]
  let ?s1 = "s1\<lparr>sender_channel_index := 1 - sender_channel_index s\<rparr>"
  from assms p1 k1 obtain s2 where
    p2: "run_receiver_channel_step deps cfg hw ?s1 = Inr s2"
    by (auto simp: service_channels_def Let_def split: sum.splits)
  note k2 = receiver_step_keeps_loop_locals [OF p2] run_receiver_channel_step_frame [OF p2]
  from assms p1 p2 k1 k2 have
    "s' = (if did then s2\<lparr>did_nothing_count := 0\<rparr>
           else if did_nothing_count s > SWITCH_INTERVAL cfg
             then emit RunRouting (s2\<lparr>did_nothing_count := 0\<rparr>)
           else s2\<lparr>did_nothing_count := did_nothing_count s + 1\<rparr>)"
    by (auto simp: service_channels_def Let_def split: if_splits)
  with p1 p2 show ?thesis by blast
qed

lemma sender_step_returns_true_iff_it_acted:
  assumes "run_sender_channel_step deps cfg busy ch s = Inr (did, s')"
    and "0 \<le> stream_regs s (to_sender_packets_completed_streams ! ch)"
    and "0 \<le> stream_regs s (to_sender_packets_acked_streams ! ch)"
  shows "did \<longleftrightarrow>
     sender_can_send deps cfg busy ch s \<or>
     0 < stream_regs s (to_sender_packets_completed_streams ! ch) \<or>
     0 < stream_regs s (to_sender_packets_acked_streams ! ch) \<or>
     channel_connection_established s' ch \<noteq> channel_connection_established s ch"
proof -
  obtain d1 s1 where p1: "sender_send_phase deps cfg busy ch s = (d1, s1)"
    by (cases "sender_send_phase deps cfg busy ch s")
  from assms p1 obtain c s2 where p2: "sender_process_completions ch s1 = Inr (c, s2)"
    by (auto simp: run_sender_channel_step_def split: sum.splits)
  from assms p1 p2 obtain a s3 where p3: "sender_process_acks ch s2 = Inr (a, s3)"
    by (auto simp: run_sender_channel_step_def split: sum.splits)
  from assms p1 p2 p3 have p4:
    "sender_connection_phase deps cfg ch (d1 \<or> c + a > 0) s3 = (did, s')"
    by (simp add: run_sender_channel_step_def)
  note e1 = sender_send_phase_effect [OF p1] sender_send_phase_frame [OF p1, of ch]
  note e2 = sender_process_completions_effect [OF p2]
  note e3 = sender_process_acks_effect [OF p3]
  from e2 obtain sid where c1: "array_at to_sender_packets_completed_streams ch = Inr sid"
    by blast
  from e3 obtain sid' where c2: "array_at to_sender_packets_acked_streams ch = Inr sid'"
    by blast
  note ids = array_at_streams(1) [OF c1] array_at_streams(2) [OF c2]
  have ne: "to_sender_packets_completed_streams ! ch \<noteq> to_sender_packets_acked_streams ! ch"
    using ids by auto
  have c: "c = stream_regs s (to_sender_packets_completed_streams ! ch)"
    using e1 e2 c1 ids by auto
  have r2: "stream_regs s2 = (if c > 0 then (stream_regs s)(to_sender_packets_completed_streams ! ch := 0) else stream_regs s)"
    using e1 e2 c1 ids by auto
  have a: "a = stream_regs s (to_sender_packets_acked_streams ! ch)"
    using e3 c2 ids r2 ne by auto
  have cc: "channel_connection_established s3 ch = channel_connection_established s ch"
    using e1 e2 e3 by simp
  have d1: "d1 = sender_can_send deps cfg busy ch s" using e1 by simp
  have pos: "c + a > 0 \<longleftrightarrow> 0 < c \<or> 0 < a"
    using assms(2,3) c a by auto
  have "did \<longleftrightarrow> (d1 \<or> c + a > 0) \<or>
      channel_connection_established s' ch \<noteq> channel_connection_established s3 ch"
    using p4 by (auto simp: sender_connection_phase_def Let_def emit_def split: if_splits)
  then show ?thesis using d1 pos cc c a by simp
qed

lemma link_invariant_ordered: "link_invariant L \<Longrightarrow> link_ordered L"
  by (auto simp: link_invariant_def link_credits_def link_ordered_def word_le_def)

lemma delivery_effect:
  "stream_regs (foldl apply_external s (link_delivery evs)) i =
     stream_regs s i + sum_list (remote_updates i evs) \<and>
   receiver_channel_pointers (foldl apply_external s (link_delivery evs)) = receiver_channel_pointers s \<and>
   outbound_to_receiver_channel_pointers (foldl apply_external s (link_delivery evs)) =
     outbound_to_receiver_channel_pointers s \<and>
   trace (foldl apply_external s (link_delivery evs)) = trace s"
proof (induction evs arbitrary: s rule: link_delivery.induct)
  case 1
  then show ?case by simp
next
  case (2 i j h n es)
  show ?case using 2 [of "apply_external s (RemoteWritesReceiverSlot j h)"] by simp
next
  case (3 k v es)
  show ?case using 3 [of "apply_external s (RemoteIncrementsStreamReg k v)"] by simp
qed simp_all

lemma remote_updates_complete_forward [simp]: "remote_updates i (complete_forward deps h) = []"
  by (simp add: complete_forward_def)

lemma receiver_ack_phase_remote:
  "receiver_ack_phase cfg hw s = Inr s' \<Longrightarrow>
   \<exists>evs. trace s' = trace s @ evs \<and>
     remote_updates to_sender_0_pkts_completed_id evs = [] \<and>
     remote_updates to_sender_1_pkts_completed_id evs = [] \<and>
     remote_updates to_receiver_pkts_sent_id evs = [] \<and>
     stream_regs s' to_receiver_pkts_sent_id = stream_regs s to_receiver_pkts_sent_id -
       (if stream_regs s to_receiver_pkts_sent_id > 0 \<and> \<not> receiver_ack_eth_txq_is_busy hw
        then 1 else 0)"
  by (auto simp: receiver_ack_phase_def receiver_send_received_ack_def get_ptr_val_def Let_def
      increment_local_update_ptr_val_def remote_update_ptr_val_def emit_def array_at_def
      to_sender_packets_acked_streams_def to_sender_0_pkts_acked_id_def
      to_sender_1_pkts_acked_id_def to_sender_0_pkts_completed_id_def
      to_sender_1_pkts_completed_id_def to_receiver_pkts_sent_id_def less_Suc_eq
      split: sum.splits if_splits)

lemma receiver_completion_phase_remote:
  "receiver_completion_phase cfg hw s = Inr s' \<Longrightarrow>
   \<exists>evs. trace s' = trace s @ evs \<and>
     sum_list (remote_updates to_sender_0_pkts_completed_id evs) +
       sum_list (remote_updates to_sender_1_pkts_completed_id evs) =
       (if completion_ptr (receiver_channel_pointers s) \<noteq> wr_flush_ptr (receiver_channel_pointers s) \<and>
           \<not> receiver_completion_eth_txq_is_busy hw then 1 else 0) \<and>
     0 \<le> sum_list (remote_updates to_sender_0_pkts_completed_id evs) \<and>
     0 \<le> sum_list (remote_updates to_sender_1_pkts_completed_id evs) \<and>
     remote_updates to_receiver_pkts_sent_id evs = [] \<and>
     stream_regs s' = stream_regs s"
  by (auto simp: receiver_completion_phase_def receiver_send_completion_ack_def Let_def
      is_caught_up_to_def remote_update_ptr_val_def emit_def array_at_def
      to_sender_packets_completed_streams_def to_sender_0_pkts_completed_id_def
      to_sender_1_pkts_completed_id_def to_receiver_pkts_sent_id_def less_Suc_eq
      split: sum.splits if_splits)

lemma receiver_step_detail:
  assumes "run_receiver_channel_step deps cfg hw s = Inr s'"
    and "receiver_ordered (receiver_channel_pointers s)"
    and "0 < stream_regs s to_receiver_pkts_sent_id \<and> \<not> receiver_ack_eth_txq_is_busy hw \<longrightarrow>
           ack_ptr (receiver_channel_pointers s) \<noteq> - 1"
  shows "receiver_ordered (receiver_channel_pointers s') \<and>
     (\<exists>a c evs.
        a = (0 < stream_regs s to_receiver_pkts_sent_id \<and> \<not> receiver_ack_eth_txq_is_busy hw) \<and>
        ack_ptr (receiver_channel_pointers s') =
          ack_ptr (receiver_channel_pointers s) + (if a then 1 else 0) \<and>
        stream_regs s' to_receiver_pkts_sent_id =
          stream_regs s to_receiver_pkts_sent_id - (if a then 1 else 0) \<and>
        completion_ptr (receiver_channel_pointers s') =
          completion_ptr (receiver_channel_pointers s) + (if c then 1 else 0) \<and>
        (c \<longrightarrow> completion_ptr (receiver_channel_pointers s) \<noteq> - 1) \<and>
        trace s' = trace s @ evs \<and>
        sum_list (remote_updates to_sender_0_pkts_completed_id evs) +
          sum_list (remote_updates to_sender_1_pkts_completed_id evs) = (if c then 1 else 0) \<and>
        0 \<le> sum_list (remote_updates to_sender_0_pkts_completed_id evs) \<and>
        0 \<le> sum_list (remote_updates to_sender_1_pkts_completed_id evs) \<and>
        remote_updates to_receiver_pkts_sent_id evs = [])"
proof -
  from assms(1) obtain s1 where p1: "receiver_ack_phase cfg hw s = Inr s1"
    by (auto simp: run_receiver_channel_step_def split: sum.splits)
  define s2 where "s2 = receiver_forward_phase deps cfg s1"
  define s3 where "s3 = receiver_flush_phase cfg hw s2"
  from assms(1) p1 have p4: "receiver_completion_phase cfg hw s3 = Inr s'"
    by (simp add: run_receiver_channel_step_def s2_def s3_def)
  note e1 = receiver_ack_phase_effect [OF p1]
  note e4 = receiver_completion_phase_effect [OF p4]
  let ?a = "stream_regs s to_receiver_pkts_sent_id > 0 \<and> \<not> receiver_ack_eth_txq_is_busy hw"
  let ?f = "wr_sent_ptr (receiver_channel_pointers s1) \<noteq> ack_ptr (receiver_channel_pointers s1) \<and>
            can_forward_packet_completely deps (local_receiver_channel s1
            (get_buffer_index (RECEIVER_NUM_BUFFERS cfg) (wr_sent_ptr (receiver_channel_pointers s1))))
            (downstream_edm_interface s1)"
  let ?w = "wr_flush_ptr (receiver_channel_pointers s2) \<noteq> wr_sent_ptr (receiver_channel_pointers s2) \<and>
         ncrisc_noc_nonposted_writes_sent hw"
  let ?c = "completion_ptr (receiver_channel_pointers s3) \<noteq> wr_flush_ptr (receiver_channel_pointers s3) \<and>
         \<not> receiver_completion_eth_txq_is_busy hw"
  have q2: "receiver_channel_pointers s2 = (receiver_channel_pointers s1)
       \<lparr>wr_sent_ptr := wr_sent_ptr (receiver_channel_pointers s1) + (if ?f then 1 else 0)\<rparr>"
    and t2: "\<exists>evs2. trace s2 = trace s1 @ evs2 \<and> (\<forall>i. remote_updates i evs2 = [])"
    and r2: "stream_regs s2 = stream_regs s1"
    by (simp_all add: s2_def receiver_forward_phase_effect Let_def)
  have q3: "receiver_channel_pointers s3 = (receiver_channel_pointers s2)
       \<lparr>wr_flush_ptr := wr_flush_ptr (receiver_channel_pointers s2) + (if ?w then 1 else 0)\<rparr>"
    and t3: "\<exists>evs3. trace s3 = trace s2 @ evs3 \<and> (\<forall>i. remote_updates i evs3 = [])"
    and r3: "stream_regs s3 = stream_regs s2"
    by (simp_all add: s3_def receiver_flush_phase_effect)
  let ?p = "receiver_channel_pointers s" and ?q = "receiver_channel_pointers s'"
  have A: "ack_ptr ?q = ack_ptr ?p + (if ?a then 1 else 0)"
    and F: "wr_sent_ptr ?q = wr_sent_ptr ?p + (if ?f then 1 else 0)"
    and W: "wr_flush_ptr ?q = wr_flush_ptr ?p + (if ?w then 1 else 0)"
    and C: "completion_ptr ?q = completion_ptr ?p + (if ?c then 1 else 0)"
    and f: "?f \<longrightarrow> wr_sent_ptr ?p \<noteq> ack_ptr ?q"
    and w: "?w \<longrightarrow> wr_flush_ptr ?p \<noteq> wr_sent_ptr ?q"
    and c: "?c \<longrightarrow> completion_ptr ?p \<noteq> wr_flush_ptr ?q"
    using e1 e4 q2 q3 by (simp_all split: if_splits)
  from assms(2) have o: "completion_ptr ?p \<le> wr_flush_ptr ?p" "wr_flush_ptr ?p \<le> wr_sent_ptr ?p"
    "wr_sent_ptr ?p \<le> ack_ptr ?p"
    by (simp_all add: receiver_ordered_def)
  have 1: "wr_sent_ptr ?p \<le> ack_ptr ?q"
    using A o(3) assms(3) by (simp add: word_le_succ split: if_splits)
  have 2: "wr_sent_ptr ?q \<le> ack_ptr ?q"
    using F 1 f by (simp add: word_lt_succ_le split: if_splits)
  have 3: "wr_sent_ptr ?p \<le> wr_sent_ptr ?q"
    using F 1 f by (auto simp add: word_le_succ_self split: if_splits)
  have 4: "wr_flush_ptr ?p \<le> wr_sent_ptr ?q" using o(2) 3 by simp
  have 5: "wr_flush_ptr ?q \<le> wr_sent_ptr ?q"
    using W 4 w by (simp add: word_lt_succ_le split: if_splits)
  have 6: "wr_flush_ptr ?p \<le> wr_flush_ptr ?q"
    using W 4 w by (auto simp add: word_le_succ_self split: if_splits)
  have 7: "completion_ptr ?p \<le> wr_flush_ptr ?q" using o(1) 6 by simp
  have 8: "completion_ptr ?q \<le> wr_flush_ptr ?q"
    using C 7 c by (simp add: word_lt_succ_le split: if_splits)
  have 9: "?c \<longrightarrow> completion_ptr ?p \<noteq> - 1"
  proof
    assume ?c
    with c 7 have "completion_ptr ?p < wr_flush_ptr ?q" by simp
    then show "completion_ptr ?p \<noteq> - 1"
      by (metis word_order.extremum_strict)
  qed
  have ord: "receiver_ordered ?q" using 2 5 8 by (simp add: receiver_ordered_def)
  from receiver_ack_phase_remote [OF p1] obtain evs1 where
    t1: "trace s1 = trace s @ evs1"
    and u1: "remote_updates to_sender_0_pkts_completed_id evs1 = []"
      "remote_updates to_sender_1_pkts_completed_id evs1 = []"
      "remote_updates to_receiver_pkts_sent_id evs1 = []"
    and g1: "stream_regs s1 to_receiver_pkts_sent_id = stream_regs s to_receiver_pkts_sent_id -
       (if ?a then 1 else 0)"
    by blast
  from t2 obtain evs2 where t2': "trace s2 = trace s1 @ evs2"
    and u2: "\<forall>i. remote_updates i evs2 = []" by blast
  from t3 obtain evs3 where t3': "trace s3 = trace s2 @ evs3"
    and u3: "\<forall>i. remote_updates i evs3 = []" by blast
  from receiver_completion_phase_remote [OF p4] obtain evs4 where
    t4: "trace s' = trace s3 @ evs4"
    and u4: "sum_list (remote_updates to_sender_0_pkts_completed_id evs4) +
       sum_list (remote_updates to_sender_1_pkts_completed_id evs4) = (if ?c then 1 else 0)"
      "0 \<le> sum_list (remote_updates to_sender_0_pkts_completed_id evs4)"
      "0 \<le> sum_list (remote_updates to_sender_1_pkts_completed_id evs4)"
      "remote_updates to_receiver_pkts_sent_id evs4 = []"
    and g4: "stream_regs s' = stream_regs s3"
    by blast
  have tr: "trace s' = trace s @ (evs1 @ evs2 @ evs3 @ evs4)"
    using t1 t2' t3' t4 by simp
  have G: "stream_regs s' to_receiver_pkts_sent_id =
      stream_regs s to_receiver_pkts_sent_id - (if ?a then 1 else 0)"
    using g1 r2 r3 g4 by simp
  show ?thesis
    apply (rule conjI [OF ord])
    apply (rule exI [of _ ?a], rule exI [of _ ?c], rule exI [of _ "evs1 @ evs2 @ evs3 @ evs4"])
    using A C 9 tr G u1 u2 u3 u4 by simp
qed

lemma sender_step_detail:
  assumes "run_sender_channel_step deps cfg busy ch s = Inr (did, s')"
  shows "\<exists>evs cid.
     cid = to_sender_packets_completed_streams ! ch \<and>
     (cid = to_sender_0_pkts_completed_id \<or> cid = to_sender_1_pkts_completed_id) \<and>
     trace s' = trace s @ evs \<and>
     remote_updates to_receiver_pkts_sent_id evs =
       (if sender_can_send deps cfg busy ch s then [1] else []) \<and>
     wrptr (outbound_to_receiver_channel_pointers s') =
       wrptr (outbound_to_receiver_channel_pointers s) +
         (if sender_can_send deps cfg busy ch s then 1 else 0) \<and>
     OutboundReceiverChannelPointers.completion_ptr (outbound_to_receiver_channel_pointers s') =
       (if stream_regs s cid > 0
        then OutboundReceiverChannelPointers.completion_ptr (outbound_to_receiver_channel_pointers s) +
               word_of_int (stream_regs s cid)
        else OutboundReceiverChannelPointers.completion_ptr (outbound_to_receiver_channel_pointers s)) \<and>
     stream_regs s' to_sender_0_pkts_completed_id =
       (if cid = to_sender_0_pkts_completed_id \<and> stream_regs s cid > 0 then 0
        else stream_regs s to_sender_0_pkts_completed_id) \<and>
     stream_regs s' to_sender_1_pkts_completed_id =
       (if cid = to_sender_1_pkts_completed_id \<and> stream_regs s cid > 0 then 0
        else stream_regs s to_sender_1_pkts_completed_id)"
proof -
  obtain d1 s1 where p1: "sender_send_phase deps cfg busy ch s = (d1, s1)"
    by (cases "sender_send_phase deps cfg busy ch s")
  from assms p1 obtain c s2 where p2: "sender_process_completions ch s1 = Inr (c, s2)"
    by (auto simp: run_sender_channel_step_def split: sum.splits)
  from assms p1 p2 obtain a s3 where p3: "sender_process_acks ch s2 = Inr (a, s3)"
    by (auto simp: run_sender_channel_step_def split: sum.splits)
  from assms p1 p2 p3 have p4:
    "sender_connection_phase deps cfg ch (d1 \<or> c + a > 0) s3 = (did, s')"
    by (simp add: run_sender_channel_step_def)
  note e1 = sender_send_phase_effect [OF p1]
  note e2 = sender_process_completions_effect [OF p2]
  note e3 = sender_process_acks_effect [OF p3]
  note e4 = sender_connection_phase_effect [OF p4, of to_receiver_pkts_sent_id]
  let ?cid = "to_sender_packets_completed_streams ! ch"
  let ?aid = "to_sender_packets_acked_streams ! ch"
  from e2 obtain sid where c1: "array_at to_sender_packets_completed_streams ch = Inr sid"
    by blast
  from e3 obtain sid' where c2: "array_at to_sender_packets_acked_streams ch = Inr sid'"
    by blast
  note ids = array_at_streams(1) [OF c1] array_at_streams(2) [OF c2]
  have cid: "?cid = to_sender_0_pkts_completed_id \<or> ?cid = to_sender_1_pkts_completed_id"
    using ids by (auto simp: to_sender_0_pkts_completed_id_def to_sender_1_pkts_completed_id_def)
  have aid: "?aid \<noteq> to_sender_0_pkts_completed_id" "?aid \<noteq> to_sender_1_pkts_completed_id"
    using ids by (auto simp: to_sender_0_pkts_completed_id_def to_sender_1_pkts_completed_id_def)
  have ps: "to_receiver_pkts_sent_id \<noteq> ?cid" "to_receiver_pkts_sent_id \<noteq> ?aid"
    using ids by (auto simp: to_receiver_pkts_sent_id_def)
  from e1 obtain evs1 where t1: "trace s1 = trace s @ evs1"
    and r1: "remote_updates to_receiver_pkts_sent_id evs1 = (if d1 then [1] else [])" by blast
  from e2 obtain evs2 where t2: "trace s2 = trace s1 @ evs2"
    and r2: "remote_updates to_receiver_pkts_sent_id evs2 = []"
    by (auto split: if_splits)
  from e3 obtain evs3 where t3: "trace s3 = trace s2 @ evs3"
    and r3: "remote_updates to_receiver_pkts_sent_id evs3 = []"
    by (auto split: if_splits)
  from e4 obtain evs4 where t4: "trace s' = trace s3 @ evs4"
    and r4: "remote_updates to_receiver_pkts_sent_id evs4 = []"
    by blast
  have tr: "trace s' = trace s @ (evs1 @ evs2 @ evs3 @ evs4)"
    using t1 t2 t3 t4 by simp
  have d1: "d1 = sender_can_send deps cfg busy ch s" using e1 by simp
  have c: "c = stream_regs s ?cid" using e1 e2 c1 ids by auto
  have g2: "stream_regs s2 = (if c > 0 then (stream_regs s)(?cid := 0) else stream_regs s)"
    using e1 e2 c1 ids by auto
  have g3: "stream_regs s' = (if a > 0 then (stream_regs s2)(?aid := 0) else stream_regs s2)"
    using e3 e4 c2 ids by auto
  have o: "wrptr (outbound_to_receiver_channel_pointers s') =
      wrptr (outbound_to_receiver_channel_pointers s) + (if d1 then 1 else 0)"
    using e1 e2 e3 e4 by (simp split: if_splits)
  have cp: "OutboundReceiverChannelPointers.completion_ptr (outbound_to_receiver_channel_pointers s') =
       (if c > 0
        then OutboundReceiverChannelPointers.completion_ptr (outbound_to_receiver_channel_pointers s) +
               word_of_int c
        else OutboundReceiverChannelPointers.completion_ptr (outbound_to_receiver_channel_pointers s))"
    using sender_send_phase_frame [OF p1, of ch] e2 e3 e4 by simp
  have g0: "stream_regs s' to_sender_0_pkts_completed_id =
       (if ?cid = to_sender_0_pkts_completed_id \<and> c > 0 then 0
        else stream_regs s to_sender_0_pkts_completed_id)"
    using g2 g3 aid by auto
  have g1: "stream_regs s' to_sender_1_pkts_completed_id =
       (if ?cid = to_sender_1_pkts_completed_id \<and> c > 0 then 0
        else stream_regs s to_sender_1_pkts_completed_id)"
    using g2 g3 aid by auto
  show ?thesis
    apply (rule exI [of _ "evs1 @ evs2 @ evs3 @ evs4"], rule exI [of _ ?cid])
    using cid tr r1 r2 r3 r4 o cp g0 g1 unfolding d1 c by simp
qed

lemma uint_succ: "(x::32 word) \<noteq> - 1 \<Longrightarrow> uint (x + 1) = uint x + 1"
  by (metis inc_less_eq_self_iff_eq linorder_linear uint_plus_simple_iff unsigned_1)

lemma uint_add_int:
  assumes "0 < c" and "uint (p::32 word) + c \<le> uint (q::32 word)"
  shows "uint (p + word_of_int c) = uint p + c"
proof -
  have "p + word_of_int c = word_of_int (uint p + c)" by simp
  then have "uint (p + word_of_int c) = take_bit 32 (uint p + c)"
    by (simp only: uint_word_of_int_eq) simp
  moreover have "0 \<le> uint p + c" using assms(1) by simp
  moreover have "uint p + c < 2 ^ 32"
    using assms(2) unsigned_less [of q, where 'a = int] by simp
  ultimately show ?thesis by (simp add: take_bit_int_eq_self)
qed

lemma link_sender_step_invariant:
  assumes "link_sender_step deps cfg busy ch L = Inr L'"
    and "link_invariant L"
    and "wrptr (outbound_to_receiver_channel_pointers (sending L)) \<noteq> - 1"
  shows "link_invariant L'"
proof -
  from assms(1) obtain did A' where
    r: "run_sender_channel_step deps cfg busy ch (sending L) = Inr (did, A')"
    and L': "L' = L\<lparr>sending := A',
                 receiving := foldl apply_external (receiving L)
                   (link_delivery (drop (length (trace (sending L))) (trace A')))\<rparr>"
    by (auto simp: link_sender_step_def split: sum.splits)
  from sender_step_detail [OF r] obtain evs cid where
    cid: "cid = to_sender_0_pkts_completed_id \<or> cid = to_sender_1_pkts_completed_id"
    and tr: "trace A' = trace (sending L) @ evs"
    and ru: "remote_updates to_receiver_pkts_sent_id evs =
       (if sender_can_send deps cfg busy ch (sending L) then [1] else [])"
    and w: "wrptr (outbound_to_receiver_channel_pointers A') =
       wrptr (outbound_to_receiver_channel_pointers (sending L)) +
         (if sender_can_send deps cfg busy ch (sending L) then 1 else 0)"
    and cp: "OutboundReceiverChannelPointers.completion_ptr (outbound_to_receiver_channel_pointers A') =
       (if stream_regs (sending L) cid > 0
        then OutboundReceiverChannelPointers.completion_ptr
               (outbound_to_receiver_channel_pointers (sending L)) +
               word_of_int (stream_regs (sending L) cid)
        else OutboundReceiverChannelPointers.completion_ptr
               (outbound_to_receiver_channel_pointers (sending L)))"
    and g0: "stream_regs A' to_sender_0_pkts_completed_id =
       (if cid = to_sender_0_pkts_completed_id \<and> stream_regs (sending L) cid > 0 then 0
        else stream_regs (sending L) to_sender_0_pkts_completed_id)"
    and g1: "stream_regs A' to_sender_1_pkts_completed_id =
       (if cid = to_sender_1_pkts_completed_id \<and> stream_regs (sending L) cid > 0 then 0
        else stream_regs (sending L) to_sender_1_pkts_completed_id)"
    by blast
  have ne: "to_sender_0_pkts_completed_id \<noteq> to_sender_1_pkts_completed_id"
    by (simp add: to_sender_0_pkts_completed_id_def to_sender_1_pkts_completed_id_def)
  note d = delivery_effect [of "receiving L" evs to_receiver_pkts_sent_id]
  have B: "receiving L' = foldl apply_external (receiving L) (link_delivery evs)"
    "sending L' = A'"
    using L' tr by simp_all
  from assms(2) have inv:
    "uint (OutboundReceiverChannelPointers.completion_ptr
              (outbound_to_receiver_channel_pointers (sending L))) +
        stream_regs (sending L) to_sender_0_pkts_completed_id +
        stream_regs (sending L) to_sender_1_pkts_completed_id =
        uint (completion_ptr (receiver_channel_pointers (receiving L)))"
    "0 \<le> stream_regs (sending L) to_sender_0_pkts_completed_id"
    "0 \<le> stream_regs (sending L) to_sender_1_pkts_completed_id"
    "uint (ack_ptr (receiver_channel_pointers (receiving L))) +
        stream_regs (receiving L) to_receiver_pkts_sent_id =
        uint (wrptr (outbound_to_receiver_channel_pointers (sending L)))"
    "0 \<le> stream_regs (receiving L) to_receiver_pkts_sent_id"
    "receiver_ordered (receiver_channel_pointers (receiving L))"
    by (simp_all add: link_invariant_def link_credits_def)
  let ?p = "OutboundReceiverChannelPointers.completion_ptr
              (outbound_to_receiver_channel_pointers (sending L))"
  let ?c = "stream_regs (sending L) cid"
  have up: "?c > 0 \<Longrightarrow> uint (?p + word_of_int ?c) = uint ?p + ?c"
    using cid inv(1,2,3)
    by (intro uint_add_int [where q = "completion_ptr (receiver_channel_pointers (receiving L))"]) auto
  have 1: "uint (OutboundReceiverChannelPointers.completion_ptr (outbound_to_receiver_channel_pointers A')) +
        stream_regs A' to_sender_0_pkts_completed_id +
        stream_regs A' to_sender_1_pkts_completed_id =
        uint (completion_ptr (receiver_channel_pointers (receiving L)))"
    using cid cp g0 g1 inv(1) up ne by (auto split: if_splits)
  have 2: "0 \<le> stream_regs A' to_sender_0_pkts_completed_id"
    "0 \<le> stream_regs A' to_sender_1_pkts_completed_id"
    using g0 g1 inv(2,3) by (auto split: if_splits)
  have 3: "uint (ack_ptr (receiver_channel_pointers (receiving L))) +
        stream_regs (receiving L') to_receiver_pkts_sent_id =
        uint (wrptr (outbound_to_receiver_channel_pointers A'))"
    using B d ru w inv(4) assms(3) by (simp add: uint_succ split: if_splits)
  have 4: "0 \<le> stream_regs (receiving L') to_receiver_pkts_sent_id"
    using B d ru inv(5) by (simp split: if_splits)
  have 5: "receiver_channel_pointers (receiving L') = receiver_channel_pointers (receiving L)"
    using B d by simp
  show ?thesis
    using 1 2 3 4 5 inv(6) B(2) by (simp add: link_invariant_def link_credits_def)
qed

lemma link_receiver_step_invariant:
  assumes "link_receiver_step deps cfg hw L = Inr L'"
    and "link_invariant L"
  shows "link_invariant L'"
proof -
  from assms(1) obtain B' where
    r: "run_receiver_channel_step deps cfg hw (receiving L) = Inr B'"
    and L': "L' = L\<lparr>receiving := B',
                 sending := foldl apply_external (sending L)
                   (link_delivery (drop (length (trace (receiving L))) (trace B')))\<rparr>"
    by (auto simp: link_receiver_step_def split: sum.splits)
  from assms(2) have inv:
    "uint (OutboundReceiverChannelPointers.completion_ptr
              (outbound_to_receiver_channel_pointers (sending L))) +
        stream_regs (sending L) to_sender_0_pkts_completed_id +
        stream_regs (sending L) to_sender_1_pkts_completed_id =
        uint (completion_ptr (receiver_channel_pointers (receiving L)))"
    "0 \<le> stream_regs (sending L) to_sender_0_pkts_completed_id"
    "0 \<le> stream_regs (sending L) to_sender_1_pkts_completed_id"
    "uint (ack_ptr (receiver_channel_pointers (receiving L))) +
        stream_regs (receiving L) to_receiver_pkts_sent_id =
        uint (wrptr (outbound_to_receiver_channel_pointers (sending L)))"
    "0 \<le> stream_regs (receiving L) to_receiver_pkts_sent_id"
    "receiver_ordered (receiver_channel_pointers (receiving L))"
    by (simp_all add: link_invariant_def link_credits_def)
  have nw: "0 < stream_regs (receiving L) to_receiver_pkts_sent_id \<and>
      \<not> receiver_ack_eth_txq_is_busy hw \<longrightarrow>
      ack_ptr (receiver_channel_pointers (receiving L)) \<noteq> - 1"
  proof
    assume "0 < stream_regs (receiving L) to_receiver_pkts_sent_id \<and>
      \<not> receiver_ack_eth_txq_is_busy hw"
    with inv(4) have "uint (ack_ptr (receiver_channel_pointers (receiving L))) <
        uint (wrptr (outbound_to_receiver_channel_pointers (sending L)))" by simp
    then have "ack_ptr (receiver_channel_pointers (receiving L)) <
        wrptr (outbound_to_receiver_channel_pointers (sending L))"
      by (simp add: word_less_def)
    then show "ack_ptr (receiver_channel_pointers (receiving L)) \<noteq> - 1"
      by (metis word_order.extremum_strict)
  qed
  from receiver_step_detail [OF r inv(6) nw] obtain a c evs where
    ord: "receiver_ordered (receiver_channel_pointers B')"
    and a: "a = (0 < stream_regs (receiving L) to_receiver_pkts_sent_id \<and>
                 \<not> receiver_ack_eth_txq_is_busy hw)"
    and A: "ack_ptr (receiver_channel_pointers B') =
          ack_ptr (receiver_channel_pointers (receiving L)) + (if a then 1 else 0)"
    and G: "stream_regs B' to_receiver_pkts_sent_id =
          stream_regs (receiving L) to_receiver_pkts_sent_id - (if a then 1 else 0)"
    and C: "completion_ptr (receiver_channel_pointers B') =
          completion_ptr (receiver_channel_pointers (receiving L)) + (if c then 1 else 0)"
    and cn: "c \<longrightarrow> completion_ptr (receiver_channel_pointers (receiving L)) \<noteq> - 1"
    and tr: "trace B' = trace (receiving L) @ evs"
    and su: "sum_list (remote_updates to_sender_0_pkts_completed_id evs) +
          sum_list (remote_updates to_sender_1_pkts_completed_id evs) = (if c then 1 else 0)"
      "0 \<le> sum_list (remote_updates to_sender_0_pkts_completed_id evs)"
      "0 \<le> sum_list (remote_updates to_sender_1_pkts_completed_id evs)"
    by blast
  have S: "sending L' = foldl apply_external (sending L) (link_delivery evs)"
    "receiving L' = B'"
    using L' tr by simp_all
  note d0 = delivery_effect [of "sending L" evs to_sender_0_pkts_completed_id]
  note d1 = delivery_effect [of "sending L" evs to_sender_1_pkts_completed_id]
  have 1: "uint (OutboundReceiverChannelPointers.completion_ptr
              (outbound_to_receiver_channel_pointers (sending L'))) +
        stream_regs (sending L') to_sender_0_pkts_completed_id +
        stream_regs (sending L') to_sender_1_pkts_completed_id =
        uint (completion_ptr (receiver_channel_pointers B'))"
    using S d0 d1 su(1) C cn inv(1) by (auto simp: uint_succ split: if_splits)
  have 2: "0 \<le> stream_regs (sending L') to_sender_0_pkts_completed_id"
    "0 \<le> stream_regs (sending L') to_sender_1_pkts_completed_id"
    using S d0 d1 su(2,3) inv(2,3) by simp_all
  have 3: "uint (ack_ptr (receiver_channel_pointers B')) +
        stream_regs B' to_receiver_pkts_sent_id =
        uint (wrptr (outbound_to_receiver_channel_pointers (sending L')))"
    using S d0 A G a nw inv(4) by (auto simp: uint_succ split: if_splits)
  have 4: "0 \<le> stream_regs B' to_receiver_pkts_sent_id"
    using G a inv(5) by (auto split: if_splits)
  show ?thesis
    using 1 2 3 4 ord S(2) by (simp add: link_invariant_def link_credits_def)
qed

lemma link_invariant_at_entry:
  assumes "stream_regs A to_sender_0_pkts_completed_id = 0"
    and "stream_regs A to_sender_1_pkts_completed_id = 0"
    and "stream_regs B to_receiver_pkts_sent_id = 0"
  shows "link_invariant \<lparr>sending = main_loop_entry A, receiving = main_loop_entry B\<rparr>"
  using assms
  by (simp add: link_invariant_def link_credits_def receiver_ordered_def main_loop_entry_def)

lemma example_link_steps:
  "\<exists>L1 L2. link_sender_step example_deps example_cfg False 0 example_link = Inr L1 \<and>
     link_receiver_step example_deps example_cfg idle_hw L1 = Inr L2 \<and>
     wrptr (outbound_to_receiver_channel_pointers (sending L2)) = 1 \<and>
     ack_ptr (receiver_channel_pointers (receiving L2)) = 1 \<and>
     completion_ptr (receiver_channel_pointers (receiving L2)) = 1 \<and>
     stream_regs (sending L2) to_sender_0_pkts_completed_id = 1"
  by (simp add: example_link_def link_sender_step_def link_receiver_step_def
      example_defs model_defs receiver_defs Let_def)

section \<open>The claims\<close>

text \<open>
  C2, as the code has it.  A sender channel step sends if and only if the four conditions
  of \<open>sender_can_send\<close> hold (the remote receiver has a free slot: the outbound completion
  pointer is fewer than \<^verbatim>\<open>RECEIVER_NUM_BUFFERS\<close> behind the outbound write pointer; the
  transmit queue is idle; the channel has an unsent payload; the local read pointer is
  fewer than \<^verbatim>\<open>SENDER_NUM_BUFFERS\<close> behind the channel's own local write pointer, the one
  the send advances, not the producer's write pointer).  When they hold, the
  step performs exactly one Ethernet send, advances the local write pointer and the
  outbound write pointer by one and adds exactly one to the remote packets-sent register;
  when one of them fails, none of these changes, and no later part of the step changes
  them either.
\<close>

theorem sender_step_sends_exactly_one_packet_iff:
  assumes "run_sender_channel_step deps cfg eth_txq_is_busy ch s = Inr (did, s')"
  shows "\<exists>evs. trace s' = trace s @ evs \<and>
     (if sender_can_send deps cfg eth_txq_is_busy ch s
      then local_wrptr (local_sender_channel_worker_interfaces s' ch) =
             local_wrptr (local_sender_channel_worker_interfaces s ch) + 1 \<and>
           wrptr (outbound_to_receiver_channel_pointers s') =
             wrptr (outbound_to_receiver_channel_pointers s) + 1 \<and>
           remote_updates to_receiver_pkts_sent_id evs = [1] \<and>
           length (eth_sends evs) = 1
      else local_wrptr (local_sender_channel_worker_interfaces s' ch) =
             local_wrptr (local_sender_channel_worker_interfaces s ch) \<and>
           wrptr (outbound_to_receiver_channel_pointers s') =
             wrptr (outbound_to_receiver_channel_pointers s) \<and>
           remote_updates to_receiver_pkts_sent_id evs = [] \<and>
           eth_sends evs = [])"
proof -
  obtain d1 s1 where p1: "sender_send_phase deps cfg eth_txq_is_busy ch s = (d1, s1)"
    by (cases "sender_send_phase deps cfg eth_txq_is_busy ch s")
  from assms p1 obtain c s2 where p2: "sender_process_completions ch s1 = Inr (c, s2)"
    by (auto simp: run_sender_channel_step_def split: sum.splits)
  from assms p1 p2 obtain a s3 where p3: "sender_process_acks ch s2 = Inr (a, s3)"
    by (auto simp: run_sender_channel_step_def split: sum.splits)
  from assms p1 p2 p3 have p4:
    "sender_connection_phase deps cfg ch (d1 \<or> c + a > 0) s3 = (did, s')"
    by (simp add: run_sender_channel_step_def)
  note e1 = sender_send_phase_effect [OF p1]
  note e2 = sender_process_completions_effect [OF p2]
  note e3 = sender_process_acks_effect [OF p3]
  note e4 = sender_connection_phase_effect [OF p4, of to_receiver_pkts_sent_id]
  from e1 obtain evs1 where t1: "trace s1 = trace s @ evs1"
    and r1: "remote_updates to_receiver_pkts_sent_id evs1 = (if d1 then [1] else [])"
    and n1: "length (eth_sends evs1) = (if d1 then 1 else 0)" by blast
  from e2 obtain evs2 where t2: "trace s2 = trace s1 @ evs2"
    and r2: "remote_updates to_receiver_pkts_sent_id evs2 = []" "eth_sends evs2 = []"
    by (auto split: if_splits)
  from e3 obtain evs3 where t3: "trace s3 = trace s2 @ evs3"
    and r3: "remote_updates to_receiver_pkts_sent_id evs3 = []" "eth_sends evs3 = []"
    by (auto split: if_splits)
  from e4 obtain evs4 where t4: "trace s' = trace s3 @ evs4"
    and r4: "remote_updates to_receiver_pkts_sent_id evs4 = []" "eth_sends evs4 = []"
    by blast
  have tr: "trace s' = trace s @ (evs1 @ evs2 @ evs3 @ evs4)"
    using t1 t2 t3 t4 by simp
  have d1: "d1 = sender_can_send deps cfg eth_txq_is_busy ch s" using e1 by simp
  have w: "local_wrptr (local_sender_channel_worker_interfaces s' ch) =
      local_wrptr (local_sender_channel_worker_interfaces s ch) + (if d1 then 1 else 0)"
    using e1 e2 e3 e4 by (simp split: if_splits)
  have o: "wrptr (outbound_to_receiver_channel_pointers s') =
      wrptr (outbound_to_receiver_channel_pointers s) + (if d1 then 1 else 0)"
    using e1 e2 e3 e4 by (simp split: if_splits)
  show ?thesis
    apply (rule exI [of _ "evs1 @ evs2 @ evs3 @ evs4"])
    using tr d1 w o r1 n1 r2 r3 r4 by (simp split: if_splits)
qed

theorem sender_step_sends_exactly_one_packet_iff_witness:
  "sender_can_send example_deps example_cfg False 0 pushed_state \<and>
   (\<exists>did s'. run_sender_channel_step example_deps example_cfg False 0 pushed_state = Inr (did, s') \<and>
      local_wrptr (local_sender_channel_worker_interfaces s' 0) = 1 \<and>
      wrptr (outbound_to_receiver_channel_pointers s') = 1 \<and>
      remote_updates to_receiver_pkts_sent_id (trace s') = [1] \<and>
      length (eth_sends (trace s')) = 1)"
proof -
  have can: "sender_can_send example_deps example_cfg False 0 pushed_state"
    by (simp add: example_defs sender_can_send_def distance_behind_def)
  obtain did s' where
    r: "run_sender_channel_step example_deps example_cfg False 0 pushed_state = Inr (did, s')"
    using pushed_state_step_returns by fastforce
  have z: "trace pushed_state = []"
    "local_wrptr (local_sender_channel_worker_interfaces pushed_state 0) = 0"
    "wrptr (outbound_to_receiver_channel_pointers pushed_state) = 0"
    by (simp_all add: example_defs)
  from sender_step_sends_exactly_one_packet_iff [OF r] can z r show ?thesis by auto
qed

text \<open>
  C2 as stated fails in its fourth condition, "the producer write-pointer is ahead of the
  local read-pointer by less than \<^verbatim>\<open>SENDER_NUM_BUFFERS\<close>".  In \<open>filled_state\<close> the worker has
  filled all four slots of channel 0: the producer's write pointer is 4 ahead of the local
  read pointer, which is not less than \<^verbatim>\<open>SENDER_NUM_BUFFERS\<close> = 4, and the step sends the
  first packet all the same (the local write pointer is 0 ahead of the local read pointer).
\<close>

theorem sender_step_sends_with_producer_a_full_ring_ahead:
  "\<not> sender_can_send_by_producer_pointer example_deps example_cfg False 0 filled_state \<and>
   map_sum id (eth_sends \<circ> trace \<circ> snd)
     (run_sender_channel_step example_deps example_cfg False 0 filled_state) =
     Inr [example_header\<lparr>src_ch_id := 0\<rparr>] \<and>
   map_sum id (remote_updates to_receiver_pkts_sent_id \<circ> trace \<circ> snd)
     (run_sender_channel_step example_deps example_cfg False 0 filled_state) = Inr [1] \<and>
   map_sum id (wrptr \<circ> outbound_to_receiver_channel_pointers \<circ> snd)
     (run_sender_channel_step example_deps example_cfg False 0 filled_state) = Inr 1"
  by (simp add: sender_can_send_by_producer_pointer_def filled_state_def example_defs model_defs
      distance_behind_def Let_def)

text \<open>
  C4.  \<^verbatim>\<open>can_forward_packet_completely\<close> is true for a \<^verbatim>\<open>LOCAL_ONLY\<close> packet, equals
  \<^verbatim>\<open>edm_has_space_for_packet\<close> of the downstream interface for a \<^verbatim>\<open>REMOTE_ONLY\<close> or
  \<^verbatim>\<open>LOCAL_AND_REMOTE\<close> packet and is false for an \<^verbatim>\<open>INVALID\<close> one.  In a receiver step the
  write-sent pointer advances (by one) only when the check is true for the packet in its
  slot, and the local writes and downstream hand-overs of the step are then exactly the
  complete forward of that packet, and none at all when the pointer stays: a packet is
  never partially forwarded.
\<close>

theorem can_forward_packet_completely_gates_forwarding:
  "(get_packet_local_forward_type deps h = PACKET_FORWARD_LOCAL_ONLY \<longrightarrow>
      can_forward_packet_completely deps h d) \<and>
   (get_packet_local_forward_type deps h = PACKET_FORWARD_REMOTE_ONLY \<or>
    get_packet_local_forward_type deps h = PACKET_FORWARD_LOCAL_AND_REMOTE \<longrightarrow>
      can_forward_packet_completely deps h d = edm_has_space_for_packet deps d) \<and>
   (get_packet_local_forward_type deps h = PACKET_FORWARD_INVALID \<longrightarrow>
      \<not> can_forward_packet_completely deps h d) \<and>
   (run_receiver_channel_step deps cfg hw s = Inr s' \<longrightarrow>
      (\<exists>evs. trace s' = trace s @ evs \<and>
         (let slot_header = local_receiver_channel s
                (get_buffer_index (RECEIVER_NUM_BUFFERS cfg)
                   (wr_sent_ptr (receiver_channel_pointers s)))
          in if wr_sent_ptr (receiver_channel_pointers s') = wr_sent_ptr (receiver_channel_pointers s)
             then forward_events evs = []
             else wr_sent_ptr (receiver_channel_pointers s') =
                    wr_sent_ptr (receiver_channel_pointers s) + 1 \<and>
                  can_forward_packet_completely deps slot_header (downstream_edm_interface s) \<and>
                  forward_events evs = complete_forward deps slot_header)))"
proof (intro conjI impI)
  assume "get_packet_local_forward_type deps h = PACKET_FORWARD_LOCAL_ONLY"
  then show "can_forward_packet_completely deps h d"
    by (simp add: can_forward_packet_completely_def)
next
  assume "get_packet_local_forward_type deps h = PACKET_FORWARD_REMOTE_ONLY \<or>
    get_packet_local_forward_type deps h = PACKET_FORWARD_LOCAL_AND_REMOTE"
  then show "can_forward_packet_completely deps h d = edm_has_space_for_packet deps d"
    by (auto simp add: can_forward_packet_completely_def)
next
  assume "get_packet_local_forward_type deps h = PACKET_FORWARD_INVALID"
  then show "\<not> can_forward_packet_completely deps h d"
    by (simp add: can_forward_packet_completely_def)
next
  assume "run_receiver_channel_step deps cfg hw s = Inr s'"
  then show "\<exists>evs. trace s' = trace s @ evs \<and>
         (let slot_header = local_receiver_channel s
                (get_buffer_index (RECEIVER_NUM_BUFFERS cfg)
                   (wr_sent_ptr (receiver_channel_pointers s)))
          in if wr_sent_ptr (receiver_channel_pointers s') = wr_sent_ptr (receiver_channel_pointers s)
             then forward_events evs = []
             else wr_sent_ptr (receiver_channel_pointers s') =
                    wr_sent_ptr (receiver_channel_pointers s) + 1 \<and>
                  can_forward_packet_completely deps slot_header (downstream_edm_interface s) \<and>
                  forward_events evs = complete_forward deps slot_header)"
    by (rule run_receiver_channel_step_forwarding)
qed

theorem can_forward_packet_completely_gates_forwarding_witness:
  "get_packet_local_forward_type example_deps example_header = PACKET_FORWARD_LOCAL_ONLY \<and>
   can_forward_packet_completely example_deps example_header False \<and>
   get_packet_local_forward_type example_deps (example_header\<lparr>routing_fields := 2\<rparr>)
     = PACKET_FORWARD_REMOTE_ONLY \<and>
   \<not> can_forward_packet_completely example_deps (example_header\<lparr>routing_fields := 2\<rparr>) False \<and>
   get_packet_local_forward_type example_deps (example_header\<lparr>routing_fields := 3\<rparr>)
     = PACKET_FORWARD_LOCAL_AND_REMOTE \<and>
   can_forward_packet_completely example_deps (example_header\<lparr>routing_fields := 3\<rparr>) True \<and>
   get_packet_local_forward_type example_deps (example_header\<lparr>routing_fields := 0\<rparr>)
     = PACKET_FORWARD_INVALID \<and>
   \<not> can_forward_packet_completely example_deps (example_header\<lparr>routing_fields := 0\<rparr>) True \<and>
   (\<exists>s'. run_receiver_channel_step example_deps example_cfg idle_hw
            (arrived_state (example_header\<lparr>src_ch_id := 1\<rparr>)) = Inr s' \<and>
         wr_sent_ptr (receiver_channel_pointers s') = 1 \<and>
         forward_events (trace s')
           = [ExecuteChipUnicastToLocalChip (example_header\<lparr>src_ch_id := 1\<rparr>)])"
proof -
  have t1: "get_packet_local_forward_type example_deps example_header = PACKET_FORWARD_LOCAL_ONLY"
    and t2: "get_packet_local_forward_type example_deps (example_header\<lparr>routing_fields := 2\<rparr>)
      = PACKET_FORWARD_REMOTE_ONLY"
    and t3: "get_packet_local_forward_type example_deps (example_header\<lparr>routing_fields := 3\<rparr>)
      = PACKET_FORWARD_LOCAL_AND_REMOTE"
    and t0: "get_packet_local_forward_type example_deps (example_header\<lparr>routing_fields := 0\<rparr>)
      = PACKET_FORWARD_INVALID"
    by (simp_all add: get_packet_local_forward_type_cases example_deps_def example_header_def)
  obtain s' where r: "run_receiver_channel_step example_deps example_cfg idle_hw
            (arrived_state (example_header\<lparr>src_ch_id := 1\<rparr>)) = Inr s'"
    and w: "wr_sent_ptr (receiver_channel_pointers s') = 1"
    using arrived_local_only_step by blast
  note c1 = can_forward_packet_completely_gates_forwarding
    [of example_deps example_header False example_cfg idle_hw
        "arrived_state (example_header\<lparr>src_ch_id := 1\<rparr>)" s']
  note c2 = can_forward_packet_completely_gates_forwarding
    [of example_deps "example_header\<lparr>routing_fields := 2\<rparr>" False example_cfg idle_hw
        "arrived_state (example_header\<lparr>src_ch_id := 1\<rparr>)" s']
  note c3 = can_forward_packet_completely_gates_forwarding
    [of example_deps "example_header\<lparr>routing_fields := 3\<rparr>" True example_cfg idle_hw
        "arrived_state (example_header\<lparr>src_ch_id := 1\<rparr>)" s']
  note c0 = can_forward_packet_completely_gates_forwarding
    [of example_deps "example_header\<lparr>routing_fields := 0\<rparr>" True example_cfg idle_hw
        "arrived_state (example_header\<lparr>src_ch_id := 1\<rparr>)" s']
  have a1: "can_forward_packet_completely example_deps example_header False"
    using c1 t1 by blast
  have a2: "\<not> can_forward_packet_completely example_deps (example_header\<lparr>routing_fields := 2\<rparr>) False"
    using c2 t2 by (simp add: example_deps_def)
  have a3: "can_forward_packet_completely example_deps (example_header\<lparr>routing_fields := 3\<rparr>) True"
    using c3 t3 by (simp add: example_deps_def)
  have a0: "\<not> can_forward_packet_completely example_deps (example_header\<lparr>routing_fields := 0\<rparr>) True"
    using c0 t0 by blast
  from c1 [THEN conjunct2, THEN conjunct2, THEN conjunct2, rule_format, OF r] w
  obtain evs where
    t: "trace s' = trace (arrived_state (example_header\<lparr>src_ch_id := 1\<rparr>)) @ evs" and
    f: "forward_events evs = complete_forward example_deps (example_header\<lparr>src_ch_id := 1\<rparr>)"
    by (auto simp: arrived_state_simps Let_def get_buffer_index_def)
  have "forward_events (trace s')
           = [ExecuteChipUnicastToLocalChip (example_header\<lparr>src_ch_id := 1\<rparr>)]"
    using t f by (simp add: arrived_state_simps complete_forward_def example_deps_def example_header_def)
  with t1 t2 t3 t0 a1 a2 a3 a0 r w show ?thesis by blast
qed

text \<open>
  C5.  When the packet in the slot of the write-sent pointer classifies as
  \<^verbatim>\<open>PACKET_FORWARD_INVALID\<close>, the receiver step performs no local write and no downstream
  hand-over, and the write-sent pointer stays on that slot.
\<close>

theorem invalid_packet_is_neither_executed_nor_forwarded:
  assumes "run_receiver_channel_step deps cfg hw s = Inr s'"
    and "get_packet_local_forward_type deps
           (local_receiver_channel s
              (get_buffer_index (RECEIVER_NUM_BUFFERS cfg)
                 (wr_sent_ptr (receiver_channel_pointers s)))) = PACKET_FORWARD_INVALID"
  shows "wr_sent_ptr (receiver_channel_pointers s') = wr_sent_ptr (receiver_channel_pointers s) \<and>
     (\<exists>evs. trace s' = trace s @ evs \<and> forward_events evs = [])"
proof -
  from run_receiver_channel_step_forwarding [OF assms(1)] obtain evs where
    t: "trace s' = trace s @ evs" and
    f: "if wr_sent_ptr (receiver_channel_pointers s') = wr_sent_ptr (receiver_channel_pointers s)
         then forward_events evs = []
         else wr_sent_ptr (receiver_channel_pointers s') =
                wr_sent_ptr (receiver_channel_pointers s) + 1 \<and>
              can_forward_packet_completely deps (local_receiver_channel s
              (get_buffer_index (RECEIVER_NUM_BUFFERS cfg)
                 (wr_sent_ptr (receiver_channel_pointers s)))) (downstream_edm_interface s) \<and>
              forward_events evs = complete_forward deps (local_receiver_channel s
              (get_buffer_index (RECEIVER_NUM_BUFFERS cfg)
                 (wr_sent_ptr (receiver_channel_pointers s))))"
    by (auto simp: Let_def)
  have n: "\<not> can_forward_packet_completely deps (local_receiver_channel s
              (get_buffer_index (RECEIVER_NUM_BUFFERS cfg)
                 (wr_sent_ptr (receiver_channel_pointers s)))) (downstream_edm_interface s)"
    using assms(2) by (simp add: can_forward_packet_completely_def)
  from f n have "wr_sent_ptr (receiver_channel_pointers s') = wr_sent_ptr (receiver_channel_pointers s)"
    "forward_events evs = []"
    by (auto split: if_splits)
  with t show ?thesis by blast
qed

theorem invalid_packet_is_neither_executed_nor_forwarded_witness:
  "get_packet_local_forward_type example_deps
     (local_receiver_channel (arrived_state (example_header\<lparr>routing_fields := 0, src_ch_id := 0\<rparr>))
        (get_buffer_index (RECEIVER_NUM_BUFFERS example_cfg)
           (wr_sent_ptr (receiver_channel_pointers
              (arrived_state (example_header\<lparr>routing_fields := 0, src_ch_id := 0\<rparr>))))))
     = PACKET_FORWARD_INVALID \<and>
   (\<exists>s'. run_receiver_channel_step example_deps example_cfg idle_hw
            (arrived_state (example_header\<lparr>routing_fields := 0, src_ch_id := 0\<rparr>)) = Inr s' \<and>
         wr_sent_ptr (receiver_channel_pointers s') = 0 \<and>
         ack_ptr (receiver_channel_pointers s') = 1 \<and>
         forward_events (trace s') = [])"
proof -
  let ?s = "arrived_state (example_header\<lparr>routing_fields := 0, src_ch_id := 0\<rparr>)"
  have c: "get_packet_local_forward_type example_deps
     (local_receiver_channel ?s
        (get_buffer_index (RECEIVER_NUM_BUFFERS example_cfg)
           (wr_sent_ptr (receiver_channel_pointers ?s)))) = PACKET_FORWARD_INVALID"
    by (simp add: arrived_state_simps get_buffer_index_def get_packet_local_forward_type_cases
        example_deps_def example_header_def)
  obtain s' where r: "run_receiver_channel_step example_deps example_cfg idle_hw ?s = Inr s'"
    and a: "ack_ptr (receiver_channel_pointers s') = 1"
    using arrived_invalid_step by blast
  from invalid_packet_is_neither_executed_nor_forwarded [OF r c]
  have "wr_sent_ptr (receiver_channel_pointers s') = 0" "forward_events (trace s') = []"
    by (auto simp: arrived_state_simps)
  with c r a show ?thesis by blast
qed

text \<open>
  C6.  In an iteration that polls \<^verbatim>\<open>GRACEFULLY_TERMINATE\<close>, the main loop returns if and
  only if \<^verbatim>\<open>all_channels_drained\<close> holds, and otherwise goes on to service the channels
  (one sender step, one receiver step).  Whenever the loop returns with the signal at
  \<^verbatim>\<open>GRACEFULLY_TERMINATE\<close>, all channels are drained.  Drained means: both sender channel
  worker interfaces have all Ethernet packets completed and no unsent payload, the
  receiver's completion pointer is caught up to its ack pointer, and the five stream
  registers read zero.
\<close>

theorem graceful_termination_returns_only_when_drained:
  "(termination_signal (foldl apply_external s (externals inp)) = GRACEFULLY_TERMINATE \<longrightarrow>
      (let s1 = foldl apply_external s (externals inp)
       in ((\<exists>s'. main_loop_iteration deps cfg inp s = Inr (Returned s')) =
             all_channels_drained deps s1) \<and>
          (\<not> all_channels_drained deps s1 \<longrightarrow>
             main_loop_iteration deps cfg inp s =
               (case service_channels deps cfg (hw_status inp) s1 of
                  Inl e \<Rightarrow> Inl e | Inr s' \<Rightarrow> Inr (Polling s'))))) \<and>
   (main_loop deps cfg inps s = Inr (Returned s') \<and>
    termination_signal s' = GRACEFULLY_TERMINATE \<longrightarrow> all_channels_drained deps s') \<and>
   (all_channels_drained deps s \<longleftrightarrow>
      all_eth_packets_completed deps (local_sender_channel_worker_interfaces s 0) \<and>
      all_eth_packets_completed deps (local_sender_channel_worker_interfaces s 1) \<and>
      \<not> has_unsent_payload deps (local_sender_channel_worker_interfaces s 0) \<and>
      \<not> has_unsent_payload deps (local_sender_channel_worker_interfaces s 1) \<and>
      completion_ptr (receiver_channel_pointers s) = ack_ptr (receiver_channel_pointers s) \<and>
      stream_regs s to_receiver_pkts_sent_id = 0 \<and>
      stream_regs s to_sender_0_pkts_acked_id = 0 \<and>
      stream_regs s to_sender_1_pkts_acked_id = 0 \<and>
      stream_regs s to_sender_0_pkts_completed_id = 0 \<and>
      stream_regs s to_sender_1_pkts_completed_id = 0)"
proof (intro conjI impI)
  assume g: "termination_signal (foldl apply_external s (externals inp)) = GRACEFULLY_TERMINATE"
  show "let s1 = foldl apply_external s (externals inp)
       in ((\<exists>s'. main_loop_iteration deps cfg inp s = Inr (Returned s')) =
             all_channels_drained deps s1) \<and>
          (\<not> all_channels_drained deps s1 \<longrightarrow>
             main_loop_iteration deps cfg inp s =
               (case service_channels deps cfg (hw_status inp) s1 of
                  Inl e \<Rightarrow> Inl e | Inr s' \<Rightarrow> Inr (Polling s')))"
    using g
    by (auto simp: main_loop_iteration_def Let_def got_immediate_termination_signal_def
        got_graceful_termination_signal_def split: sum.splits)
next
  assume "main_loop deps cfg inps s = Inr (Returned s') \<and>
    termination_signal s' = GRACEFULLY_TERMINATE"
  with main_loop_Returned [of deps cfg inps s s'] show "all_channels_drained deps s'"
    by (auto simp: got_immediate_termination_signal_def)
next
  show "all_channels_drained deps s \<longleftrightarrow>
      all_eth_packets_completed deps (local_sender_channel_worker_interfaces s 0) \<and>
      all_eth_packets_completed deps (local_sender_channel_worker_interfaces s 1) \<and>
      \<not> has_unsent_payload deps (local_sender_channel_worker_interfaces s 0) \<and>
      \<not> has_unsent_payload deps (local_sender_channel_worker_interfaces s 1) \<and>
      completion_ptr (receiver_channel_pointers s) = ack_ptr (receiver_channel_pointers s) \<and>
      stream_regs s to_receiver_pkts_sent_id = 0 \<and>
      stream_regs s to_sender_0_pkts_acked_id = 0 \<and>
      stream_regs s to_sender_1_pkts_acked_id = 0 \<and>
      stream_regs s to_sender_0_pkts_completed_id = 0 \<and>
      stream_regs s to_sender_1_pkts_completed_id = 0"
    by (simp add: all_channels_drained_def is_caught_up_to_def)
qed

theorem graceful_termination_returns_only_when_drained_witness:
  "termination_signal (foldl apply_external example_state (externals graceful_request))
     = GRACEFULLY_TERMINATE \<and>
   all_channels_drained example_deps
     (foldl apply_external example_state (externals graceful_request)) \<and>
   (\<exists>s'. main_loop_iteration example_deps example_cfg graceful_request example_state
      = Inr (Returned s')) \<and>
   termination_signal (foldl apply_external example_state (externals push_then_graceful_request))
     = GRACEFULLY_TERMINATE \<and>
   \<not> all_channels_drained example_deps
     (foldl apply_external example_state (externals push_then_graceful_request)) \<and>
   (\<exists>s'. main_loop_iteration example_deps example_cfg push_then_graceful_request example_state
      = Inr (Polling s') \<and> eth_sends (trace s') = [example_header\<lparr>src_ch_id := 0\<rparr>])"
proof -
  note g = graceful_request_facts
  from graceful_termination_returns_only_when_drained
    [of example_state graceful_request example_deps example_cfg, THEN conjunct1, rule_format, OF g(1)]
  have a: "\<exists>s'. main_loop_iteration example_deps example_cfg graceful_request example_state
      = Inr (Returned s')"
    using g(2) by (simp add: Let_def)
  from graceful_termination_returns_only_when_drained
    [of example_state push_then_graceful_request example_deps example_cfg,
     THEN conjunct1, rule_format, OF g(3)]
  have "main_loop_iteration example_deps example_cfg push_then_graceful_request example_state =
      (case service_channels example_deps example_cfg (hw_status push_then_graceful_request)
         (foldl apply_external example_state (externals push_then_graceful_request)) of
         Inl e \<Rightarrow> Inl e | Inr s' \<Rightarrow> Inr (Polling s'))"
    using g(4) by (simp add: Let_def)
  with push_then_graceful_service
  have b: "\<exists>s'. main_loop_iteration example_deps example_cfg push_then_graceful_request example_state
      = Inr (Polling s') \<and> eth_sends (trace s') = [example_header\<lparr>src_ch_id := 0\<rparr>]"
    by auto
  from g a b show ?thesis by blast
qed

text \<open>
  C10.  At its entry the main loop overwrites the termination signal with
  \<^verbatim>\<open>KEEP_RUNNING\<close>: whatever value the signal held before, the run of the loop is the same;
  an iteration before which the controller wrote nothing polls \<^verbatim>\<open>KEEP_RUNNING\<close>; and the loop
  returns only if the controller wrote a value other than \<^verbatim>\<open>KEEP_RUNNING\<close> after the entry.
\<close>

theorem termination_signal_before_entry_is_discarded:
  "termination_signal (main_loop_entry s) = KEEP_RUNNING \<and>
   run_fabric_edm_main_loop deps cfg inps (s\<lparr>termination_signal := sig\<rparr>) =
     run_fabric_edm_main_loop deps cfg inps s \<and>
   ((\<forall>sig'. ControllerWritesTerminationSignal sig' \<notin> set (externals inp)) \<longrightarrow>
      \<not> got_termination_signal (foldl apply_external (main_loop_entry s) (externals inp))) \<and>
   (run_fabric_edm_main_loop deps cfg inps s = Inr (Returned s') \<longrightarrow>
      (\<exists>inp \<in> set inps. \<exists>sig'. sig' \<noteq> KEEP_RUNNING \<and>
         ControllerWritesTerminationSignal sig' \<in> set (externals inp)))"
proof (intro conjI impI)
  show k: "termination_signal (main_loop_entry s) = KEEP_RUNNING"
    by (simp add: main_loop_entry_def)
  show "run_fabric_edm_main_loop deps cfg inps (s\<lparr>termination_signal := sig\<rparr>) =
     run_fabric_edm_main_loop deps cfg inps s"
    by (simp add: run_fabric_edm_main_loop_def main_loop_entry_overwrites_signal)
  {
    assume n: "\<forall>sig'. ControllerWritesTerminationSignal sig' \<notin> set (externals inp)"
    with termination_signal_externals [of "main_loop_entry s" "externals inp"] k
    have "termination_signal (foldl apply_external (main_loop_entry s) (externals inp))
        = KEEP_RUNNING"
      by auto
    then show "\<not> got_termination_signal (foldl apply_external (main_loop_entry s) (externals inp))"
      by (simp add: got_termination_signal_def got_immediate_termination_signal_def
          got_graceful_termination_signal_def)
  }
  {
    assume "run_fabric_edm_main_loop deps cfg inps s = Inr (Returned s')"
    then have "main_loop deps cfg inps (main_loop_entry s) = Inr (Returned s')"
      by (simp add: run_fabric_edm_main_loop_def)
    from main_loop_Returned_needs_controller_write [OF this k]
    show "\<exists>inp \<in> set inps. \<exists>sig'. sig' \<noteq> KEEP_RUNNING \<and>
         ControllerWritesTerminationSignal sig' \<in> set (externals inp)" .
  }
qed

theorem termination_signal_before_entry_is_discarded_witness:
  "(\<exists>s'. run_fabric_edm_main_loop example_deps example_cfg [quiet, immediate_request]
      (example_state\<lparr>termination_signal := IMMEDIATELY_TERMINATE\<rparr>) = Inr (Returned s')) \<and>
   (\<exists>inp \<in> set [quiet, immediate_request]. \<exists>sig'. sig' \<noteq> KEEP_RUNNING \<and>
         ControllerWritesTerminationSignal sig' \<in> set (externals inp)) \<and>
   (\<exists>s'. run_fabric_edm_main_loop example_deps example_cfg [quiet]
      (example_state\<lparr>termination_signal := IMMEDIATELY_TERMINATE\<rparr>) = Inr (Polling s')) \<and>
   \<not> got_termination_signal (foldl apply_external
        (main_loop_entry (example_state\<lparr>termination_signal := IMMEDIATELY_TERMINATE\<rparr>))
        (externals quiet))"
proof -
  let ?s = "example_state\<lparr>termination_signal := IMMEDIATELY_TERMINATE\<rparr>"
  obtain s' where r: "run_fabric_edm_main_loop example_deps example_cfg [quiet, immediate_request] ?s
      = Inr (Returned s')"
    using immediate_request_returns by blast
  note t = termination_signal_before_entry_is_discarded
    [of ?s example_deps example_cfg "[quiet, immediate_request]" IMMEDIATELY_TERMINATE quiet s']
  have q: "\<forall>sig'. ControllerWritesTerminationSignal sig' \<notin> set (externals quiet)"
    by (simp add: quiet_def)
  from t r have a: "\<exists>inp \<in> set [quiet, immediate_request]. \<exists>sig'. sig' \<noteq> KEEP_RUNNING \<and>
         ControllerWritesTerminationSignal sig' \<in> set (externals inp)"
    by blast
  from t q have b: "\<not> got_termination_signal (foldl apply_external (main_loop_entry ?s)
        (externals quiet))"
    by blast
  from r a b quiet_keeps_polling show ?thesis by blast
qed

text \<open>
  C1, as the code has it.  Receiver: a receiver step preserves
  \<open>completion_ptr \<le> wr_flush_ptr \<le> wr_sent_ptr \<le> ack_ptr\<close> as long as the 32-bit ack counter
  does not wrap, and leaves the sender's outbound view alone.  Sender's outbound view: a
  sender step leaves the receiver's pointers alone and never changes the outbound
  \<open>ack_ptr\<close> (acknowledgements advance the channel's \<open>local_ackptr\<close>); it preserves
  \<open>completion_ptr \<le> wrptr\<close> when the completions it drains do not exceed the packets
  outstanding after its send and the write counter does not wrap.  Along every run of the
  main loop of fewer than \<open>2 ^ 32\<close> iterations the receiver ordering holds and the outbound
  \<open>ack_ptr\<close> is still 0.  For the two ends of a link, the credit invariant
  \<open>link_invariant\<close> holds at loop entry (the stream registers are initialised to 0 by
  \<^verbatim>\<open>kernel_main\<close>), is preserved by every sender step of the sending end (while its write
  counter does not wrap) and every receiver step of the receiving end, and gives
  outbound \<open>completion_ptr\<close> \<open>\<le>\<close> receiver \<open>completion_ptr \<le> wr_flush_ptr \<le> wr_sent_ptr \<le> ack_ptr\<close>
  \<open>\<le>\<close> outbound \<open>wrptr\<close>.
\<close>

theorem pointer_ordering_preserved_by_steps:
  "(run_receiver_channel_step deps cfg hw s = Inr s' \<and>
    receiver_ordered (receiver_channel_pointers s) \<and>
    ack_ptr (receiver_channel_pointers s) \<noteq> - 1 \<longrightarrow>
      receiver_ordered (receiver_channel_pointers s') \<and>
      outbound_to_receiver_channel_pointers s' = outbound_to_receiver_channel_pointers s) \<and>
   (run_sender_channel_step deps cfg eth_txq_is_busy ch s = Inr (did, s'') \<longrightarrow>
      receiver_channel_pointers s'' = receiver_channel_pointers s \<and>
      OutboundReceiverChannelPointers.ack_ptr (outbound_to_receiver_channel_pointers s'') =
        OutboundReceiverChannelPointers.ack_ptr (outbound_to_receiver_channel_pointers s) \<and>
      (OutboundReceiverChannelPointers.completion_ptr (outbound_to_receiver_channel_pointers s)
         \<le> wrptr (outbound_to_receiver_channel_pointers s) \<and>
       wrptr (outbound_to_receiver_channel_pointers s) \<noteq> - 1 \<and>
       stream_regs s (to_sender_packets_completed_streams ! ch) \<le>
         int (distance_behind
                (OutboundReceiverChannelPointers.completion_ptr (outbound_to_receiver_channel_pointers s))
                (wrptr (outbound_to_receiver_channel_pointers s''))) \<longrightarrow>
         OutboundReceiverChannelPointers.completion_ptr (outbound_to_receiver_channel_pointers s'')
           \<le> wrptr (outbound_to_receiver_channel_pointers s''))) \<and>
   (run_fabric_edm_main_loop deps cfg inps s0 = Inr out \<and> length inps < 2 ^ 32 \<longrightarrow>
      receiver_ordered (receiver_channel_pointers (outcome_state out)) \<and>
      OutboundReceiverChannelPointers.ack_ptr
        (outbound_to_receiver_channel_pointers (outcome_state out)) = 0) \<and>
   (link_invariant L \<longrightarrow> link_ordered L) \<and>
   (link_sender_step depsA cfgA busyA chA L = Inr L' \<and> link_invariant L \<and>
    wrptr (outbound_to_receiver_channel_pointers (sending L)) \<noteq> - 1 \<longrightarrow>
      link_invariant L') \<and>
   (link_receiver_step depsB cfgB hwB L = Inr L'' \<and> link_invariant L \<longrightarrow>
      link_invariant L'') \<and>
   (stream_regs A to_sender_0_pkts_completed_id = 0 \<and>
    stream_regs A to_sender_1_pkts_completed_id = 0 \<and>
    stream_regs B to_receiver_pkts_sent_id = 0 \<longrightarrow>
      link_invariant \<lparr>sending = main_loop_entry A, receiving = main_loop_entry B\<rparr>)"
proof (intro conjI impI)
  assume a: "run_receiver_channel_step deps cfg hw s = Inr s' \<and>
    receiver_ordered (receiver_channel_pointers s) \<and>
    ack_ptr (receiver_channel_pointers s) \<noteq> - 1"
  then show "receiver_ordered (receiver_channel_pointers s')"
    using receiver_step_preserves_order by blast
  from a show "outbound_to_receiver_channel_pointers s' = outbound_to_receiver_channel_pointers s"
    using run_receiver_channel_step_frame by blast
next
  assume r: "run_sender_channel_step deps cfg eth_txq_is_busy ch s = Inr (did, s'')"
  note o = sender_step_outbound [OF r]
  show "receiver_channel_pointers s'' = receiver_channel_pointers s"
    using run_sender_channel_step_frame [OF r] by simp
  show "OutboundReceiverChannelPointers.ack_ptr (outbound_to_receiver_channel_pointers s'') =
        OutboundReceiverChannelPointers.ack_ptr (outbound_to_receiver_channel_pointers s)"
    using o by simp
  assume h: "OutboundReceiverChannelPointers.completion_ptr (outbound_to_receiver_channel_pointers s)
         \<le> wrptr (outbound_to_receiver_channel_pointers s) \<and>
       wrptr (outbound_to_receiver_channel_pointers s) \<noteq> - 1 \<and>
       stream_regs s (to_sender_packets_completed_streams ! ch) \<le>
         int (distance_behind
                (OutboundReceiverChannelPointers.completion_ptr (outbound_to_receiver_channel_pointers s))
                (wrptr (outbound_to_receiver_channel_pointers s'')))"
  let ?p = "OutboundReceiverChannelPointers.completion_ptr (outbound_to_receiver_channel_pointers s)"
  let ?w = "wrptr (outbound_to_receiver_channel_pointers s)"
  let ?w' = "wrptr (outbound_to_receiver_channel_pointers s'')"
  let ?c = "stream_regs s (to_sender_packets_completed_streams ! ch)"
  have w: "?p \<le> ?w'"
    using o h by (simp add: word_le_succ split: if_splits)
  show "OutboundReceiverChannelPointers.completion_ptr (outbound_to_receiver_channel_pointers s'') \<le> ?w'"
  proof (cases "?c > 0")
    case True
    with h have "?p + word_of_int ?c \<le> ?w'"
      by (intro completion_advance_le [OF w]) (simp_all add: distance_behind_def)
    with True o show ?thesis by simp
  next
    case False
    with o w show ?thesis by simp
  qed
next
  assume a: "run_fabric_edm_main_loop deps cfg inps s0 = Inr out \<and> length inps < 2 ^ 32"
  then have m: "main_loop deps cfg inps (main_loop_entry s0) = Inr out"
    by (simp add: run_fabric_edm_main_loop_def)
  have i: "receiver_ordered (receiver_channel_pointers (main_loop_entry s0))"
    "unat (ack_ptr (receiver_channel_pointers (main_loop_entry s0))) + length inps < 2 ^ 32"
    "OutboundReceiverChannelPointers.ack_ptr
       (outbound_to_receiver_channel_pointers (main_loop_entry s0)) = 0"
    using a by (simp_all add: main_loop_entry_def receiver_ordered_def)
  from main_loop_pointers [OF m i(1,2)] i(3)
  show "receiver_ordered (receiver_channel_pointers (outcome_state out))"
    and "OutboundReceiverChannelPointers.ack_ptr
        (outbound_to_receiver_channel_pointers (outcome_state out)) = 0"
    by simp_all
next
  assume "link_invariant L"
  then show "link_ordered L" by (rule link_invariant_ordered)
next
  assume "link_sender_step depsA cfgA busyA chA L = Inr L' \<and> link_invariant L \<and>
    wrptr (outbound_to_receiver_channel_pointers (sending L)) \<noteq> - 1"
  then show "link_invariant L'"
    using link_sender_step_invariant by blast
next
  assume "link_receiver_step depsB cfgB hwB L = Inr L'' \<and> link_invariant L"
  then show "link_invariant L''"
    using link_receiver_step_invariant by blast
next
  assume "stream_regs A to_sender_0_pkts_completed_id = 0 \<and>
    stream_regs A to_sender_1_pkts_completed_id = 0 \<and>
    stream_regs B to_receiver_pkts_sent_id = 0"
  then show "link_invariant \<lparr>sending = main_loop_entry A, receiving = main_loop_entry B\<rparr>"
    using link_invariant_at_entry by blast
qed

theorem pointer_ordering_preserved_by_steps_witness:
  "receiver_ordered (receiver_channel_pointers (arrived_state (example_header\<lparr>src_ch_id := 1\<rparr>))) \<and>
   ack_ptr (receiver_channel_pointers (arrived_state (example_header\<lparr>src_ch_id := 1\<rparr>))) \<noteq> - 1 \<and>
   (\<exists>s'. run_receiver_channel_step example_deps example_cfg idle_hw
            (arrived_state (example_header\<lparr>src_ch_id := 1\<rparr>)) = Inr s' \<and>
         receiver_ordered (receiver_channel_pointers s')) \<and>
   OutboundReceiverChannelPointers.completion_ptr (outbound_to_receiver_channel_pointers completed_state)
     \<le> wrptr (outbound_to_receiver_channel_pointers completed_state) \<and>
   wrptr (outbound_to_receiver_channel_pointers completed_state) \<noteq> - 1 \<and>
   (\<exists>did s''. run_sender_channel_step example_deps example_cfg False 0 completed_state
        = Inr (did, s'') \<and>
      stream_regs completed_state (to_sender_packets_completed_streams ! 0) \<le>
         int (distance_behind
                (OutboundReceiverChannelPointers.completion_ptr
                   (outbound_to_receiver_channel_pointers completed_state))
                (wrptr (outbound_to_receiver_channel_pointers s''))) \<and>
      OutboundReceiverChannelPointers.completion_ptr (outbound_to_receiver_channel_pointers s'')
        \<le> wrptr (outbound_to_receiver_channel_pointers s'') \<and>
      OutboundReceiverChannelPointers.ack_ptr (outbound_to_receiver_channel_pointers s'') = 0) \<and>
   (\<exists>out. run_fabric_edm_main_loop example_deps example_cfg
        [push, ack_arrives, quiet, completion_arrives, quiet] example_state = Inr out \<and>
      receiver_ordered (receiver_channel_pointers (outcome_state out))) \<and>
   link_invariant example_link \<and>
   wrptr (outbound_to_receiver_channel_pointers (sending example_link)) \<noteq> - 1 \<and>
   (\<exists>L1 L2. link_sender_step example_deps example_cfg False 0 example_link = Inr L1 \<and>
      link_receiver_step example_deps example_cfg idle_hw L1 = Inr L2 \<and>
      link_invariant L1 \<and> link_invariant L2 \<and> link_ordered L2 \<and>
      wrptr (outbound_to_receiver_channel_pointers (sending L2)) = 1 \<and>
      completion_ptr (receiver_channel_pointers (receiving L2)) = 1)"
proof -
  let ?a = "arrived_state (example_header\<lparr>src_ch_id := 1\<rparr>)"
  let ?inps = "[push, ack_arrives, quiet, completion_arrives, quiet]"
  have a: "receiver_ordered (receiver_channel_pointers ?a)"
    "ack_ptr (receiver_channel_pointers ?a) \<noteq> - 1"
    by (simp_all add: arrived_state_def example_defs receiver_ordered_def)
  obtain s' where r: "run_receiver_channel_step example_deps example_cfg idle_hw ?a = Inr s'"
    using arrived_local_only_step by blast
  obtain did s'' where
    t: "run_sender_channel_step example_deps example_cfg False 0 completed_state = Inr (did, s'')"
    and w: "wrptr (outbound_to_receiver_channel_pointers s'') = 1"
    using completed_state_step by simp
  obtain s5 where l: "run_fabric_edm_main_loop example_deps example_cfg ?inps example_state
      = Inr (Polling s5)"
    using five_iterations_poll by blast
  note th1 = pointer_ordering_preserved_by_steps
    [where deps = example_deps and cfg = example_cfg and hw = idle_hw and s = ?a and s' = s',
     THEN conjunct1, rule_format]
  note th2 = pointer_ordering_preserved_by_steps
    [where deps = example_deps and cfg = example_cfg and eth_txq_is_busy = False and ch = 0
       and s = completed_state and did = did and s'' = s'',
     THEN conjunct2, THEN conjunct1, rule_format, OF t]
  note th1l = pointer_ordering_preserved_by_steps
    [where deps = example_deps and cfg = example_cfg
       and inps = ?inps and ?s0.0 = example_state and out = "Polling s5",
     THEN conjunct2, THEN conjunct2, THEN conjunct1, rule_format]
  have c: "OutboundReceiverChannelPointers.completion_ptr
        (outbound_to_receiver_channel_pointers completed_state)
      \<le> wrptr (outbound_to_receiver_channel_pointers completed_state)"
    "wrptr (outbound_to_receiver_channel_pointers completed_state) \<noteq> - 1"
    "stream_regs completed_state (to_sender_packets_completed_streams ! 0) \<le>
         int (distance_behind
                (OutboundReceiverChannelPointers.completion_ptr
                   (outbound_to_receiver_channel_pointers completed_state))
                (wrptr (outbound_to_receiver_channel_pointers s'')))"
    using w by (simp_all add: completed_state_facts distance_behind_def)
  from th1 a r
  have 1: "receiver_ordered (receiver_channel_pointers s')" by blast
  from th2 c
  have 2: "OutboundReceiverChannelPointers.completion_ptr (outbound_to_receiver_channel_pointers s'')
        \<le> wrptr (outbound_to_receiver_channel_pointers s'')"
    "OutboundReceiverChannelPointers.ack_ptr (outbound_to_receiver_channel_pointers s'') = 0"
    by (simp_all add: completed_state_facts)
  from th1l l
  have 3: "receiver_ordered (receiver_channel_pointers (outcome_state (Polling s5)))"
    by simp
  have e: "link_invariant example_link"
    "wrptr (outbound_to_receiver_channel_pointers (sending example_link)) \<noteq> - 1"
    unfolding example_link_def pushed_state_def example_state_def
    using link_invariant_at_entry [where A = "sending example_link" and B = "receiving example_link"]
    by (simp_all add: link_invariant_def link_credits_def receiver_ordered_def main_loop_entry_def)
  obtain L1 L2 where
    k1: "link_sender_step example_deps example_cfg False 0 example_link = Inr L1"
    and k2: "link_receiver_step example_deps example_cfg idle_hw L1 = Inr L2"
    and k3: "wrptr (outbound_to_receiver_channel_pointers (sending L2)) = 1"
      "completion_ptr (receiver_channel_pointers (receiving L2)) = 1"
    using example_link_steps by blast
  note th3 = pointer_ordering_preserved_by_steps
    [where depsA = example_deps and cfgA = example_cfg and busyA = False and chA = 0
       and L = example_link and L' = L1,
     THEN conjunct2, THEN conjunct2, THEN conjunct2, THEN conjunct2, THEN conjunct1, rule_format]
  from th3 k1 e have i1: "link_invariant L1" by blast
  note th4 = pointer_ordering_preserved_by_steps
    [where depsB = example_deps and cfgB = example_cfg and hwB = idle_hw
       and L = L1 and L'' = L2,
     THEN conjunct2, THEN conjunct2, THEN conjunct2, THEN conjunct2, THEN conjunct2,
     THEN conjunct1, rule_format]
  from th4 k2 i1 have i2: "link_invariant L2" by blast
  note th5 = pointer_ordering_preserved_by_steps
    [where L = L2, THEN conjunct2, THEN conjunct2, THEN conjunct2, THEN conjunct1, rule_format]
  from th5 i2 have o2: "link_ordered L2" by blast
  from a r 1 c t 2 l 3 have first: "receiver_ordered (receiver_channel_pointers (arrived_state (example_header\<lparr>src_ch_id := 1\<rparr>))) \<and>
   ack_ptr (receiver_channel_pointers (arrived_state (example_header\<lparr>src_ch_id := 1\<rparr>))) \<noteq> - 1 \<and>
   (\<exists>s'. run_receiver_channel_step example_deps example_cfg idle_hw
            (arrived_state (example_header\<lparr>src_ch_id := 1\<rparr>)) = Inr s' \<and>
         receiver_ordered (receiver_channel_pointers s')) \<and>
   OutboundReceiverChannelPointers.completion_ptr (outbound_to_receiver_channel_pointers completed_state)
     \<le> wrptr (outbound_to_receiver_channel_pointers completed_state) \<and>
   wrptr (outbound_to_receiver_channel_pointers completed_state) \<noteq> - 1 \<and>
   (\<exists>did s''. run_sender_channel_step example_deps example_cfg False 0 completed_state
        = Inr (did, s'') \<and>
      stream_regs completed_state (to_sender_packets_completed_streams ! 0) \<le>
         int (distance_behind
                (OutboundReceiverChannelPointers.completion_ptr
                   (outbound_to_receiver_channel_pointers completed_state))
                (wrptr (outbound_to_receiver_channel_pointers s''))) \<and>
      OutboundReceiverChannelPointers.completion_ptr (outbound_to_receiver_channel_pointers s'')
        \<le> wrptr (outbound_to_receiver_channel_pointers s'') \<and>
      OutboundReceiverChannelPointers.ack_ptr (outbound_to_receiver_channel_pointers s'') = 0) \<and>
   (\<exists>out. run_fabric_edm_main_loop example_deps example_cfg
        [push, ack_arrives, quiet, completion_arrives, quiet] example_state = Inr out \<and>
      receiver_ordered (receiver_channel_pointers (outcome_state out)))"
    by blast
  from e k1 k2 i1 i2 o2 k3 have second:
    "link_invariant example_link \<and>
     wrptr (outbound_to_receiver_channel_pointers (sending example_link)) \<noteq> - 1 \<and>
     (\<exists>L1 L2. link_sender_step example_deps example_cfg False 0 example_link = Inr L1 \<and>
        link_receiver_step example_deps example_cfg idle_hw L1 = Inr L2 \<and>
        link_invariant L1 \<and> link_invariant L2 \<and> link_ordered L2 \<and>
        wrptr (outbound_to_receiver_channel_pointers (sending L2)) = 1 \<and>
        completion_ptr (receiver_channel_pointers (receiving L2)) = 1)"
    by blast
  from first second show ?thesis by simp
qed

text \<open>
  C1 as stated fails for the sender's outbound view: in \<open>completed_state\<close> (one packet sent
  by channel 0, acknowledged and completed by the remote receiver) the ordering
  \<open>completion_ptr \<le> ack_ptr \<le> wrptr\<close> holds, and after one sender step the outbound view is
  \<open>wrptr = 1, ack_ptr = 0, completion_ptr = 1\<close>.
\<close>

theorem sender_step_breaks_outbound_ordering:
  "outbound_ordered (outbound_to_receiver_channel_pointers completed_state) \<and>
   map_sum id (outbound_to_receiver_channel_pointers \<circ> snd)
     (run_sender_channel_step example_deps example_cfg False 0 completed_state) =
     Inr \<lparr>wrptr = 1, OutboundReceiverChannelPointers.ack_ptr = 0,
          OutboundReceiverChannelPointers.completion_ptr = 1\<rparr> \<and>
   \<not> outbound_ordered \<lparr>wrptr = 1, OutboundReceiverChannelPointers.ack_ptr = 0,
          OutboundReceiverChannelPointers.completion_ptr = 1\<rparr>"
  by (simp add: completed_state_step completed_state_facts outbound_ordered_def)

text \<open>
  C3, as the code has it.  Within a sender step the packets-completed register of the
  channel is read and drained before its packets-acked register is read and drained, and
  no other stream register access happens in the step.  When the completions read are
  positive, the local read pointer and the outbound completion pointer advance by that
  count and the register is decremented by it; when the acks read are positive, the local
  ack pointer advances by that count, the read pointer is republished to the worker if the
  connection was established, and the register is decremented by the count.  (Nothing is
  said about the acks read in a step being at least the completions read in it.)
\<close>

theorem completions_are_drained_before_acks:
  assumes "run_sender_channel_step deps cfg eth_txq_is_busy ch s = Inr (did, s')"
  shows "let completed_id = to_sender_packets_completed_streams ! ch;
             acked_id = to_sender_packets_acked_streams ! ch;
             completions = stream_regs s completed_id;
             acks = stream_regs s acked_id;
             iface = local_sender_channel_worker_interfaces s ch;
             iface' = local_sender_channel_worker_interfaces s' ch
         in (\<exists>before after.
               trace s' = trace s @ before @
                 (GetPtrVal completed_id completions #
                    (if completions > 0
                     then [IncrementLocalUpdatePtrVal completed_id (- completions)] else [])) @
                 (GetPtrVal acked_id acks #
                    (if acks > 0
                     then (if channel_connection_established s ch
                           then [UpdateWorkerCopyOfReadPtr] else []) @
                          [IncrementLocalUpdatePtrVal acked_id (- acks)]
                     else [])) @ after \<and>
               stream_reg_accesses before = [] \<and> stream_reg_accesses after = []) \<and>
            local_rdptr iface' =
              (if completions > 0 then increment_n (local_rdptr iface) completions
               else local_rdptr iface) \<and>
            OutboundReceiverChannelPointers.completion_ptr (outbound_to_receiver_channel_pointers s') =
              (if completions > 0
               then increment_n (OutboundReceiverChannelPointers.completion_ptr
                                   (outbound_to_receiver_channel_pointers s)) completions
               else OutboundReceiverChannelPointers.completion_ptr
                      (outbound_to_receiver_channel_pointers s)) \<and>
            stream_regs s' completed_id =
              (if completions > 0 then stream_regs s completed_id - completions
               else stream_regs s completed_id) \<and>
            local_ackptr iface' =
              (if acks > 0 then increment_n (local_ackptr iface) acks else local_ackptr iface) \<and>
            stream_regs s' acked_id =
              (if acks > 0 then stream_regs s acked_id - acks else stream_regs s acked_id)"
proof -
  obtain d1 s1 where p1: "sender_send_phase deps cfg eth_txq_is_busy ch s = (d1, s1)"
    by (cases "sender_send_phase deps cfg eth_txq_is_busy ch s")
  from assms p1 obtain c s2 where p2: "sender_process_completions ch s1 = Inr (c, s2)"
    by (auto simp: run_sender_channel_step_def split: sum.splits)
  from assms p1 p2 obtain a s3 where p3: "sender_process_acks ch s2 = Inr (a, s3)"
    by (auto simp: run_sender_channel_step_def split: sum.splits)
  from assms p1 p2 p3 have p4:
    "sender_connection_phase deps cfg ch (d1 \<or> c + a > 0) s3 = (did, s')"
    by (simp add: run_sender_channel_step_def)
  note e1 = sender_send_phase_effect [OF p1] sender_send_phase_frame [OF p1]
  note e2 = sender_process_completions_effect [OF p2]
  note e3 = sender_process_acks_effect [OF p3]
  note e4 = sender_connection_phase_effect [OF p4, of 0]
  let ?cid = "to_sender_packets_completed_streams ! ch"
  let ?aid = "to_sender_packets_acked_streams ! ch"
  from e2 obtain sid where c1: "array_at to_sender_packets_completed_streams ch = Inr sid"
    by blast
  from e3 obtain sid' where c2: "array_at to_sender_packets_acked_streams ch = Inr sid'"
    by blast
  note ids = array_at_streams(1) [OF c1] array_at_streams(2) [OF c2]
  have ne: "?cid \<noteq> ?aid" using ids by auto
  from e1 obtain evs1 where t1: "trace s1 = trace s @ evs1"
    and a1: "stream_reg_accesses evs1 = []" by blast
  have c: "c = stream_regs s ?cid" using e1 e2 c1 ids by auto
  have t2: "trace s2 = trace s1 @ GetPtrVal ?cid c #
      (if c > 0 then [IncrementLocalUpdatePtrVal ?cid (- c)] else [])"
    using e2 c1 ids by auto
  have r2: "stream_regs s2 = (if c > 0 then (stream_regs s)(?cid := 0) else stream_regs s)"
    using e1 e2 c1 ids by auto
  have a: "a = stream_regs s ?aid" using e3 c2 ids r2 ne by auto
  have cc: "channel_connection_established s2 ch = channel_connection_established s ch"
    using e1 e2 by simp
  have t3: "trace s3 = trace s2 @ GetPtrVal ?aid a #
      (if a > 0 then (if channel_connection_established s ch then [UpdateWorkerCopyOfReadPtr] else [])
                        @ [IncrementLocalUpdatePtrVal ?aid (- a)] else [])"
    using e3 c2 ids cc by auto
  have r3: "stream_regs s3 = (if a > 0 then (stream_regs s2)(?aid := 0) else stream_regs s2)"
    using e3 c2 ids by auto
  from e4 obtain evs4 where t4: "trace s' = trace s3 @ evs4"
    and a4: "stream_reg_accesses evs4 = []" by blast
  have tr: "trace s' = trace s @ evs1 @
      (GetPtrVal ?cid c # (if c > 0 then [IncrementLocalUpdatePtrVal ?cid (- c)] else [])) @
      (GetPtrVal ?aid a #
        (if a > 0 then (if channel_connection_established s ch then [UpdateWorkerCopyOfReadPtr] else [])
                        @ [IncrementLocalUpdatePtrVal ?aid (- a)] else [])) @ evs4"
    using t1 t2 t3 t4 by simp
  note f1 = sender_send_phase_frame [OF p1, of ch]
  have rd: "local_rdptr (local_sender_channel_worker_interfaces s' ch) =
      (if c > 0 then increment_n (local_rdptr (local_sender_channel_worker_interfaces s ch)) c
       else local_rdptr (local_sender_channel_worker_interfaces s ch))"
    using f1 e2 e3 e4 by (simp add: increment_n_def)
  have ak: "local_ackptr (local_sender_channel_worker_interfaces s' ch) =
      (if a > 0 then increment_n (local_ackptr (local_sender_channel_worker_interfaces s ch)) a
       else local_ackptr (local_sender_channel_worker_interfaces s ch))"
    using f1 e2 e3 e4 by (simp add: increment_n_def)
  have cp: "OutboundReceiverChannelPointers.completion_ptr (outbound_to_receiver_channel_pointers s') =
      (if c > 0
       then increment_n (OutboundReceiverChannelPointers.completion_ptr
                           (outbound_to_receiver_channel_pointers s)) c
       else OutboundReceiverChannelPointers.completion_ptr (outbound_to_receiver_channel_pointers s))"
    using f1 e2 e3 e4 by (simp add: increment_n_def)
  have rs: "stream_regs s' = stream_regs s3" using e4 by simp
  have rc: "stream_regs s' ?cid = (if c > 0 then stream_regs s ?cid - c else stream_regs s ?cid)"
    using rs r3 r2 ne c by simp
  have ra: "stream_regs s' ?aid = (if a > 0 then stream_regs s ?aid - a else stream_regs s ?aid)"
    using rs r3 r2 ne a by simp
  have ex: "\<exists>before after.
      trace s' = trace s @ before @
        (GetPtrVal ?cid c # (if c > 0 then [IncrementLocalUpdatePtrVal ?cid (- c)] else [])) @
        (GetPtrVal ?aid a #
          (if a > 0 then (if channel_connection_established s ch then [UpdateWorkerCopyOfReadPtr] else [])
                          @ [IncrementLocalUpdatePtrVal ?aid (- a)] else [])) @ after \<and>
      stream_reg_accesses before = [] \<and> stream_reg_accesses after = []"
    using tr a1 a4 by blast
  show ?thesis
    unfolding Let_def using ex rd ak cp rc ra unfolding c a by blast
qed

theorem completions_are_drained_before_acks_witness:
  "\<exists>did s'. run_sender_channel_step example_deps example_cfg False 0 completed_state = Inr (did, s') \<and>
      stream_reg_accesses (drop (length (trace completed_state)) (trace s')) =
        [GetPtrVal 3 1, IncrementLocalUpdatePtrVal 3 (- 1),
         GetPtrVal 1 1, IncrementLocalUpdatePtrVal 1 (- 1)] \<and>
      local_rdptr (local_sender_channel_worker_interfaces s' 0) = 1 \<and>
      OutboundReceiverChannelPointers.completion_ptr (outbound_to_receiver_channel_pointers s') = 1 \<and>
      local_ackptr (local_sender_channel_worker_interfaces s' 0) = 1 \<and>
      stream_regs s' 3 = 0 \<and> stream_regs s' 1 = 0"
proof -
  obtain did s' where
    r: "run_sender_channel_step example_deps example_cfg False 0 completed_state = Inr (did, s')"
    using completed_state_step by simp
  have ids: "to_sender_packets_completed_streams ! 0 = 3" "to_sender_packets_acked_streams ! 0 = 1"
    by (simp_all add: to_sender_packets_completed_streams_def to_sender_packets_acked_streams_def
        to_sender_0_pkts_completed_id_def to_sender_0_pkts_acked_id_def)
  from completions_are_drained_before_acks [OF r]
  have "stream_reg_accesses (drop (length (trace completed_state)) (trace s')) =
        [GetPtrVal 3 1, IncrementLocalUpdatePtrVal 3 (- 1),
         GetPtrVal 1 1, IncrementLocalUpdatePtrVal 1 (- 1)] \<and>
      local_rdptr (local_sender_channel_worker_interfaces s' 0) = 1 \<and>
      OutboundReceiverChannelPointers.completion_ptr (outbound_to_receiver_channel_pointers s') = 1 \<and>
      local_ackptr (local_sender_channel_worker_interfaces s' 0) = 1 \<and>
      stream_regs s' 3 = 0 \<and> stream_regs s' 1 = 0"
    using completed_state_facts(2-6) unfolding Let_def ids
    by (auto simp: increment_n_def ids)
  with r show ?thesis by blast
qed

text \<open>
  C3 as stated fails in "the acks observed in any step are at least the completions
  observed in that step".  Run from loop entry: a worker pushes one packet (iteration 1,
  channel 0 sends it), the acknowledgement lands (drained by channel 0 in iteration 3),
  the completion lands later (drained in iteration 5).  The three steps of channel 0 read
  0, 0, 1 completions and 0, 1, 0 acks: the third observes one completion and no ack.
\<close>

theorem step_observes_more_completions_than_acks:
  "map_option (observed to_sender_0_pkts_completed_id \<circ> trace)
     (polled (run_fabric_edm_main_loop example_deps example_cfg
        [push, ack_arrives, quiet, completion_arrives, quiet] example_state)) = Some [0, 0, 1] \<and>
   map_option (observed to_sender_0_pkts_acked_id \<circ> trace)
     (polled (run_fabric_edm_main_loop example_deps example_cfg
        [push, ack_arrives, quiet, completion_arrives, quiet] example_state)) = Some [0, 1, 0]"
  by (simp add: polled_def push_def ack_arrives_def completion_arrives_def input_defs example_defs
      model_defs receiver_defs loop_defs Let_def)

text \<open>
  C7 fails on the code.  \<^verbatim>\<open>run_receiver_channel_step\<close> never writes \<^verbatim>\<open>receiver_state_out\<close>, so
  \<^verbatim>\<open>old_recv_state != receiver_state\<close> is always false and the idle count follows the sender
  step alone (\<open>idle_count_follows_sender_step_only\<close>).  With \<^verbatim>\<open>SWITCH_INTERVAL\<close> = 0 and a packet
  arriving in each of two iterations, the receiver acknowledges, writes, flushes and
  completes a packet in both, the idle count is 1 after the first, and the second ends
  with the call of \<^verbatim>\<open>run_routing\<close>.
\<close>

theorem routing_task_runs_despite_receiver_progress:
  "map_option trace (polled (run_fabric_edm_main_loop example_deps example_cfg
        [packet_arrives 0, packet_arrives 1] example_state)) =
     Some [GetPtrVal 3 0, GetPtrVal 1 0,
           GetPtrVal 0 1, IncrementLocalUpdatePtrVal 0 (- 1), RemoteUpdatePtrVal 1 1,
           ExecuteChipUnicastToLocalChip (example_header\<lparr>src_ch_id := 0\<rparr>),
           EthClearSenderChannelAck 0, RemoteUpdatePtrVal 3 1,
           GetPtrVal 4 0, GetPtrVal 2 0,
           GetPtrVal 0 1, IncrementLocalUpdatePtrVal 0 (- 1), RemoteUpdatePtrVal 1 1,
           ExecuteChipUnicastToLocalChip (example_header\<lparr>src_ch_id := 0\<rparr>),
           EthClearSenderChannelAck 1, RemoteUpdatePtrVal 3 1,
           RunRouting] \<and>
   map_option receiver_channel_pointers (polled (run_fabric_edm_main_loop example_deps example_cfg
        [packet_arrives 0] example_state)) =
     Some \<lparr>wr_sent_ptr = 1, wr_flush_ptr = 1, ack_ptr = 1, completion_ptr = 1\<rparr> \<and>
   map_option did_nothing_count (polled (run_fabric_edm_main_loop example_deps example_cfg
        [packet_arrives 0] example_state)) = Some 1 \<and>
   SWITCH_INTERVAL example_cfg = 0"
  by (simp add: polled_def packet_arrives_def example_defs model_defs receiver_defs loop_defs Let_def)



end
